theory Spec2Isabelle
  imports Complex_Main "HOL-Library.AList"
begin

section \<open>Data model (src/parsers/types.ts)\<close>

text \<open>
  The TypeScript interfaces become records. A field whose name is reserved in Isabelle or
  is already the name of another field or of a parameter carries a suffix: \<open>file_s\<close> and
  \<open>range_s\<close> for \<open>SymbolInfo.file\<close> and \<open>SymbolInfo.range\<close>, the suffix \<open>_e\<close> for the
  fields of \<open>ExportInfo\<close>, the suffix \<open>_f\<close> for those of \<open>FuzzyResult\<close>. \<open>SymbolKind\<close> is a union
  of string literals and stays a string. JavaScript strings are modelled as lists of 8-bit
  characters; the case conversions below are the ASCII ones. JavaScript numbers that count
  lines, columns or recursion depth are natural numbers, scores and time stamps are reals.
\<close>

record SymbolLocation =
  startLine :: nat
  endLine :: nat
  startCol :: nat
  endCol :: nat

type_synonym SymbolKind = string

record SymbolInfo =
  name :: string
  kind :: SymbolKind
  file_s :: string
  location :: SymbolLocation
  range_s :: string
  signature :: string
  language :: string

text \<open>\<open>ExportKind = 'named' | 'default' | 'all'\<close>; the spec calls \<open>'all'\<close> a wildcard.\<close>

datatype ExportKind = Named | Default | All

record ExportInfo =
  kind_e :: ExportKind
  localName_e :: "string option"
  exportedName_e :: "string option"
  source_e :: "string option"
  location_e :: SymbolLocation

record ParseResult =
  symbols :: "SymbolInfo list"
  exports :: "ExportInfo list"
  errors :: "string list"

section \<open>Strings\<close>

definition upperChars :: string where
  "upperChars = ''ABCDEFGHIJKLMNOPQRSTUVWXYZ''"

definition lowerChars :: string where
  "lowerChars = ''abcdefghijklmnopqrstuvwxyz''"

definition digitChars :: string where
  "digitChars = ''0123456789''"

definition lowerChar :: "char \<Rightarrow> char" where
  "lowerChar c = (case map_of (zip upperChars lowerChars) c of None \<Rightarrow> c | Some d \<Rightarrow> d)"

definition upperChar :: "char \<Rightarrow> char" where
  "upperChar c = (case map_of (zip lowerChars upperChars) c of None \<Rightarrow> c | Some d \<Rightarrow> d)"

text \<open>
  \<open>String.prototype.toLowerCase\<close> and \<open>toUpperCase\<close> on ASCII text: the 26 letters are
  mapped and every other character is left as it is. JavaScript also maps letters outside
  ASCII; the strings of this development are ASCII strings.
\<close>

definition toLowerCase :: "string \<Rightarrow> string" where
  "toLowerCase s = map lowerChar s"

definition toUpperCase :: "string \<Rightarrow> string" where
  "toUpperCase s = map upperChar s"

text \<open>\<open>s.startsWith(q)\<close>.\<close>

fun startsWith :: "string \<Rightarrow> string \<Rightarrow> bool" where
  "startsWith s [] = True"
| "startsWith [] (q # qs) = False"
| "startsWith (c # cs) (q # qs) = (c = q \<and> startsWith cs qs)"

text \<open>\<open>s.includes(q)\<close>: \<open>q\<close> occurs in \<open>s\<close> as a contiguous substring.\<close>

fun str_includes :: "string \<Rightarrow> string \<Rightarrow> bool" where
  "str_includes [] q = (q = [])"
| "str_includes (c # cs) q = (startsWith (c # cs) q \<or> str_includes cs q)"

text \<open>\<open>s.lastIndexOf(c)\<close> for a single character; \<open>-1\<close> when \<open>c\<close> does not occur.\<close>

fun lastIndexOf :: "string \<Rightarrow> char \<Rightarrow> int" where
  "lastIndexOf [] c = - 1"
| "lastIndexOf (x # xs) c =
     (if 0 \<le> lastIndexOf xs c then lastIndexOf xs c + 1
      else if x = c then 0 else - 1)"

text \<open>\<open>s.substring(i)\<close>: a negative start counts as \<open>0\<close>.\<close>

definition substring :: "string \<Rightarrow> int \<Rightarrow> string" where
  "substring s i = drop (nat (max 0 i)) s"

text \<open>Decimal rendering of a line number, as a template literal prints it.\<close>

fun showNat :: "nat \<Rightarrow> string" where
  "showNat n = (if n < 10 then [digitChars ! n] else showNat (n div 10) @ [digitChars ! (n mod 10)])"

declare showNat.simps [simp del]

text \<open>\<open>formatRange\<close> (src/utils/fileReader.ts): the literal \<open>[startLine:endLine]\<close>.\<close>

definition formatRange :: "nat \<Rightarrow> nat \<Rightarrow> string" where
  "formatRange startLine' endLine' = ''['' @ showNat startLine' @ '':'' @ showNat endLine' @ '']''"

text \<open>
  \<open>[...new Set(xs)]\<close>: the elements of \<open>xs\<close> in order of first occurrence. \<open>uniqFrom seen\<close> is
  the loop that inserts into a set already holding \<open>seen\<close>.
\<close>

fun uniqFrom :: "'a list \<Rightarrow> 'a list \<Rightarrow> 'a list" where
  "uniqFrom seen [] = []"
| "uniqFrom seen (x # xs) =
     (if x \<in> set seen then uniqFrom seen xs else x # uniqFrom (x # seen) xs)"

definition uniq :: "'a list \<Rightarrow> 'a list" where
  "uniq xs = uniqFrom [] xs"

section \<open>Parse cache (src/parsers/cache.ts)\<close>

text \<open>
  The file system as the extractors see it: \<open>statMtime p\<close> is \<open>fs.statSync(toAbsolute(p)).mtimeMs\<close>,
  \<open>None\<close> when \<open>statSync\<close> throws; \<open>readFile p\<close> is \<open>fs.readFileSync(toAbsolute(p), 'utf-8')\<close>,
  \<open>None\<close> when it throws.
\<close>

record FileSystem =
  statMtime :: "string \<Rightarrow> real option"
  readFile :: "string \<Rightarrow> string option"

record CacheEntry =
  mtime :: real
  result :: ParseResult

text \<open>The module-level \<open>Map<string, CacheEntry>\<close>, passed explicitly.\<close>

type_synonym Cache = "string \<rightharpoonup> CacheEntry"

definition getCachedResult :: "FileSystem \<Rightarrow> Cache \<Rightarrow> string \<Rightarrow> ParseResult option \<times> Cache" where
  "getCachedResult fs cache filePath =
     (case cache filePath of
        None \<Rightarrow> (None, cache)
      | Some entry \<Rightarrow>
          (case statMtime fs filePath of
             Some currentMtime \<Rightarrow>
               if currentMtime = mtime entry then (Some (result entry), cache)
               else (None, cache(filePath := None))
           | None \<Rightarrow> (None, cache(filePath := None))))"

definition setCachedResult :: "FileSystem \<Rightarrow> Cache \<Rightarrow> string \<Rightarrow> ParseResult \<Rightarrow> Cache" where
  "setCachedResult fs cache filePath res =
     (case statMtime fs filePath of
        Some m \<Rightarrow> cache(filePath \<mapsto> \<lparr>mtime = m, result = res\<rparr>)
      | None \<Rightarrow> cache)"

definition invalidateCache :: "Cache \<Rightarrow> string option \<Rightarrow> Cache" where
  "invalidateCache cache filePath =
     (case filePath of
        None \<Rightarrow> Map.empty
      | Some p \<Rightarrow> if p = [] then Map.empty else cache(p := None))"

text \<open>\<open>readFileContent\<close> (src/utils/fileReader.ts).\<close>

definition readFileContent :: "FileSystem \<Rightarrow> string \<Rightarrow> string option" where
  "readFileContent fs filePath = readFile fs filePath"

section \<open>Language extractors: \<open>parseFile\<close> and \<open>parseFileForSymbol\<close>\<close>

text \<open>
  The tree-sitter parser and the walk over its syntax tree are a parameter of each
  extractor: \<open>pass filePath sourceCode\<close> is \<open>Inr\<close> of what the walk collects, or \<open>Inl err\<close>
  when something inside the \<open>try\<close> block throws \<open>err\<close>.

  \<open>parseFile\<close> is the function of src/parsers/typescript.ts. A file that cannot be read
  and an empty file both fail the test \<open>!sourceCode\<close>.
\<close>

definition readFailure :: "string \<Rightarrow> ParseResult" where
  "readFailure filePath =
     \<lparr>symbols = [], exports = [], errors = [''Failed to read file: '' @ filePath]\<rparr>"

definition parseFailure :: "string \<Rightarrow> string \<Rightarrow> ParseResult" where
  "parseFailure filePath err =
     \<lparr>symbols = [], exports = [], errors = [''Failed to parse file: '' @ filePath @ '' - '' @ err]\<rparr>"

definition parseFile ::
    "(string \<Rightarrow> string \<Rightarrow> string + SymbolInfo list \<times> ExportInfo list) \<Rightarrow>
     FileSystem \<Rightarrow> Cache \<Rightarrow> string \<Rightarrow> ParseResult \<times> Cache" where
  "parseFile pass fs cache filePath =
     (case getCachedResult fs cache filePath of
        (Some cached, cache') \<Rightarrow> (cached, cache')
      | (None, cache') \<Rightarrow>
          (case readFileContent fs filePath of
             None \<Rightarrow> (readFailure filePath, cache')
           | Some sourceCode \<Rightarrow>
               if sourceCode = [] then (readFailure filePath, cache')
               else (case pass filePath sourceCode of
                       Inl err \<Rightarrow> (parseFailure filePath err, cache')
                     | Inr (syms, exps) \<Rightarrow>
                         (\<lparr>symbols = syms, exports = exps, errors = []\<rparr>,
                          setCachedResult fs cache' filePath
                            \<lparr>symbols = syms, exports = exps, errors = []\<rparr>))))"

text \<open>
  The \<open>parseFile\<close> of the solidity, python, css and html extractors: the same body, with a
  walk that collects symbols only and an \<open>exports\<close> array that stays empty.
\<close>

definition parseFile_plain ::
    "(string \<Rightarrow> string \<Rightarrow> string + SymbolInfo list) \<Rightarrow>
     FileSystem \<Rightarrow> Cache \<Rightarrow> string \<Rightarrow> ParseResult \<times> Cache" where
  "parseFile_plain pass fs cache filePath =
     (case getCachedResult fs cache filePath of
        (Some cached, cache') \<Rightarrow> (cached, cache')
      | (None, cache') \<Rightarrow>
          (case readFileContent fs filePath of
             None \<Rightarrow> (readFailure filePath, cache')
           | Some sourceCode \<Rightarrow>
               if sourceCode = [] then (readFailure filePath, cache')
               else (case pass filePath sourceCode of
                       Inl err \<Rightarrow> (parseFailure filePath err, cache')
                     | Inr syms \<Rightarrow>
                         (\<lparr>symbols = syms, exports = [], errors = []\<rparr>,
                          setCachedResult fs cache' filePath
                            \<lparr>symbols = syms, exports = [], errors = []\<rparr>))))"

text \<open>
  \<open>!type || s.kind === type\<close>: an absent or empty \<open>type\<close> matches every symbol.
\<close>

definition typeMatch :: "SymbolKind option \<Rightarrow> SymbolInfo \<Rightarrow> bool" where
  "typeMatch symbolType s =
     (case symbolType of None \<Rightarrow> True | Some t \<Rightarrow> t = [] \<or> kind s = t)"

text \<open>\<open>parseFileForSymbol\<close> of src/parsers/typescript.ts.\<close>

definition parseFileForSymbol ::
    "(string \<Rightarrow> string \<Rightarrow> string + SymbolInfo list \<times> ExportInfo list) \<Rightarrow>
     FileSystem \<Rightarrow> Cache \<Rightarrow> string \<Rightarrow> string \<Rightarrow> SymbolKind option \<Rightarrow> SymbolInfo list \<times> Cache" where
  "parseFileForSymbol pass fs cache filePath symbolName symbolType =
     (case parseFile pass fs cache filePath of
        (res, cache') \<Rightarrow>
          (filter (\<lambda>s. (name s = symbolName \<or> str_includes (name s) symbolName)
                        \<and> typeMatch symbolType s) (symbols res),
           cache'))"

text \<open>\<open>parseFileForSymbol\<close> of the solidity, python, css and html extractors.\<close>

definition parseFileForSymbol_plain ::
    "(string \<Rightarrow> string \<Rightarrow> string + SymbolInfo list) \<Rightarrow>
     FileSystem \<Rightarrow> Cache \<Rightarrow> string \<Rightarrow> string \<Rightarrow> SymbolKind option \<Rightarrow> SymbolInfo list \<times> Cache" where
  "parseFileForSymbol_plain pass fs cache filePath query symbolType =
     (case parseFile_plain pass fs cache filePath of
        (res, cache') \<Rightarrow>
          (filter (\<lambda>s. str_includes (toLowerCase (name s)) (toLowerCase query)
                        \<and> typeMatch symbolType s) (symbols res),
           cache'))"

section \<open>Syntax trees and \<open>collectExports\<close> (src/parsers/typescript.ts)\<close>

text \<open>
  A node of a tree-sitter syntax tree, with what the extractor reads of it: its type, whether
  it is a named node, the field of its parent that holds it, its text, its two positions
  and its children. \<open>namedChildren\<close> and \<open>childForFieldName\<close> are the accessors of the
  binding.
\<close>

record Point =
  row :: nat
  column :: nat

datatype SyntaxNode =
  SyntaxNode (type_n: string) (isNamed: bool) (fieldName: "string option") (text_n: string)
             (startPosition: Point) (endPosition: Point) (children_n: "SyntaxNode list")

definition namedChildren :: "SyntaxNode \<Rightarrow> SyntaxNode list" where
  "namedChildren node = filter isNamed (children_n node)"

definition childForFieldName :: "SyntaxNode \<Rightarrow> string \<Rightarrow> SyntaxNode option" where
  "childForFieldName node fld = List.find (\<lambda>c. fieldName c = Some fld) (children_n node)"

definition nodeLocation :: "SyntaxNode \<Rightarrow> SymbolLocation" where
  "nodeLocation node =
     \<lparr>startLine = row (startPosition node) + 1, endLine = row (endPosition node) + 1,
      startCol = column (startPosition node), endCol = column (endPosition node)\<rparr>"

text \<open>\<open>text.slice(1, -1)\<close>: the text without its first and its last character.\<close>

definition sliceQuotes :: "string \<Rightarrow> string" where
  "sliceQuotes s = butlast (tl s)"

definition declarationTypes :: "string list" where
  "declarationTypes =
     [''function_declaration'', ''class_declaration'', ''lexical_declaration'',
      ''variable_declaration'', ''interface_declaration'', ''type_alias_declaration'',
      ''enum_declaration'']"

text \<open>
  What \<open>collectExports\<close> pushes for a node of type \<open>export_statement\<close>, in the order of its
  four tests: a \<open>namespace_export\<close> child gives one record of kind \<open>all\<close>; else an
  \<open>export_clause\<close> child gives one record of kind \<open>named\<close> per specifier; else a \<open>default\<close>
  token gives one record of kind \<open>default\<close>; else a declaration with a non-empty name gives
  one record of kind \<open>named\<close>; else nothing is pushed.
\<close>

definition exportStatement :: "SyntaxNode \<Rightarrow> ExportInfo list" where
  "exportStatement node =
     (case List.find (\<lambda>c. type_n c = ''namespace_export'') (namedChildren node) of
        Some namespaceExport \<Rightarrow>
          [\<lparr>kind_e = All, localName_e = None, exportedName_e = None,
            source_e = map_option (\<lambda>sourceNode. sliceQuotes (text_n sourceNode))
                         (List.find (\<lambda>c. type_n c = ''string'') (namedChildren node)),
            location_e = nodeLocation node\<rparr>]
      | None \<Rightarrow>
          (case List.find (\<lambda>c. type_n c = ''export_clause'') (namedChildren node) of
             Some exportClause \<Rightarrow>
               map (\<lambda>specifier.
                      \<lparr>kind_e = Named,
                       localName_e = map_option text_n (childForFieldName specifier ''name''),
                       exportedName_e =
                         (case childForFieldName specifier ''alias'' of
                            Some aliasNode \<Rightarrow> Some (text_n aliasNode)
                          | None \<Rightarrow> map_option text_n (childForFieldName specifier ''name'')),
                       source_e = map_option (\<lambda>sourceNode. sliceQuotes (text_n sourceNode))
                                    (List.find (\<lambda>c. type_n c = ''string'') (namedChildren node)),
                       location_e = nodeLocation node\<rparr>)
                   (filter (\<lambda>specifier. type_n specifier = ''export_specifier'')
                      (namedChildren exportClause))
           | None \<Rightarrow>
               (case List.find (\<lambda>c. type_n c = ''default'') (children_n node) of
                  Some defaultKeyword \<Rightarrow>
                    [\<lparr>kind_e = Default,
                      localName_e =
                        (case List.find (\<lambda>c. type_n c = ''identifier''
                                               \<or> type_n c = ''call_expression'')
                                (namedChildren node) of
                           Some valueNode \<Rightarrow>
                             if type_n valueNode = ''identifier'' then Some (text_n valueNode)
                             else None
                         | None \<Rightarrow> None),
                      exportedName_e = Some ''default'', source_e = None,
                      location_e = nodeLocation node\<rparr>]
                | None \<Rightarrow>
                    (case List.find (\<lambda>c. type_n c \<in> set declarationTypes) (namedChildren node) of
                       None \<Rightarrow> []
                     | Some declaration \<Rightarrow>
                         (case (if type_n declaration = ''lexical_declaration''
                                   \<or> type_n declaration = ''variable_declaration''
                                then (case List.find (\<lambda>c. type_n c = ''variable_declarator'')
                                             (namedChildren declaration) of
                                        None \<Rightarrow> None
                                      | Some declarator \<Rightarrow>
                                          map_option text_n (childForFieldName declarator ''name''))
                                else map_option text_n (childForFieldName declaration ''name'')) of
                            None \<Rightarrow> []
                          | Some nm \<Rightarrow>
                              if nm = [] then []
                              else [\<lparr>kind_e = Named, localName_e = Some nm,
                                     exportedName_e = Some nm, source_e = None,
                                     location_e = nodeLocation node\<rparr>])))))"

text \<open>
  \<open>collectExports\<close>: an export statement is handled and not entered; any other node is
  entered through its named children. The result is what the function pushes, in order.
\<close>

fun collectExports :: "SyntaxNode \<Rightarrow> ExportInfo list" where
  "collectExports (SyntaxNode t nmd fld tx sp ep cs) =
     (if t = ''export_statement'' then exportStatement (SyntaxNode t nmd fld tx sp ep cs)
      else concat (map collectExports (filter isNamed cs)))"

text \<open>
  The \<open>try\<close> block of \<open>parseFile\<close> as a pass: \<open>parser filePath sourceCode\<close> is the root node
  that \<open>getParser(filePath).parse(sourceCode)\<close> returns, or \<open>Inl err\<close> when it throws;
  \<open>walk\<close> stands for \<open>collectSymbols\<close>.
\<close>

definition tsPass ::
    "(string \<Rightarrow> string \<Rightarrow> string + SyntaxNode) \<Rightarrow>
     (SyntaxNode \<Rightarrow> string \<Rightarrow> string \<Rightarrow> SymbolInfo list) \<Rightarrow>
     string \<Rightarrow> string \<Rightarrow> string + SymbolInfo list \<times> ExportInfo list" where
  "tsPass parser walk filePath sourceCode =
     (case parser filePath sourceCode of
        Inl err \<Rightarrow> Inl err
      | Inr rootNode \<Rightarrow> Inr (walk rootNode filePath sourceCode, collectExports rootNode))"

section \<open>Extractor registry (src/parsers/registry.ts, src/parsers/index.ts)\<close>

text \<open>
  A \<open>LanguageParser\<close> object carries its two methods. The registry is the module-level
  \<open>Map<string, LanguageParser>\<close>, passed explicitly.
\<close>

record LanguageParser =
  language_p :: string
  extensions :: "string list"
  parseFile_p :: "FileSystem \<Rightarrow> Cache \<Rightarrow> string \<Rightarrow> ParseResult \<times> Cache"
  parseFileForSymbol_p ::
    "FileSystem \<Rightarrow> Cache \<Rightarrow> string \<Rightarrow> string \<Rightarrow> SymbolKind option \<Rightarrow> SymbolInfo list \<times> Cache"

type_synonym Registry = "string \<rightharpoonup> LanguageParser"

definition registerParser :: "Registry \<Rightarrow> LanguageParser \<Rightarrow> Registry" where
  "registerParser parsers parser = fold (\<lambda>ext m. m(ext \<mapsto> parser)) (extensions parser) parsers"

definition getParserForFile :: "Registry \<Rightarrow> string \<Rightarrow> LanguageParser option" where
  "getParserForFile parsers filePath =
     parsers (substring filePath (lastIndexOf filePath CHR ''.''))"

definition getLanguageForFile :: "Registry \<Rightarrow> string \<Rightarrow> string option" where
  "getLanguageForFile parsers filePath =
     (case getParserForFile parsers filePath of
        None \<Rightarrow> None
      | Some parser \<Rightarrow> if language_p parser = [] then None else Some (language_p parser))"

definition typescriptParser ::
    "(string \<Rightarrow> string \<Rightarrow> string + SymbolInfo list \<times> ExportInfo list) \<Rightarrow> LanguageParser" where
  "typescriptParser pass =
     \<lparr>language_p = ''typescript'', extensions = [''.ts'', ''.tsx'', ''.js'', ''.jsx''],
      parseFile_p = parseFile pass, parseFileForSymbol_p = parseFileForSymbol pass\<rparr>"

definition solidityParser :: "(string \<Rightarrow> string \<Rightarrow> string + SymbolInfo list) \<Rightarrow> LanguageParser" where
  "solidityParser pass =
     \<lparr>language_p = ''solidity'', extensions = [''.sol''],
      parseFile_p = parseFile_plain pass, parseFileForSymbol_p = parseFileForSymbol_plain pass\<rparr>"

definition pythonParserInstance :: "(string \<Rightarrow> string \<Rightarrow> string + SymbolInfo list) \<Rightarrow> LanguageParser" where
  "pythonParserInstance pass =
     \<lparr>language_p = ''python'', extensions = [''.py'', ''.pyw''],
      parseFile_p = parseFile_plain pass, parseFileForSymbol_p = parseFileForSymbol_plain pass\<rparr>"

definition cssParserInstance :: "(string \<Rightarrow> string \<Rightarrow> string + SymbolInfo list) \<Rightarrow> LanguageParser" where
  "cssParserInstance pass =
     \<lparr>language_p = ''css'', extensions = [''.css'', ''.less'', ''.sass'', ''.scss''],
      parseFile_p = parseFile_plain pass, parseFileForSymbol_p = parseFileForSymbol_plain pass\<rparr>"

definition htmlParserInstance :: "(string \<Rightarrow> string \<Rightarrow> string + SymbolInfo list) \<Rightarrow> LanguageParser" where
  "htmlParserInstance pass =
     \<lparr>language_p = ''html'', extensions = [''.html'', ''.htm''],
      parseFile_p = parseFile_plain pass, parseFileForSymbol_p = parseFileForSymbol_plain pass\<rparr>"

text \<open>\<open>parseFile\<close> and \<open>parseFileForSymbol\<close> of src/parsers/index.ts: dispatch on the registry.\<close>

definition index_parseFile :: "Registry \<Rightarrow> FileSystem \<Rightarrow> Cache \<Rightarrow> string \<Rightarrow> ParseResult \<times> Cache" where
  "index_parseFile parsers fs cache filePath =
     (case getParserForFile parsers filePath of
        None \<Rightarrow>
          (\<lparr>symbols = [], exports = [], errors = [''Unsupported file type: '' @ filePath]\<rparr>, cache)
      | Some parser \<Rightarrow> parseFile_p parser fs cache filePath)"

definition index_parseFileForSymbol ::
    "Registry \<Rightarrow> FileSystem \<Rightarrow> Cache \<Rightarrow> string \<Rightarrow> string \<Rightarrow> SymbolKind option \<Rightarrow>
     SymbolInfo list \<times> Cache" where
  "index_parseFileForSymbol parsers fs cache filePath query symbolType =
     (case getParserForFile parsers filePath of
        None \<Rightarrow> ([], cache)
      | Some parser \<Rightarrow> parseFileForSymbol_p parser fs cache filePath query symbolType)"

section \<open>Export resolver (src/parsers/exportResolver.ts)\<close>

definition MAX_DEPTH :: nat where
  "MAX_DEPTH = 10"

text \<open>
  What \<open>resolveModulePath\<close> asks of Node: \<open>dirOf f\<close> is \<open>path.dirname(toAbsolute(f))\<close>,
  \<open>pathJoin\<close> is \<open>path.join\<close>, \<open>isFile c\<close> is \<open>fs.existsSync(c) && fs.statSync(c).isFile()\<close> and
  \<open>relativeToRoot c\<close> is \<open>path.relative(getWorkspaceRoot(), c)\<close>.
\<close>

record PathEnv =
  dirOf :: "string \<Rightarrow> string"
  pathJoin :: "string list \<Rightarrow> string"
  isFile :: "string \<Rightarrow> bool"
  relativeToRoot :: "string \<Rightarrow> string"

definition moduleExtensions :: "string list" where
  "moduleExtensions = [''.ts'', ''.tsx'', ''.js'', ''.jsx'', []]"

definition resolveModulePath :: "PathEnv \<Rightarrow> string \<Rightarrow> string \<Rightarrow> string option" where
  "resolveModulePath env fromFile importPath =
     (case find (isFile env)
             (map (\<lambda>ext. pathJoin env [dirOf env fromFile, importPath @ ext]) moduleExtensions) of
        Some candidate \<Rightarrow> Some (relativeToRoot env candidate)
      | None \<Rightarrow>
          (case find (isFile env)
                  (map (\<lambda>ext. pathJoin env [dirOf env fromFile, importPath, ''index'' @ ext])
                     moduleExtensions) of
             Some candidate \<Rightarrow> Some (relativeToRoot env candidate)
           | None \<Rightarrow> None))"

record ResolvedExport =
  originalFile :: string
  originalName :: string
  resolvedFile :: string
  resolvedSymbol :: "SymbolInfo option"
  exportChain :: "string list"

text \<open>The key \<open>`${filePath}:${exportedName}`\<close> of the visited set.\<close>

definition visitKey :: "string \<Rightarrow> string \<Rightarrow> string" where
  "visitKey filePath exportedName = filePath @ '':'' @ exportedName"

text \<open>\<open>exp.source\<close> as a string: an absent source and the empty string are both falsy.\<close>

definition sourceOf :: "ExportInfo \<Rightarrow> string" where
  "sourceOf expo = (case source_e expo of None \<Rightarrow> [] | Some src \<Rightarrow> src)"

text \<open>The object both \<open>return\<close> statements with a local symbol build.\<close>

definition localHit :: "string \<Rightarrow> string \<Rightarrow> SymbolInfo \<Rightarrow> ResolvedExport" where
  "localHit filePath exportedName localSymbol =
     \<lparr>originalFile = filePath, originalName = exportedName, resolvedFile = filePath,
      resolvedSymbol = Some localSymbol, exportChain = [filePath]\<rparr>"

text \<open>
  \<open>followExport\<close>. The visited set is one JavaScript \<open>Set\<close> shared by all recursive calls, so
  the model returns it next to the result. \<open>parse\<close> is \<open>parseFile\<close> of src/parsers/index.ts
  on the file system of the moment, as a function of the path. \<open>followExport_loop\<close> is the
  \<open>for (const exp of result.exports)\<close> loop: within one iteration the three \<open>if\<close> blocks
  exclude each other by \<open>exp.kind\<close>, so a block that does not return goes on to the next
  export record.
\<close>

function followExport ::
    "(string \<Rightarrow> ParseResult) \<Rightarrow> PathEnv \<Rightarrow>
     string \<Rightarrow> string \<Rightarrow> string set \<Rightarrow> nat \<Rightarrow> ResolvedExport option \<times> string set"
  and followExport_loop ::
    "(string \<Rightarrow> ParseResult) \<Rightarrow> PathEnv \<Rightarrow>
     string \<Rightarrow> string \<Rightarrow> ExportInfo list \<Rightarrow> string set \<Rightarrow> nat \<Rightarrow>
     ResolvedExport option \<times> string set"
where
  "followExport parse env filePath exportedName visited depth =
     (if depth > MAX_DEPTH then (None, visited)
      else if visitKey filePath exportedName \<in> visited then (None, visited)
      else if errors (parse filePath) \<noteq> []
      then (None, insert (visitKey filePath exportedName) visited)
      else (case find (\<lambda>s. name s = exportedName) (symbols (parse filePath)) of
              Some localSymbol \<Rightarrow>
                (Some (localHit filePath exportedName localSymbol),
                 insert (visitKey filePath exportedName) visited)
            | None \<Rightarrow>
                followExport_loop parse env filePath exportedName (exports (parse filePath))
                  (insert (visitKey filePath exportedName) visited) depth))"
| "followExport_loop parse env filePath exportedName [] visited depth = (None, visited)"
| "followExport_loop parse env filePath exportedName (expo # rest) visited depth =
     (if kind_e expo = Named \<and> exportedName_e expo = Some exportedName \<and> sourceOf expo \<noteq> []
      then (case resolveModulePath env filePath (sourceOf expo) of
              None \<Rightarrow> followExport_loop parse env filePath exportedName rest visited depth
            | Some targetFile \<Rightarrow>
                if targetFile = []
                then followExport_loop parse env filePath exportedName rest visited depth
                else (case followExport parse env targetFile
                             (case localName_e expo of None \<Rightarrow> exportedName | Some l \<Rightarrow> l)
                             visited (depth + 1) of
                        (Some resolved, visited') \<Rightarrow>
                          (Some (resolved\<lparr>exportChain := filePath # exportChain resolved\<rparr>), visited')
                      | (None, visited') \<Rightarrow>
                          followExport_loop parse env filePath exportedName rest visited' depth))
      else if kind_e expo = All \<and> sourceOf expo \<noteq> []
      then (case resolveModulePath env filePath (sourceOf expo) of
              None \<Rightarrow> followExport_loop parse env filePath exportedName rest visited depth
            | Some targetFile \<Rightarrow>
                if targetFile = []
                then followExport_loop parse env filePath exportedName rest visited depth
                else (case followExport parse env targetFile exportedName visited (depth + 1) of
                        (Some resolved, visited') \<Rightarrow>
                          (Some (resolved\<lparr>exportChain := filePath # exportChain resolved\<rparr>), visited')
                      | (None, visited') \<Rightarrow>
                          followExport_loop parse env filePath exportedName rest visited' depth))
      else if kind_e expo = Default \<and> exportedName = ''default''
      then (case localName_e expo of
              None \<Rightarrow> followExport_loop parse env filePath exportedName rest visited depth
            | Some l \<Rightarrow>
                if l = [] then followExport_loop parse env filePath exportedName rest visited depth
                else (case find (\<lambda>s. name s = l) (symbols (parse filePath)) of
                        Some localSymbol \<Rightarrow> (Some (localHit filePath exportedName localSymbol), visited)
                      | None \<Rightarrow> followExport_loop parse env filePath exportedName rest visited depth))
      else followExport_loop parse env filePath exportedName rest visited depth)"
  by pat_completeness auto
termination
  by (relation "measures
     [\<lambda>x. case x of
             Inl (p, e, f, n, V, d) \<Rightarrow> (if d > MAX_DEPTH then 0 else 2 * (MAX_DEPTH + 1 - d) + 1)
           | Inr (p, e, f, n, es, V, d) \<Rightarrow> (if d > MAX_DEPTH then 1 else 2 * (MAX_DEPTH + 1 - d)),
      \<lambda>x. case x of Inl _ \<Rightarrow> 0 | Inr (p, e, f, n, es, V, d) \<Rightarrow> length es]")
    (auto simp: MAX_DEPTH_def)

declare followExport.simps [simp del]

definition resolveSymbolThroughExports ::
    "(string \<Rightarrow> ParseResult) \<Rightarrow> PathEnv \<Rightarrow> string \<Rightarrow> string \<Rightarrow> SymbolInfo option" where
  "resolveSymbolThroughExports parse env filePath symbolName =
     (case fst (followExport parse env filePath symbolName {} 0) of
        None \<Rightarrow> None
      | Some resolved \<Rightarrow> resolvedSymbol resolved)"

text \<open>
  \<open>getAllReexportedSymbols\<close>, with its visited set of file paths returned next to the
  symbols; \<open>reexport_loop\<close> is its \<open>for\<close> loop and returns what the loop pushes.
\<close>

function getAllReexportedSymbols ::
    "(string \<Rightarrow> ParseResult) \<Rightarrow> PathEnv \<Rightarrow> string \<Rightarrow> string set \<Rightarrow> nat \<Rightarrow>
     SymbolInfo list \<times> string set"
  and reexport_loop ::
    "(string \<Rightarrow> ParseResult) \<Rightarrow> PathEnv \<Rightarrow> string \<Rightarrow> ExportInfo list \<Rightarrow> string set \<Rightarrow> nat \<Rightarrow>
     SymbolInfo list \<times> string set"
where
  "getAllReexportedSymbols parse env filePath visited depth =
     (if depth > MAX_DEPTH then ([], visited)
      else if filePath \<in> visited then ([], visited)
      else if errors (parse filePath) \<noteq> [] then ([], insert filePath visited)
      else (case reexport_loop parse env filePath (exports (parse filePath))
                   (insert filePath visited) depth of
              (pushed, visited') \<Rightarrow> (symbols (parse filePath) @ pushed, visited')))"
| "reexport_loop parse env filePath [] visited depth = ([], visited)"
| "reexport_loop parse env filePath (expo # rest) visited depth =
     (if kind_e expo = All \<and> sourceOf expo \<noteq> []
      then (case resolveModulePath env filePath (sourceOf expo) of
              None \<Rightarrow> reexport_loop parse env filePath rest visited depth
            | Some targetFile \<Rightarrow>
                if targetFile = [] then reexport_loop parse env filePath rest visited depth
                else (case getAllReexportedSymbols parse env targetFile visited (depth + 1) of
                        (reexported, visited') \<Rightarrow>
                          (case reexport_loop parse env filePath rest visited' depth of
                             (pushed, visited'') \<Rightarrow> (reexported @ pushed, visited''))))
      else reexport_loop parse env filePath rest visited depth)"
  by pat_completeness auto
termination
  by (relation "measures
     [\<lambda>x. case x of
             Inl (p, e, f, V, d) \<Rightarrow> (if d > MAX_DEPTH then 0 else 2 * (MAX_DEPTH + 1 - d) + 1)
           | Inr (p, e, f, es, V, d) \<Rightarrow> (if d > MAX_DEPTH then 1 else 2 * (MAX_DEPTH + 1 - d)),
      \<lambda>x. case x of Inl _ \<Rightarrow> 0 | Inr (p, e, f, es, V, d) \<Rightarrow> length es]")
    (auto simp: MAX_DEPTH_def)

declare getAllReexportedSymbols.simps [simp del]

section \<open>Compound-document extractor (src/parsers/vue.ts)\<close>

record SfcBlock =
  content :: string
  startLine_b :: nat
  lang :: "string option"

record SfcBlocks =
  script :: "SfcBlock option"
  template :: "SfcBlock option"
  style :: "SfcBlock option"

definition newline :: char where
  "newline = CHR 0x0A"

text \<open>A literal of a regular expression with the \<open>i\<close> flag, matched at the head of \<open>s\<close>;
  \<open>lit\<close> is given in lower case.\<close>

definition startsWithCI :: "string \<Rightarrow> string \<Rightarrow> bool" where
  "startsWithCI s lit = startsWith (toLowerCase (take (length lit) s)) lit"

text \<open>The lazy group \<open>([\s\S]*?)\<close> followed by the closing tag: the text up to the first
  occurrence of the closing tag, if there is one.\<close>

fun lazyUntil :: "string \<Rightarrow> string \<Rightarrow> string option" where
  "lazyUntil closeTag [] = (if closeTag = [] then Some [] else None)"
| "lazyUntil closeTag (c # cs) =
     (if startsWithCI (c # cs) closeTag then Some []
      else (case lazyUntil closeTag cs of None \<Rightarrow> None | Some rest \<Rightarrow> Some (c # rest)))"

text \<open>
  \<open>/<tag([^>]*)>([\s\S]*?)<\/tag>/i\<close> matched at the head of \<open>s\<close>: the attributes are the
  characters up to the first \<open>>\<close>, the content runs to the first closing tag. The result is
  the pair of the two groups.
\<close>

definition matchBlockAt :: "string \<Rightarrow> string \<Rightarrow> (string \<times> string) option" where
  "matchBlockAt tag s =
     (if startsWithCI s (''<'' @ tag)
      then (case dropWhile (\<lambda>c. c \<noteq> CHR ''>'') (drop (length tag + 1) s) of
              [] \<Rightarrow> None
            | gt # body \<Rightarrow>
                (case lazyUntil (''</'' @ tag @ ''>'') body of
                   None \<Rightarrow> None
                 | Some inner \<Rightarrow>
                     Some (takeWhile (\<lambda>c. c \<noteq> CHR ''>'') (drop (length tag + 1) s), inner)))
      else None)"

text \<open>
  \<open>sourceCode.match(...)\<close>: the leftmost match. \<open>line\<close> counts the line of the position
  reached, which is what \<open>sourceCode.slice(0, startIdx).split('\n').length\<close> computes for the
  match (the first occurrence of the matched text is the match itself, the match being
  the leftmost one).
\<close>

fun matchBlock :: "string \<Rightarrow> nat \<Rightarrow> string \<Rightarrow> (string \<times> string \<times> nat) option" where
  "matchBlock tag line [] = None"
| "matchBlock tag line (c # cs) =
     (case matchBlockAt tag (c # cs) of
        Some (attrs, inner) \<Rightarrow> Some (attrs, inner, line)
      | None \<Rightarrow> matchBlock tag (if c = newline then line + 1 else line) cs)"

definition isWordChar :: "char \<Rightarrow> bool" where
  "isWordChar c = (c \<in> set (upperChars @ lowerChars @ digitChars @ ''_''))"

definition isAlnum :: "char \<Rightarrow> bool" where
  "isAlnum c = (c \<in> set (upperChars @ lowerChars @ digitChars))"

text \<open>\<open>/lang=["']?(\w+)["']?/\<close> at the head of \<open>s\<close>, then anywhere in \<open>s\<close>.\<close>

definition langAt :: "string \<Rightarrow> string option" where
  "langAt s =
     (if startsWith s ''lang=''
      then (let rest = drop 5 s;
                unquoted = (case rest of
                              [] \<Rightarrow> []
                            | q # r \<Rightarrow> if q = CHR 0x22 \<or> q = CHR 0x27 then r else rest)
            in if takeWhile isWordChar unquoted = [] then None
               else Some (takeWhile isWordChar unquoted))
      else None)"

fun langMatch :: "string \<Rightarrow> string option" where
  "langMatch [] = None"
| "langMatch (c # cs) =
     (case langAt (c # cs) of Some w \<Rightarrow> Some w | None \<Rightarrow> langMatch cs)"

definition extractSfcBlocks :: "string \<Rightarrow> SfcBlocks" where
  "extractSfcBlocks sourceCode =
     \<lparr>script =
        (case matchBlock ''script'' 1 sourceCode of
           None \<Rightarrow> None
         | Some (attrs, inner, line) \<Rightarrow>
             Some \<lparr>content = inner, startLine_b = line, lang = langMatch attrs\<rparr>),
      template =
        (case matchBlock ''template'' 1 sourceCode of
           None \<Rightarrow> None
         | Some (attrs, inner, line) \<Rightarrow>
             Some \<lparr>content = inner, startLine_b = line, lang = None\<rparr>),
      style =
        (case matchBlock ''style'' 1 sourceCode of
           None \<Rightarrow> None
         | Some (attrs, inner, line) \<Rightarrow>
             Some \<lparr>content = inner, startLine_b = line, lang = langMatch attrs\<rparr>)\<rparr>"

text \<open>
  \<open>/<([A-Z][a-zA-Z0-9]*)[^>]*\/?>/\<close> at the head of \<open>s\<close>: the tag name and the length of
  the whole match.
\<close>

definition tagAt :: "string \<Rightarrow> (string \<times> nat) option" where
  "tagAt s =
     (case s of
        lt # u # rest \<Rightarrow>
          if lt = CHR ''<'' \<and> u \<in> set upperChars \<and> dropWhile (\<lambda>c. c \<noteq> CHR ''>'') rest \<noteq> []
          then Some (u # takeWhile isAlnum rest, length (takeWhile (\<lambda>c. c \<noteq> CHR ''>'') rest) + 3)
          else None
      | _ \<Rightarrow> None)"

text \<open>The \<open>while ((match = tagRegex.exec(templateContent)) !== null)\<close> loop of
  \<open>collectTemplateComponents\<close>; \<open>line\<close> is the line of the position reached.\<close>

fun collectTemplateComponents_scan ::
    "string \<Rightarrow> nat \<Rightarrow> nat \<Rightarrow> string \<Rightarrow> SymbolInfo list" where
  "collectTemplateComponents_scan filePath baseOffset line [] = []"
| "collectTemplateComponents_scan filePath baseOffset line (c # cs) =
     (case tagAt (c # cs) of
        Some (tagName, len) \<Rightarrow>
          \<lparr>name = tagName, kind = ''component'', file_s = filePath,
           location = \<lparr>startLine = line + baseOffset, endLine = line + baseOffset,
                       startCol = 0, endCol = len\<rparr>,
           range_s = formatRange (line + baseOffset) (line + baseOffset),
           signature = ''<'' @ tagName @ ''>'', language = ''vue''\<rparr>
          # collectTemplateComponents_scan filePath baseOffset
              (line + length (filter (\<lambda>x. x = newline) (take len (c # cs))))
              (drop (len - 1) cs)
      | None \<Rightarrow>
          collectTemplateComponents_scan filePath baseOffset
            (if c = newline then line + 1 else line) cs)"

definition collectTemplateComponents :: "string \<Rightarrow> string \<Rightarrow> nat \<Rightarrow> SymbolInfo list" where
  "collectTemplateComponents templateContent filePath baseOffset =
     collectTemplateComponents_scan filePath baseOffset 1 templateContent"

text \<open>
  \<open>parseFile\<close> of src/parsers/vue.ts. \<open>scriptPass filePath content startLine lang\<close> stands for
  parsing the script block with the tsx or ts parser and running \<open>collectScriptSymbols\<close>
  and \<open>collectOptionsApiSymbols\<close> on the tree; \<open>stylePass filePath content startLine\<close> for
  parsing the style block and running \<open>collectCssSymbols\<close>; each is \<open>Inl err\<close> when it throws.
  \<open>scriptSection\<close>, \<open>templateSection\<close> and \<open>styleSection\<close> are the three \<open>if (blocks. ...)\<close>
  statements, which run in this order inside one \<open>try\<close> block; the template scan does not
  throw.
\<close>

definition scriptSection ::
    "(string \<Rightarrow> string \<Rightarrow> nat \<Rightarrow> string option \<Rightarrow> string + SymbolInfo list \<times> ExportInfo list) \<Rightarrow>
     string \<Rightarrow> SfcBlocks \<Rightarrow> string + SymbolInfo list \<times> ExportInfo list" where
  "scriptSection scriptPass filePath blocks =
     (case script blocks of
        None \<Rightarrow> Inr ([], [])
      | Some b \<Rightarrow> scriptPass filePath (content b) (startLine_b b) (lang b))"

definition templateSection :: "string \<Rightarrow> SfcBlocks \<Rightarrow> SymbolInfo list" where
  "templateSection filePath blocks =
     (case template blocks of
        None \<Rightarrow> []
      | Some b \<Rightarrow> collectTemplateComponents (content b) filePath (startLine_b b))"

definition styleSection ::
    "(string \<Rightarrow> string \<Rightarrow> nat \<Rightarrow> string + SymbolInfo list) \<Rightarrow>
     string \<Rightarrow> SfcBlocks \<Rightarrow> string + SymbolInfo list" where
  "styleSection stylePass filePath blocks =
     (case style blocks of
        None \<Rightarrow> Inr []
      | Some b \<Rightarrow> stylePass filePath (content b) (startLine_b b))"

definition parseFile_vue ::
    "(string \<Rightarrow> string \<Rightarrow> nat \<Rightarrow> string option \<Rightarrow> string + SymbolInfo list \<times> ExportInfo list) \<Rightarrow>
     (string \<Rightarrow> string \<Rightarrow> nat \<Rightarrow> string + SymbolInfo list) \<Rightarrow>
     FileSystem \<Rightarrow> Cache \<Rightarrow> string \<Rightarrow> ParseResult \<times> Cache" where
  "parseFile_vue scriptPass stylePass fs cache filePath =
     (case getCachedResult fs cache filePath of
        (Some cached, cache') \<Rightarrow> (cached, cache')
      | (None, cache') \<Rightarrow>
          (case readFileContent fs filePath of
             None \<Rightarrow> (readFailure filePath, cache')
           | Some sourceCode \<Rightarrow>
               if sourceCode = [] then (readFailure filePath, cache')
               else
                 (case scriptSection scriptPass filePath (extractSfcBlocks sourceCode) of
                    Inl err \<Rightarrow> (parseFailure filePath err, cache')
                  | Inr (scriptSyms, exps) \<Rightarrow>
                      (case styleSection stylePass filePath (extractSfcBlocks sourceCode) of
                         Inl err \<Rightarrow> (parseFailure filePath err, cache')
                       | Inr styleSyms \<Rightarrow>
                           (\<lparr>symbols =
                               scriptSyms
                               @ templateSection filePath (extractSfcBlocks sourceCode)
                               @ styleSyms,
                             exports = exps, errors = []\<rparr>,
                            setCachedResult fs cache' filePath
                              \<lparr>symbols =
                                 scriptSyms
                                 @ templateSection filePath (extractSfcBlocks sourceCode)
                                 @ styleSyms,
                               exports = exps, errors = []\<rparr>)))))"

definition parseFileForSymbol_vue ::
    "(string \<Rightarrow> string \<Rightarrow> nat \<Rightarrow> string option \<Rightarrow> string + SymbolInfo list \<times> ExportInfo list) \<Rightarrow>
     (string \<Rightarrow> string \<Rightarrow> nat \<Rightarrow> string + SymbolInfo list) \<Rightarrow>
     FileSystem \<Rightarrow> Cache \<Rightarrow> string \<Rightarrow> string \<Rightarrow> SymbolKind option \<Rightarrow> SymbolInfo list \<times> Cache" where
  "parseFileForSymbol_vue scriptPass stylePass fs cache filePath query symbolType =
     (case parseFile_vue scriptPass stylePass fs cache filePath of
        (res, cache') \<Rightarrow>
          (filter (\<lambda>s. str_includes (toLowerCase (name s)) (toLowerCase query)
                        \<and> typeMatch symbolType s) (symbols res),
           cache'))"

definition vueParserInstance ::
    "(string \<Rightarrow> string \<Rightarrow> nat \<Rightarrow> string option \<Rightarrow> string + SymbolInfo list \<times> ExportInfo list) \<Rightarrow>
     (string \<Rightarrow> string \<Rightarrow> nat \<Rightarrow> string + SymbolInfo list) \<Rightarrow> LanguageParser" where
  "vueParserInstance scriptPass stylePass =
     \<lparr>language_p = ''vue'', extensions = [''.vue''],
      parseFile_p = parseFile_vue scriptPass stylePass,
      parseFileForSymbol_p = parseFileForSymbol_vue scriptPass stylePass\<rparr>"

section \<open>Fuzzy search (src/tools/searchFuzzy.ts)\<close>

record FuzzyResult =
  file_f :: string
  range_f :: string
  symbol :: "string option"
  kind_f :: "string option"
  score :: real
  reasons :: "string list"

text \<open>
  A settled promise: fulfilled with a value, or rejected. An \<open>async\<close> function that throws
  returns a rejected promise; an \<open>await\<close> of a rejected promise throws in turn.
\<close>

datatype 'a promise = Fulfilled 'a | Rejected

subsection \<open>Query variants\<close>

text \<open>The class \<open>\s\<close> on ASCII text: space, tab, line feed, vertical tab, form feed and
  carriage return (in JavaScript the class also holds white space outside ASCII).\<close>

definition isSpace :: "char \<Rightarrow> bool" where
  "isSpace c = (c \<in> set [CHR 0x20, CHR 0x09, CHR 0x0A, CHR 0x0B, CHR 0x0C, CHR 0x0D])"

text \<open>\<open>query.replace(/-([a-z])/g, (_, c) => c.toUpperCase())\<close>.\<close>

fun kebabToCamel :: "string \<Rightarrow> string" where
  "kebabToCamel (d # c # cs) =
     (if d = CHR ''-'' \<and> c \<in> set lowerChars then upperChar c # kebabToCamel cs
      else d # kebabToCamel (c # cs))"
| "kebabToCamel cs = cs"

text \<open>\<open>query.replace(/([a-z])([A-Z])/g, '$1-$2')\<close>, before the \<open>toLowerCase\<close>.\<close>

fun camelToKebab :: "string \<Rightarrow> string" where
  "camelToKebab (a # b # cs) =
     (if a \<in> set lowerChars \<and> b \<in> set upperChars then a # CHR ''-'' # b # camelToKebab cs
      else a # camelToKebab (b # cs))"
| "camelToKebab cs = cs"

text \<open>\<open>query.charAt(0).toUpperCase() + query.slice(1)\<close>.\<close>

definition pascal :: "string \<Rightarrow> string" where
  "pascal query = (case query of [] \<Rightarrow> [] | c # cs \<Rightarrow> upperChar c # cs)"

definition normalizeQuery :: "string \<Rightarrow> string list" where
  "normalizeQuery query =
     uniq [query, toLowerCase query, filter (\<lambda>c. \<not> isSpace c) query, kebabToCamel query,
           toLowerCase (camelToKebab query), pascal query]"

subsection \<open>Symbol recall\<close>

text \<open>The key \<open>`${sym.file}:${sym.name}`\<close> of the \<open>seen\<close> set.\<close>

definition symbolKey :: "SymbolInfo \<Rightarrow> string" where
  "symbolKey smb = file_s smb @ '':'' @ name smb"

text \<open>The candidate \<open>symbolRecall\<close> pushes for a symbol.\<close>

definition symbolCandidate :: "string \<Rightarrow> SymbolInfo \<Rightarrow> FuzzyResult" where
  "symbolCandidate query smb =
     (if name smb = query \<or> toLowerCase (name smb) = toLowerCase query
      then \<lparr>file_f = file_s smb, range_f = range_s smb, symbol = Some (name smb),
            kind_f = Some (kind smb), score = 9 / 10, reasons = [''definition_exact'']\<rparr>
      else \<lparr>file_f = file_s smb, range_f = range_s smb, symbol = Some (name smb),
            kind_f = Some (kind smb), score = 7 / 10, reasons = [''definition_match'']\<rparr>)"

text \<open>The inner loop \<open>for (const sym of symbols)\<close>, on the pair of \<open>seen\<close> and \<open>allResults\<close>.\<close>

fun symbolRecall_symbols ::
    "string \<Rightarrow> SymbolInfo list \<Rightarrow> string set \<times> FuzzyResult list \<Rightarrow> string set \<times> FuzzyResult list" where
  "symbolRecall_symbols query [] st = st"
| "symbolRecall_symbols query (smb # syms) (seen, allResults) =
     (if symbolKey smb \<in> seen then symbolRecall_symbols query syms (seen, allResults)
      else symbolRecall_symbols query syms
             (insert (symbolKey smb) seen, allResults @ [symbolCandidate query smb]))"

text \<open>
  The outer loop \<open>for (const variant of variants)\<close>. \<open>searchSymbol variant\<close> is the promise
  \<open>searchSymbol({query: variant, scope, limit: limit ?? 20, followExports: true})\<close> settles
  to; a rejected one ends \<open>symbolRecall\<close> with a rejection.
\<close>

fun symbolRecall_variants ::
    "(string \<Rightarrow> SymbolInfo list promise) \<Rightarrow> string \<Rightarrow> string list \<Rightarrow>
     string set \<times> FuzzyResult list \<Rightarrow> FuzzyResult list promise" where
  "symbolRecall_variants searchSymbol query [] (seen, allResults) = Fulfilled allResults"
| "symbolRecall_variants searchSymbol query (variant # variants) st =
     (case searchSymbol variant of
        Rejected \<Rightarrow> Rejected
      | Fulfilled syms \<Rightarrow>
          symbolRecall_variants searchSymbol query variants (symbolRecall_symbols query syms st))"

definition symbolRecall ::
    "(string \<Rightarrow> SymbolInfo list promise) \<Rightarrow> string \<Rightarrow> FuzzyResult list promise" where
  "symbolRecall searchSymbol query =
     symbolRecall_variants searchSymbol query (normalizeQuery query) ({}, [])"

subsection \<open>Alias, file-name and text recall\<close>

text \<open>\<open>parseTarget\<close>: split at the first \<open>#\<close>.\<close>

definition parseTarget :: "string \<Rightarrow> string \<times> string option" where
  "parseTarget target =
     (if CHR ''#'' \<in> set target
      then (takeWhile (\<lambda>c. c \<noteq> CHR ''#'') target,
            Some (drop 1 (dropWhile (\<lambda>c. c \<noteq> CHR ''#'') target)))
      else (target, None))"

definition aliasTarget :: "(string \<Rightarrow> ParseResult) \<Rightarrow> string \<Rightarrow> FuzzyResult list" where
  "aliasTarget parse target =
     (case parseTarget target of
        (file, smb) \<Rightarrow>
          (if (case smb of None \<Rightarrow> False | Some n \<Rightarrow> n \<noteq> [])
           then (case find (\<lambda>s. Some (name s) = smb) (symbols (parse file)) of
                   None \<Rightarrow> []
                 | Some matched \<Rightarrow>
                     [\<lparr>file_f = file_s matched, range_f = range_s matched,
                       symbol = Some (name matched), kind_f = Some (kind matched),
                       score = 1, reasons = [''alias_hit'']\<rparr>])
           else (case symbols (parse file) of
                   [] \<Rightarrow> []
                 | first # others \<Rightarrow>
                     [\<lparr>file_f = file, range_f = formatRange 1 100, symbol = Some (name first),
                       kind_f = Some (kind first), score = 95 / 100, reasons = [''alias_hit'']\<rparr>])))"

text \<open>\<open>aliasRecall\<close>: \<open>lookupAlias query\<close> is \<open>Rejected\<close> when \<open>lookupAlias\<close> throws.\<close>

definition aliasRecall ::
    "(string \<Rightarrow> string list promise) \<Rightarrow> (string \<Rightarrow> ParseResult) \<Rightarrow> string \<Rightarrow> FuzzyResult list promise" where
  "aliasRecall lookupAlias parse query =
     (case lookupAlias query of
        Rejected \<Rightarrow> Rejected
      | Fulfilled targets \<Rightarrow> Fulfilled (concat (map (aliasTarget parse) targets)))"

record RipgrepMatch =
  file_m :: string
  line_m :: nat
  column_m :: nat
  text_m :: string

text \<open>The loop of \<open>textRecall\<close> over the matches, with its \<open>seen\<close> set of \<open>file:line\<close> keys.\<close>

fun textRecall_matches :: "RipgrepMatch list \<Rightarrow> string set \<Rightarrow> FuzzyResult list" where
  "textRecall_matches [] seen = []"
| "textRecall_matches (m # ms) seen =
     (if file_m m @ '':'' @ showNat (line_m m) \<in> seen then textRecall_matches ms seen
      else \<lparr>file_f = file_m m,
            range_f = formatRange (max 1 (line_m m - 5)) (line_m m + 10),
            symbol = None, kind_f = None, score = 3 / 10, reasons = [''text_hit'']\<rparr>
           # textRecall_matches ms (insert (file_m m @ '':'' @ showNat (line_m m)) seen))"

definition textRecall :: "(string \<Rightarrow> RipgrepMatch list promise) \<Rightarrow> string \<Rightarrow> FuzzyResult list promise" where
  "textRecall searchPattern query =
     (case searchPattern query of
        Rejected \<Rightarrow> Rejected
      | Fulfilled found \<Rightarrow> Fulfilled (textRecall_matches found {}))"

text \<open>
  \<open>fileNameRecall\<close>: \<open>glob variant\<close> is what \<open>glob(`**/*${variant}*`, scope)\<close> settles to and
  \<open>baseOf file\<close> is \<open>path.basename(file, path.extname(file))\<close>.
\<close>

fun fileNameRecall_files ::
    "(string \<Rightarrow> string) \<Rightarrow> string \<Rightarrow> string list \<Rightarrow> string set \<times> FuzzyResult list \<Rightarrow>
     string set \<times> FuzzyResult list" where
  "fileNameRecall_files baseOf variant [] st = st"
| "fileNameRecall_files baseOf variant (file # files) (seen, results) =
     (if file \<in> seen then fileNameRecall_files baseOf variant files (seen, results)
      else fileNameRecall_files baseOf variant files
             (insert file seen,
              results @
              [\<lparr>file_f = file, range_f = ''[1:50]'', symbol = None, kind_f = None,
                score = (if toLowerCase (baseOf file) = toLowerCase variant
                            \<or> str_includes (toLowerCase (baseOf file)) (toLowerCase variant)
                         then 6 / 10 else 4 / 10),
                reasons = [''filename_match'']\<rparr>]))"

fun fileNameRecall_variants ::
    "(string \<Rightarrow> string list promise) \<Rightarrow> (string \<Rightarrow> string) \<Rightarrow> string list \<Rightarrow>
     string set \<times> FuzzyResult list \<Rightarrow> FuzzyResult list promise" where
  "fileNameRecall_variants glob baseOf [] (seen, results) = Fulfilled results"
| "fileNameRecall_variants glob baseOf (variant # variants) st =
     (case glob variant of
        Rejected \<Rightarrow> Rejected
      | Fulfilled files \<Rightarrow>
          fileNameRecall_variants glob baseOf variants (fileNameRecall_files baseOf variant files st))"

definition fileNameRecall ::
    "(string \<Rightarrow> string list promise) \<Rightarrow> (string \<Rightarrow> string) \<Rightarrow> string \<Rightarrow> FuzzyResult list promise" where
  "fileNameRecall glob baseOf query =
     fileNameRecall_variants glob baseOf (normalizeQuery query) ({}, [])"

subsection \<open>Merge\<close>

text \<open>The key \<open>`${r.file}:${r.range}`\<close> of the merge map.\<close>

definition resultKey :: "FuzzyResult \<Rightarrow> string" where
  "resultKey r = file_f r @ '':'' @ range_f r"

text \<open>
  One iteration of the loop of \<open>mergeAndSort\<close>. The JavaScript \<open>Map\<close> is an association list
  in insertion order: \<open>map.set\<close> on a key already present replaces the value in place
  (\<open>AList.update\<close>). The assignment \<open>existing.reasons = ...\<close> changes the object the map
  holds, which is an update of the entry.
\<close>

definition mergeStep :: "(string \<times> FuzzyResult) list \<Rightarrow> FuzzyResult \<Rightarrow> (string \<times> FuzzyResult) list" where
  "mergeStep m r =
     (case map_of m (resultKey r) of
        None \<Rightarrow> AList.update (resultKey r) r m
      | Some existing \<Rightarrow>
          if score r > score existing
          then AList.update (resultKey r) (r\<lparr>reasons := uniq (reasons r @ reasons existing)\<rparr>) m
          else AList.update (resultKey r)
                 (existing\<lparr>reasons := uniq (reasons existing @ reasons r)\<rparr>) m)"

text \<open>\<open>xs.slice(0, limit)\<close>: a negative \<open>limit\<close> counts from the end.\<close>

definition slice0 :: "'a list \<Rightarrow> int \<Rightarrow> 'a list" where
  "slice0 xs limit =
     (if limit < 0 then take (nat (int (length xs) + limit)) xs else take (nat limit) xs)"

text \<open>
  \<open>merged\<close> is \<open>Array.from(map.values())\<close> after the loop. \<open>merged.sort((a, b) => b.score -
  a.score)\<close> is a stable sort by descending score: \<open>sort_key\<close> is the stable insertion
  sort, on the negated score.
\<close>

definition merged :: "FuzzyResult list \<Rightarrow> FuzzyResult list" where
  "merged results = map snd (foldl mergeStep [] results)"

definition mergeAndSort :: "FuzzyResult list \<Rightarrow> int \<Rightarrow> FuzzyResult list" where
  "mergeAndSort results limit = slice0 (sort_key (\<lambda>r. - score r) (merged results)) limit"

subsection \<open>\<open>searchFuzzy\<close>\<close>

text \<open>\<open>Promise.all\<close>: fulfilled with all the values when every promise is fulfilled,
  rejected as soon as one of them is.\<close>

fun promise_all :: "'a promise list \<Rightarrow> 'a list promise" where
  "promise_all [] = Fulfilled []"
| "promise_all (Rejected # ps) = Rejected"
| "promise_all (Fulfilled x # ps) =
     (case promise_all ps of Rejected \<Rightarrow> Rejected | Fulfilled xs \<Rightarrow> Fulfilled (x # xs))"

text \<open>The external services \<open>searchFuzzy\<close> reaches through its four strategies.\<close>

record SearchEnv =
  lookupAlias :: "string \<Rightarrow> string list promise"
  parseIndex :: "string \<Rightarrow> ParseResult"
  searchSymbol :: "string \<Rightarrow> SymbolInfo list promise"
  glob :: "string \<Rightarrow> string list promise"
  baseOf :: "string \<Rightarrow> string"
  searchPattern :: "string \<Rightarrow> RipgrepMatch list promise"

definition searchFuzzy :: "SearchEnv \<Rightarrow> string \<Rightarrow> int \<Rightarrow> FuzzyResult list promise" where
  "searchFuzzy env query limit =
     (case promise_all
             [aliasRecall (lookupAlias env) (parseIndex env) query,
              symbolRecall (searchSymbol env) query,
              fileNameRecall (glob env) (baseOf env) query,
              textRecall (searchPattern env) query] of
        Rejected \<Rightarrow> Rejected
      | Fulfilled rs \<Rightarrow> Fulfilled (mergeAndSort (concat rs) limit))"

section \<open>Cache states\<close>

text \<open>
  The states the cache can be in: it starts empty, and the only functions of the
  repository that change it are the \<open>parseFile\<close> functions of the extractors (through
  \<open>getCachedResult\<close> and \<open>setCachedResult\<close>) and \<open>invalidateCache\<close>. The file system and the
  tree walks may differ from one call to the next.
\<close>

inductive cacheReachable :: "Cache \<Rightarrow> bool" where
  initial: "cacheReachable Map.empty"
| by_parseFile:
    "cacheReachable cache \<Longrightarrow> cacheReachable (snd (parseFile pass fs cache filePath))"
| by_parseFile_plain:
    "cacheReachable cache \<Longrightarrow> cacheReachable (snd (parseFile_plain symPass fs cache filePath))"
| by_parseFile_vue:
    "cacheReachable cache \<Longrightarrow>
     cacheReachable (snd (parseFile_vue scriptPass stylePass fs cache filePath))"
| by_invalidateCache:
    "cacheReachable cache \<Longrightarrow> cacheReachable (invalidateCache cache target)"

text \<open>No entry of the cache holds an outcome with errors.\<close>

definition cacheErrorFree :: "Cache \<Rightarrow> bool" where
  "cacheErrorFree cache = (\<forall>p entry. cache p = Some entry \<longrightarrow> errors (result entry) = [])"

section \<open>Invariant of the merge loop\<close>

text \<open>
  What the loop of \<open>mergeAndSort\<close> maintains for a key \<open>k\<close> after the candidates \<open>rs\<close>: no
  entry when no candidate has the key; otherwise an entry that is one of the candidates
  with that key up to its reasons, has the largest score among them and the reasons of
  them all.
\<close>

definition keyInv :: "FuzzyResult list \<Rightarrow> (string \<times> FuzzyResult) list \<Rightarrow> string \<Rightarrow> bool" where
  "keyInv rs m k \<longleftrightarrow>
     (case map_of m k of
        None \<Rightarrow> (\<forall>y \<in> set rs. resultKey y \<noteq> k)
      | Some v \<Rightarrow>
          (\<exists>y \<in> set rs. resultKey y = k \<and> v = y\<lparr>reasons := reasons v\<rparr>)
          \<and> (\<forall>y \<in> set rs. resultKey y = k \<longrightarrow> score y \<le> score v)
          \<and> set (reasons v) = (\<Union>y \<in> {y \<in> set rs. resultKey y = k}. set (reasons y)))"

definition mergeInv :: "FuzzyResult list \<Rightarrow> (string \<times> FuzzyResult) list \<Rightarrow> bool" where
  "mergeInv rs m \<longleftrightarrow> distinct (map fst m) \<and> (\<forall>k. keyInv rs m k)"

section \<open>First occurrences\<close>

text \<open>
  The elements of a list whose key is not in \<open>seen\<close> and does not occur earlier in the list:
  what a loop keeps that skips every element whose key it has seen.
\<close>

fun firstPerKey :: "('a \<Rightarrow> 'k) \<Rightarrow> 'k set \<Rightarrow> 'a list \<Rightarrow> 'a list" where
  "firstPerKey key seen [] = []"
| "firstPerKey key seen (x # xs) =
     (if key x \<in> seen then firstPerKey key seen xs
      else x # firstPerKey key (insert (key x) seen) xs)"

section \<open>Example inputs\<close>

text \<open>A tree walk that finds nothing, for examples where the walk does not matter.\<close>

definition demo_tsPass :: "string \<Rightarrow> string \<Rightarrow> string + SymbolInfo list \<times> ExportInfo list" where
  "demo_tsPass filePath sourceCode = Inr ([], [])"

text \<open>
  A workspace whose files all lie in one directory: a toy \<open>path.join\<close> that strips the
  leading \<open>./\<close> of an import, and the files that exist.
\<close>

definition demo_env :: "string list \<Rightarrow> PathEnv" where
  "demo_env files =
     \<lparr>dirOf = (\<lambda>f. ''/w''),
      pathJoin = (\<lambda>parts. case parts of
                    [d, p] \<Rightarrow> d @ ''/'' @ drop 2 p
                  | [d, p, i] \<Rightarrow> d @ ''/'' @ drop 2 p @ ''/'' @ i
                  | _ \<Rightarrow> []),
      isFile = (\<lambda>c. c \<in> set (map (\<lambda>f. ''/w/'' @ f) files)),
      relativeToRoot = drop 3\<rparr>"

definition demo_loc :: SymbolLocation where
  "demo_loc = \<lparr>startLine = 1, endLine = 1, startCol = 0, endCol = 24\<rparr>"

definition demo_reexport :: "string \<Rightarrow> string \<Rightarrow> ExportInfo" where
  "demo_reexport x src =
     \<lparr>kind_e = Named, localName_e = Some x, exportedName_e = Some x, source_e = Some src,
      location_e = demo_loc\<rparr>"

definition demo_cycle :: "string \<Rightarrow> ParseResult" where
  "demo_cycle f =
     (if f = ''a.ts'' then \<lparr>symbols = [], exports = [demo_reexport ''X'' ''./b''], errors = []\<rparr>
      else if f = ''b.ts'' then \<lparr>symbols = [], exports = [demo_reexport ''X'' ''./a''], errors = []\<rparr>
      else readFailure f)"

text \<open>
  A chain three files deep, each file declaring two symbols and the first two holding a
  record of kind \<open>all\<close> for the next: the record that \<open>collectExports\<close> pushes for a
  statement \<open>export * as m from './b'\<close>.
\<close>

definition demo_symbol :: "string \<Rightarrow> string \<Rightarrow> nat \<Rightarrow> SymbolInfo" where
  "demo_symbol nm f line =
     \<lparr>name = nm, kind = ''function'', file_s = f,
      location = \<lparr>startLine = line, endLine = line, startCol = 0, endCol = 30\<rparr>,
      range_s = formatRange line line, signature = ''export function '' @ nm @ ''()'',
      language = ''ts''\<rparr>"

definition demo_wildcard :: "string \<Rightarrow> ExportInfo" where
  "demo_wildcard src =
     \<lparr>kind_e = All, localName_e = None, exportedName_e = None, source_e = Some src,
      location_e = demo_loc\<rparr>"

definition demo_chain :: "string \<Rightarrow> ParseResult" where
  "demo_chain f =
     (if f = ''a.ts''
      then \<lparr>symbols = [demo_symbol ''a1'' ''a.ts'' 1, demo_symbol ''a2'' ''a.ts'' 2],
            exports = [demo_wildcard ''./b''], errors = []\<rparr>
      else if f = ''b.ts''
      then \<lparr>symbols = [demo_symbol ''b1'' ''b.ts'' 1, demo_symbol ''b2'' ''b.ts'' 2],
            exports = [demo_wildcard ''./c''], errors = []\<rparr>
      else if f = ''c.ts''
      then \<lparr>symbols = [demo_symbol ''c1'' ''c.ts'' 1, demo_symbol ''c2'' ''c.ts'' 2],
            exports = [], errors = []\<rparr>
      else readFailure f)"

text \<open>
  The parsers of the examples throw \<open>Error: Invalid argument\<close> on a text of 32768
  characters or more, as \<open>parser.parse(sourceCode)\<close> does when it is called without a buffer
  size; \<open>demo_long\<close> is such a text.
\<close>

definition parserLimit :: nat where
  "parserLimit = 32768"

definition demo_long :: string where
  "demo_long = replicate 40000 CHR ''a''"

text \<open>
  One TypeScript file \<open>a.ts\<close> with a modification time and a content, a pass that knows
  two contents and finds nothing in any other short one, and the cache after parsing the
  first.
\<close>

definition demo_fooPass :: "string \<Rightarrow> string \<Rightarrow> string + SymbolInfo list \<times> ExportInfo list" where
  "demo_fooPass filePath sourceCode =
     (if parserLimit \<le> length sourceCode then Inl ''Error: Invalid argument''
      else if sourceCode = ''export function Foo() {}'' then Inr ([demo_symbol ''Foo'' filePath 1], [])
      else if sourceCode = ''export function Bar() {}'' then Inr ([demo_symbol ''Bar'' filePath 1], [])
      else Inr ([], []))"

definition demo_fs :: "real \<Rightarrow> string \<Rightarrow> FileSystem" where
  "demo_fs t src =
     \<lparr>statMtime = (\<lambda>p. if p = ''a.ts'' then Some t else None),
      readFile = (\<lambda>p. if p = ''a.ts'' then Some src else None)\<rparr>"

definition demo_fooOutcome :: ParseResult where
  "demo_fooOutcome = \<lparr>symbols = [demo_symbol ''Foo'' ''a.ts'' 1], exports = [], errors = []\<rparr>"

definition demo_fooCache :: Cache where
  "demo_fooCache = [''a.ts'' \<mapsto> \<lparr>mtime = 1000, result = demo_fooOutcome\<rparr>]"

text \<open>A file system holding one file at any path, and a Python pass.\<close>

definition demo_fileAt :: "string \<Rightarrow> real \<Rightarrow> string \<Rightarrow> FileSystem" where
  "demo_fileAt path t src =
     \<lparr>statMtime = (\<lambda>p. if p = path then Some t else None),
      readFile = (\<lambda>p. if p = path then Some src else None)\<rparr>"

definition demo_pyPass :: "string \<Rightarrow> string \<Rightarrow> string + SymbolInfo list" where
  "demo_pyPass filePath sourceCode =
     (if parserLimit \<le> length sourceCode then Inl ''Error: Invalid argument''
      else if sourceCode = ''def foo(): pass'' then Inr [demo_symbol ''foo'' filePath 1]
      else Inr [])"

text \<open>
  Single-file components with the three sections: \<open>demo_vueSource\<close> is a small one,
  \<open>demo_vueLargeStyle\<close> and \<open>demo_vueLargeScript\<close> hold a style section and a script section
  of 40000 characters. The script pass finds the constant \<open>a\<close> of the script
  \<open>const a = 1\<close>, on the line after the one where the section starts; the style pass finds
  nothing in a short style sheet.
\<close>

definition demo_component :: "string \<Rightarrow> string \<Rightarrow> string" where
  "demo_component scriptBody styleBody =
     ''<template><Foo/></template><script>'' @ scriptBody @ ''</script><style>'' @ styleBody
     @ ''</style>''"

definition demo_vueSource :: string where
  "demo_vueSource = demo_component ''const a = 1'' ''.x{''"

definition demo_vueLargeStyle :: string where
  "demo_vueLargeStyle = demo_component ''const a = 1'' demo_long"

definition demo_vueLargeScript :: string where
  "demo_vueLargeScript = demo_component demo_long ''.x{''"

definition demo_vueConst :: "string \<Rightarrow> nat \<Rightarrow> SymbolInfo" where
  "demo_vueConst filePath baseOffset =
     \<lparr>name = ''a'', kind = ''const'', file_s = filePath,
      location = \<lparr>startLine = baseOffset + 1, endLine = baseOffset + 1, startCol = 0, endCol = 11\<rparr>,
      range_s = formatRange (baseOffset + 1) (baseOffset + 1), signature = ''const a = 1'',
      language = ''vue''\<rparr>"

definition demo_vueFoo :: "string \<Rightarrow> SymbolInfo" where
  "demo_vueFoo filePath =
     \<lparr>name = ''Foo'', kind = ''component'', file_s = filePath,
      location = \<lparr>startLine = 2, endLine = 2, startCol = 0, endCol = 6\<rparr>,
      range_s = ''[2:2]'', signature = ''<Foo>'', language = ''vue''\<rparr>"

definition demo_scriptPass ::
    "string \<Rightarrow> string \<Rightarrow> nat \<Rightarrow> string option \<Rightarrow> string + SymbolInfo list \<times> ExportInfo list" where
  "demo_scriptPass filePath src line lg =
     (if parserLimit \<le> length src then Inl ''Error: Invalid argument''
      else if src = ''const a = 1'' then Inr ([demo_vueConst filePath line], [])
      else Inr ([], []))"

definition demo_stylePass :: "string \<Rightarrow> string \<Rightarrow> nat \<Rightarrow> string + SymbolInfo list" where
  "demo_stylePass filePath src line =
     (if parserLimit \<le> length src then Inl ''Error: Invalid argument'' else Inr [])"

text \<open>
  Three TypeScript files \<open>a.ts\<close>, \<open>b.ts\<close> and \<open>c.ts\<close>, each declaring two exported
  functions; \<open>a.ts\<close> starts with a statement that re-exports \<open>./b\<close> and \<open>b.ts\<close> with one
  that re-exports \<open>./c\<close>. \<open>link\<close> is the tree of that statement: \<open>demo_exportStar\<close> for
  \<open>export * from './b'\<close>, \<open>demo_exportNamespace\<close> for \<open>export * as m from './b'\<close>. The trees
  are the ones tree-sitter builds for these texts: in the first the statement has the
  tokens \<open>export\<close>, \<open>*\<close>, \<open>from\<close> and the source string as its children, in the second a
  \<open>namespace_export\<close> node stands in the place of the \<open>*\<close>.
\<close>

definition demo_quoted :: "string \<Rightarrow> string" where
  "demo_quoted s = CHR 0x27 # s @ [CHR 0x27]"

definition demo_token :: "string \<Rightarrow> nat \<Rightarrow> nat \<Rightarrow> SyntaxNode" where
  "demo_token tx r c =
     SyntaxNode tx False None tx \<lparr>row = r, column = c\<rparr> \<lparr>row = r, column = c + length tx\<rparr> []"

definition demo_node ::
    "string \<Rightarrow> string option \<Rightarrow> string \<Rightarrow> nat \<Rightarrow> nat \<Rightarrow> SyntaxNode list \<Rightarrow> SyntaxNode" where
  "demo_node t fld tx r c cs =
     SyntaxNode t True fld tx \<lparr>row = r, column = c\<rparr> \<lparr>row = r, column = c + length tx\<rparr> cs"

definition demo_string :: "string \<Rightarrow> nat \<Rightarrow> nat \<Rightarrow> SyntaxNode" where
  "demo_string src r c =
     demo_node ''string'' (Some ''source'') (demo_quoted src) r c
       [demo_token [CHR 0x27] r c,
        demo_node ''string_fragment'' None src r (c + 1) [],
        demo_token [CHR 0x27] r (c + 1 + length src)]"

definition demo_exportStar :: "nat \<Rightarrow> string \<Rightarrow> SyntaxNode" where
  "demo_exportStar r src =
     demo_node ''export_statement'' None (''export * from '' @ demo_quoted src) r 0
       [demo_token ''export'' r 0, demo_token ''*'' r 7, demo_token ''from'' r 9,
        demo_string src r 14]"

definition demo_exportNamespace :: "nat \<Rightarrow> string \<Rightarrow> SyntaxNode" where
  "demo_exportNamespace r src =
     demo_node ''export_statement'' None (''export * as m from '' @ demo_quoted src) r 0
       [demo_token ''export'' r 0,
        demo_node ''namespace_export'' None ''* as m'' r 7
          [demo_token ''*'' r 7, demo_token ''as'' r 9, demo_node ''identifier'' None ''m'' r 12 []],
        demo_token ''from'' r 14,
        demo_string src r 19]"

definition demo_exportFunction :: "nat \<Rightarrow> string \<Rightarrow> SyntaxNode" where
  "demo_exportFunction r nm =
     demo_node ''export_statement'' None (''export function '' @ nm @ ''() {}'') r 0
       [demo_token ''export'' r 0,
        demo_node ''function_declaration'' (Some ''declaration'') (''function '' @ nm @ ''() {}'') r 7
          [demo_token ''function'' r 7,
           demo_node ''identifier'' (Some ''name'') nm r 16 [],
           demo_node ''formal_parameters'' (Some ''parameters'') ''()'' r (16 + length nm)
             [demo_token ''('' r (16 + length nm), demo_token '')'' r (17 + length nm)],
           demo_node ''statement_block'' (Some ''body'') ''{}'' r (19 + length nm)
             [demo_token ''{'' r (19 + length nm), demo_token ''}'' r (20 + length nm)]]]"

fun demo_join :: "string list \<Rightarrow> string" where
  "demo_join [] = []"
| "demo_join [l] = l"
| "demo_join (l # ls) = l @ newline # demo_join ls"

definition demo_program :: "SyntaxNode list \<Rightarrow> SyntaxNode" where
  "demo_program statements =
     SyntaxNode ''program'' True None (demo_join (map text_n statements))
       \<lparr>row = 0, column = 0\<rparr>
       \<lparr>row = length statements - 1, column = length (text_n (last statements))\<rparr> statements"

definition demo_statements :: "(nat \<Rightarrow> string \<Rightarrow> SyntaxNode) \<Rightarrow> string \<Rightarrow> SyntaxNode list" where
  "demo_statements link f =
     (if f = ''a.ts''
      then [link 0 ''./b'', demo_exportFunction 1 ''a1'', demo_exportFunction 2 ''a2'']
      else if f = ''b.ts''
      then [link 0 ''./c'', demo_exportFunction 1 ''b1'', demo_exportFunction 2 ''b2'']
      else [demo_exportFunction 0 ''c1'', demo_exportFunction 1 ''c2''])"

definition demo_source :: "(nat \<Rightarrow> string \<Rightarrow> SyntaxNode) \<Rightarrow> string \<Rightarrow> string" where
  "demo_source link f = demo_join (map text_n (demo_statements link f))"

definition demo_files :: "(nat \<Rightarrow> string \<Rightarrow> SyntaxNode) \<Rightarrow> FileSystem" where
  "demo_files link =
     \<lparr>statMtime = (\<lambda>p. if p \<in> {''a.ts'', ''b.ts'', ''c.ts''} then Some 1000 else None),
      readFile = (\<lambda>p. if p \<in> {''a.ts'', ''b.ts'', ''c.ts''} then Some (demo_source link p)
                       else None)\<rparr>"

text \<open>The parser on these three texts; any other short text is taken to be an empty program.\<close>

definition demo_parser ::
    "(nat \<Rightarrow> string \<Rightarrow> SyntaxNode) \<Rightarrow> string \<Rightarrow> string \<Rightarrow> string + SyntaxNode" where
  "demo_parser link filePath sourceCode =
     (if parserLimit \<le> length sourceCode then Inl ''Error: Invalid argument''
      else if sourceCode = demo_source link ''a.ts''
      then Inr (demo_program (demo_statements link ''a.ts''))
      else if sourceCode = demo_source link ''b.ts''
      then Inr (demo_program (demo_statements link ''b.ts''))
      else if sourceCode = demo_source link ''c.ts''
      then Inr (demo_program (demo_statements link ''c.ts''))
      else Inr (SyntaxNode ''program'' True None sourceCode \<lparr>row = 0, column = 0\<rparr>
                  \<lparr>row = 0, column = 0\<rparr> []))"

text \<open>
  \<open>parseFile\<close> of src/parsers/index.ts on these files, with the TypeScript extractor
  registered, from an empty cache; \<open>walk\<close> is \<open>collectSymbols\<close>.
\<close>

definition demo_parse ::
    "(nat \<Rightarrow> string \<Rightarrow> SyntaxNode) \<Rightarrow> (SyntaxNode \<Rightarrow> string \<Rightarrow> string \<Rightarrow> SymbolInfo list) \<Rightarrow>
     string \<Rightarrow> ParseResult" where
  "demo_parse link walk f =
     fst (index_parseFile
            (registerParser Map.empty (typescriptParser (tsPass (demo_parser link) walk)))
            (demo_files link) Map.empty f)"

text \<open>
  The services behind a fuzzy search for \<open>foo\<close>: the alias store cannot be read, the symbol
  search and the text search each find \<open>foo\<close> in \<open>m.py\<close>, no file name matches.
\<close>

definition demo_search :: SearchEnv where
  "demo_search =
     \<lparr>lookupAlias = (\<lambda>term. Rejected),
      parseIndex = demo_chain,
      searchSymbol = (\<lambda>variant. if variant = ''foo''
                                   then Fulfilled [demo_symbol ''foo'' ''m.py'' 1]
                                   else Fulfilled []),
      glob = (\<lambda>variant. Fulfilled []),
      baseOf = (\<lambda>f. takeWhile (\<lambda>c. c \<noteq> CHR ''.'') f),
      searchPattern = (\<lambda>q. Fulfilled [\<lparr>file_m = ''m.py'', line_m = 1, column_m = 4,
                                            text_m = ''def foo(): pass''\<rparr>])\<rparr>"

text \<open>Three candidates in \<open>cards.ts\<close>, two of them at the same location.\<close>

definition demo_candidate :: "string \<Rightarrow> real \<Rightarrow> string \<Rightarrow> FuzzyResult" where
  "demo_candidate rng sc reason =
     \<lparr>file_f = ''cards.ts'', range_f = rng, symbol = Some ''flipCard'', kind_f = Some ''function'',
      score = sc, reasons = [reason]\<rparr>"

definition demo_candidates :: "FuzzyResult list" where
  "demo_candidates =
     [demo_candidate ''[3:5]'' (7 / 10) ''definition_match'',
      demo_candidate ''[3:5]'' (9 / 10) ''alias_hit'',
      demo_candidate ''[1:100]'' (95 / 100) ''alias_hit'']"

text \<open>
  Symbol search results for the variants of \<open>foo\<close>: the variant \<open>foo\<close> finds \<open>foo\<close> twice in
  \<open>m.py\<close>, at lines 1 and 7; the variant \<open>Foo\<close> finds \<open>Foo\<close> in \<open>a.ts\<close> and \<open>foo\<close> at line 1
  again.
\<close>

definition demo_found :: "string \<Rightarrow> SymbolInfo list" where
  "demo_found variant =
     (if variant = ''foo'' then [demo_symbol ''foo'' ''m.py'' 1, demo_symbol ''foo'' ''m.py'' 7]
      else if variant = ''Foo'' then [demo_symbol ''Foo'' ''a.ts'' 1, demo_symbol ''foo'' ''m.py'' 1]
      else [])"

section \<open>Extractor registry: lookup by extension\<close>

lemma lastIndexOf_absent: "c \<notin> set xs \<Longrightarrow> lastIndexOf xs c = - 1"
  by (induction xs) auto

lemma lastIndexOf_append_last:
  "c \<notin> set e \<Longrightarrow> lastIndexOf (base @ c # e) c = int (length base)"
  by (induction base) (auto simp: lastIndexOf_absent)

lemma finalExtension:
  "CHR ''.'' \<notin> set e \<Longrightarrow>
   substring (base @ CHR ''.'' # e) (lastIndexOf (base @ CHR ''.'' # e) CHR ''.'') = CHR ''.'' # e"
  by (simp add: lastIndexOf_append_last substring_def)

lemma registerParser_lookup:
  "registerParser parsers parser ext =
     (if ext \<in> set (extensions parser) then Some parser else parsers ext)"
proof -
  have "fold (\<lambda>ext m. m(ext \<mapsto> parser)) exts parsers ext =
          (if ext \<in> set exts then Some parser else parsers ext)" for exts
    by (induction exts arbitrary: parsers) auto
  then show ?thesis by (simp add: registerParser_def)
qed

text \<open>
  C9 (as amended). \<open>getParserForFile\<close> looks the registry up under the final extension of the
  path exactly as it is written, without any case conversion: for a path \<open>base.e\<close> whose
  extension \<open>e\<close> holds no further dot, the result is the registry entry of \<open>.e\<close>; two paths
  with the same final extension get the same extractor; and after \<open>registerParser\<close> every
  path whose final extension is one of the extractor's declared extensions resolves to
  that extractor.
\<close>

theorem getParserForFile_exact_extension:
  "CHR ''.'' \<notin> set e \<longrightarrow>
     getParserForFile parsers (base @ CHR ''.'' # e) = parsers (CHR ''.'' # e)
     \<and> getParserForFile parsers (base @ CHR ''.'' # e) = getParserForFile parsers (base' @ CHR ''.'' # e)
     \<and> (CHR ''.'' # e \<in> set (extensions parser) \<longrightarrow>
          getParserForFile (registerParser parsers parser) (base @ CHR ''.'' # e) = Some parser)"
  by (simp add: getParserForFile_def finalExtension registerParser_lookup)

theorem getParserForFile_exact_extension_witness:
  "CHR ''.'' \<notin> set ''ts'' \<and> ''.ts'' \<in> set (extensions (typescriptParser demo_tsPass))
   \<and> getParserForFile (registerParser Map.empty (typescriptParser demo_tsPass)) ''src/a.ts''
       = Some (typescriptParser demo_tsPass)
   \<and> getParserForFile Map.empty ''src/a.ts'' = getParserForFile Map.empty ''b.ts''"
proof -
  have d: "CHR ''.'' \<notin> set ''ts''" by simp
  have x: "''.ts'' \<in> set (extensions (typescriptParser demo_tsPass))"
    by (simp add: typescriptParser_def)
  have "getParserForFile (registerParser Map.empty (typescriptParser demo_tsPass))
          (''src/a'' @ CHR ''.'' # ''ts'') = Some (typescriptParser demo_tsPass)
        \<and> getParserForFile Map.empty (''src/a'' @ CHR ''.'' # ''ts'')
            = getParserForFile Map.empty (''b'' @ CHR ''.'' # ''ts'')"
    using getParserForFile_exact_extension
      [of "''ts''" Map.empty "''src/a''" "''b''" "typescriptParser demo_tsPass"] d x
    by blast
  then show ?thesis using d x by simp
qed

text \<open>
  C9 as stated fails: with the TypeScript extractor registered under \<open>.ts\<close>, the path
  \<open>a.TS\<close> finds no extractor while \<open>a.ts\<close> finds it.
\<close>

theorem getParserForFile_case_counterexample:
  "getParserForFile (registerParser Map.empty (typescriptParser demo_tsPass)) ''a.TS'' = None
   \<and> getParserForFile (registerParser Map.empty (typescriptParser demo_tsPass)) ''a.ts''
       = Some (typescriptParser demo_tsPass)"
  by (simp add: getParserForFile_def registerParser_lookup substring_def typescriptParser_def)

section \<open>Export resolver: \<open>followExport\<close> is bounded\<close>

text \<open>
  A resolved export is reached within the depth bound: the chain of files it reports,
  counted from the depth of the call, never exceeds \<open>MAX_DEPTH + 1\<close>.
\<close>

lemma followExport_chain_bound_aux:
  "(\<forall>r V'. followExport parse env filePath exportedName visited depth = (Some r, V') \<longrightarrow>
       length (exportChain r) + depth \<le> MAX_DEPTH + 1)"
  "(\<forall>r V'. followExport_loop parse env filePath exportedName es visited depth = (Some r, V') \<longrightarrow>
       depth \<le> MAX_DEPTH \<longrightarrow> length (exportChain r) + depth \<le> MAX_DEPTH + 1)"
proof (induction parse env filePath exportedName visited depth
         and parse env filePath exportedName es visited depth
       rule: followExport_followExport_loop.induct)
  case (1 parse env filePath exportedName visited depth)
  show ?case
  proof (intro allI impI)
    fix r V'
    assume res: "followExport parse env filePath exportedName visited depth = (Some r, V')"
    then have d: "\<not> MAX_DEPTH < depth" and k: "visitKey filePath exportedName \<notin> visited"
      and e: "\<not> errors (parse filePath) \<noteq> []"
      by (auto simp: followExport.simps(1) split: if_splits)
    show "length (exportChain r) + depth \<le> MAX_DEPTH + 1"
    proof (cases "find (\<lambda>s. name s = exportedName) (symbols (parse filePath))")
      case None
      with res d k e have
        "followExport_loop parse env filePath exportedName (exports (parse filePath))
           (insert (visitKey filePath exportedName) visited) depth = (Some r, V')"
        by (simp add: followExport.simps(1))
      with "1.IH" [OF d k e None] d show ?thesis by simp
    next
      case (Some localSymbol)
      with res d k e have "r = localHit filePath exportedName localSymbol"
        by (simp add: followExport.simps(1))
      then show ?thesis using d by (simp add: localHit_def)
    qed
  qed
next
  case (2 parse env filePath exportedName visited depth)
  show ?case by simp
next
  case (3 parse env filePath exportedName expo rest visited depth)
  show ?case
    using "3.IH"
    by (auto simp: localHit_def split: option.splits prod.splits if_splits)
qed


lemma demo_chain_follow:
  "followExport demo_chain (demo_env [''a.ts'', ''b.ts'', ''c.ts'']) ''a.ts'' ''c1'' {} 0
     = (Some \<lparr>originalFile = ''c.ts'', originalName = ''c1'', resolvedFile = ''c.ts'',
               resolvedSymbol = Some (demo_symbol ''c1'' ''c.ts'' 1),
               exportChain = [''a.ts'', ''b.ts'', ''c.ts'']\<rparr>,
        {''c.ts:c1'', ''b.ts:c1'', ''a.ts:c1''})"
  by (simp add: followExport.simps(1) MAX_DEPTH_def visitKey_def demo_chain_def demo_symbol_def
        demo_wildcard_def sourceOf_def resolveModulePath_def demo_env_def moduleExtensions_def
        localHit_def)

text \<open>
  C1. \<open>followExport\<close> is a total function: its definition above comes with a termination
  proof that holds for every \<open>parse\<close> and every path environment, hence for every export
  graph, cyclic or not (the measure is the distance of \<open>depth\<close> from \<open>MAX_DEPTH + 1\<close>, then
  the number of export records left in the loop). It returns none when the depth exceeds
  \<open>MAX_DEPTH = 10\<close>, and when the key of \<open>(filePath, exportedName)\<close> is already in the
  visited set; in both cases it leaves the visited set as it is. A result it does return
  was found within the bound: its export chain, added to the depth of the call, is at most
  \<open>MAX_DEPTH + 1\<close> long. On a two-file cycle, where \<open>a\<close> re-exports \<open>x\<close> from \<open>b\<close> and \<open>b\<close>
  re-exports \<open>x\<close> from \<open>a\<close>, a call with the default arguments returns none.
\<close>

theorem followExport_bounded:
  "(MAX_DEPTH < depth \<longrightarrow>
      followExport parse env filePath exportedName visited depth = (None, visited))
   \<and> (visitKey filePath exportedName \<in> visited \<longrightarrow>
      followExport parse env filePath exportedName visited depth = (None, visited))
   \<and> (followExport parse env filePath exportedName visited depth = (Some resolved, visited') \<longrightarrow>
      length (exportChain resolved) + depth \<le> MAX_DEPTH + 1)
   \<and> (parse a = \<lparr>symbols = [],
                   exports = [\<lparr>kind_e = Named, localName_e = Some x, exportedName_e = Some x,
                               source_e = Some sb, location_e = la\<rparr>],
                   errors = []\<rparr>
        \<and> parse b = \<lparr>symbols = [],
                      exports = [\<lparr>kind_e = Named, localName_e = Some x, exportedName_e = Some x,
                                  source_e = Some sa, location_e = lb\<rparr>],
                      errors = []\<rparr>
        \<and> resolveModulePath env a sb = Some b \<and> resolveModulePath env b sa = Some a
        \<longrightarrow> fst (followExport parse env a x {} 0) = None)"
proof (intro conjI impI)
  assume "MAX_DEPTH < depth"
  then show "followExport parse env filePath exportedName visited depth = (None, visited)"
    by (simp add: followExport.simps(1))
next
  assume "visitKey filePath exportedName \<in> visited"
  then show "followExport parse env filePath exportedName visited depth = (None, visited)"
    by (simp add: followExport.simps(1))
next
  assume "followExport parse env filePath exportedName visited depth = (Some resolved, visited')"
  then show "length (exportChain resolved) + depth \<le> MAX_DEPTH + 1"
    using followExport_chain_bound_aux(1) by blast
next
  assume cyc:
    "parse a = \<lparr>symbols = [],
                  exports = [\<lparr>kind_e = Named, localName_e = Some x, exportedName_e = Some x,
                              source_e = Some sb, location_e = la\<rparr>],
                  errors = []\<rparr>
     \<and> parse b = \<lparr>symbols = [],
                     exports = [\<lparr>kind_e = Named, localName_e = Some x, exportedName_e = Some x,
                                 source_e = Some sa, location_e = lb\<rparr>],
                     errors = []\<rparr>
     \<and> resolveModulePath env a sb = Some b \<and> resolveModulePath env b sa = Some a"
  have third: "followExport parse env a x (insert (visitKey b x) {visitKey a x}) (Suc (Suc 0))
                 = (None, insert (visitKey b x) {visitKey a x})"
    by (simp add: followExport.simps(1))
  have second: "fst (followExport parse env b x {visitKey a x} (Suc 0)) = None"
    using cyc third
    by (simp add: followExport.simps(1) [of parse env b x "{visitKey a x}" "Suc 0"]
          MAX_DEPTH_def sourceOf_def split: prod.splits)
  show "fst (followExport parse env a x {} 0) = None"
    using cyc second
    by (auto simp: followExport.simps(1) [of parse env a x "{}" 0]
          MAX_DEPTH_def sourceOf_def split: prod.splits option.splits)
qed


theorem followExport_bounded_witness:
  "MAX_DEPTH < 11 \<and> visitKey ''a.ts'' ''X'' \<in> {''a.ts:X''}
   \<and> followExport demo_cycle (demo_env [''a.ts'', ''b.ts'']) ''a.ts'' ''X'' {} 11 = (None, {})
   \<and> followExport demo_cycle (demo_env [''a.ts'', ''b.ts'']) ''a.ts'' ''X'' {''a.ts:X''} 0
       = (None, {''a.ts:X''})
   \<and> resolveModulePath (demo_env [''a.ts'', ''b.ts'']) ''a.ts'' ''./b'' = Some ''b.ts''
   \<and> resolveModulePath (demo_env [''a.ts'', ''b.ts'']) ''b.ts'' ''./a'' = Some ''a.ts''
   \<and> fst (followExport demo_cycle (demo_env [''a.ts'', ''b.ts'']) ''a.ts'' ''X'' {} 0) = None
   \<and> exportChain (the (fst (followExport demo_chain (demo_env [''a.ts'', ''b.ts'', ''c.ts''])
                                ''a.ts'' ''c1'' {} 0)))
       = [''a.ts'', ''b.ts'', ''c.ts'']
   \<and> length [''a.ts'', ''b.ts'', ''c.ts''] + 0 \<le> MAX_DEPTH + 1"
proof -
  have r1: "resolveModulePath (demo_env [''a.ts'', ''b.ts'']) ''a.ts'' ''./b'' = Some ''b.ts''"
    by (simp add: resolveModulePath_def demo_env_def moduleExtensions_def)
  have r2: "resolveModulePath (demo_env [''a.ts'', ''b.ts'']) ''b.ts'' ''./a'' = Some ''a.ts''"
    by (simp add: resolveModulePath_def demo_env_def moduleExtensions_def)
  have d: "MAX_DEPTH < 11" by (simp add: MAX_DEPTH_def)
  have k: "visitKey ''a.ts'' ''X'' \<in> {''a.ts:X''}" by (simp add: visitKey_def)
  have pa: "demo_cycle ''a.ts'' = \<lparr>symbols = [],
                   exports = [\<lparr>kind_e = Named, localName_e = Some ''X'', exportedName_e = Some ''X'',
                               source_e = Some ''./b'', location_e = demo_loc\<rparr>],
                   errors = []\<rparr>"
    by (simp add: demo_cycle_def demo_reexport_def)
  have pb: "demo_cycle ''b.ts'' = \<lparr>symbols = [],
                   exports = [\<lparr>kind_e = Named, localName_e = Some ''X'', exportedName_e = Some ''X'',
                               source_e = Some ''./a'', location_e = demo_loc\<rparr>],
                   errors = []\<rparr>"
    by (simp add: demo_cycle_def demo_reexport_def)
  note th = followExport_bounded [where parse = demo_cycle and env = "demo_env [''a.ts'', ''b.ts'']"
      and a = "''a.ts''" and b = "''b.ts''" and x = "''X''" and sa = "''./a''" and sb = "''./b''"
      and la = demo_loc and lb = demo_loc and filePath = "''a.ts''" and exportedName = "''X''"]
  from th [where depth = 11 and visited = "{}"] d
  have c1: "followExport demo_cycle (demo_env [''a.ts'', ''b.ts'']) ''a.ts'' ''X'' {} 11 = (None, {})"
    by blast
  from th [where depth = 0 and visited = "{''a.ts:X''}"] k
  have c2: "followExport demo_cycle (demo_env [''a.ts'', ''b.ts'']) ''a.ts'' ''X'' {''a.ts:X''} 0
       = (None, {''a.ts:X''})"
    by blast
  from th [where depth = 0 and visited = "{}"] pa pb r1 r2
  have c3: "fst (followExport demo_cycle (demo_env [''a.ts'', ''b.ts'']) ''a.ts'' ''X'' {} 0) = None"
    by blast
  from followExport_bounded
    [where parse = demo_chain and env = "demo_env [''a.ts'', ''b.ts'', ''c.ts'']"
       and filePath = "''a.ts''" and exportedName = "''c1''" and visited = "{}" and depth = 0]
    demo_chain_follow
  have c4: "length (exportChain
              \<lparr>originalFile = ''c.ts'', originalName = ''c1'', resolvedFile = ''c.ts'',
                 resolvedSymbol = Some (demo_symbol ''c1'' ''c.ts'' 1),
                 exportChain = [''a.ts'', ''b.ts'', ''c.ts'']\<rparr>) + 0 \<le> MAX_DEPTH + 1"
    by blast
  have c5: "exportChain (the (fst (followExport demo_chain (demo_env [''a.ts'', ''b.ts'', ''c.ts''])
                                     ''a.ts'' ''c1'' {} 0)))
       = [''a.ts'', ''b.ts'', ''c.ts'']"
    by (simp add: demo_chain_follow)
  show ?thesis using d k c1 c2 r1 r2 c3 c4 c5 by simp
qed

section \<open>Export resolver: \<open>getAllReexportedSymbols\<close>\<close>

text \<open>
  The walk over export records. \<open>getAllReexportedSymbols\<close> returns nothing beyond the depth
  limit of 10 or for a file already visited. Otherwise, for a file that parses without
  errors, it returns the local symbols of the file followed by what the loop over its
  export records pushes: for a record of kind \<open>all\<close> with a source that resolves to a file,
  the aggregated symbols of that file (at depth + 1, with the visited set as it then
  stands), then the contribution of the remaining records; a record of another kind
  contributes nothing. On a chain \<open>a\<close> \<open>\<rightarrow>\<close> \<open>b\<close> \<open>\<rightarrow>\<close> \<open>c\<close> of such records between three
  different files the root yields the symbols of \<open>a\<close>, \<open>b\<close> and \<open>c\<close>, in this order.
\<close>

lemma getAllReexportedSymbols_walk:
  "(MAX_DEPTH < depth \<longrightarrow> getAllReexportedSymbols parse env filePath visited depth = ([], visited))
   \<and> (filePath \<in> visited \<longrightarrow>
        getAllReexportedSymbols parse env filePath visited depth = ([], visited))
   \<and> (depth \<le> MAX_DEPTH \<and> filePath \<notin> visited \<and> errors (parse filePath) = [] \<longrightarrow>
        fst (getAllReexportedSymbols parse env filePath visited depth)
          = symbols (parse filePath)
            @ fst (reexport_loop parse env filePath (exports (parse filePath))
                     (insert filePath visited) depth))
   \<and> (kind_e expo = All \<and> source_e expo = Some src \<and> src \<noteq> []
        \<and> resolveModulePath env filePath src = Some target \<and> target \<noteq> [] \<longrightarrow>
        fst (reexport_loop parse env filePath (expo # rest) visited depth)
          = fst (getAllReexportedSymbols parse env target visited (depth + 1))
            @ fst (reexport_loop parse env filePath rest
                     (snd (getAllReexportedSymbols parse env target visited (depth + 1))) depth))
   \<and> (kind_e expo \<noteq> All \<longrightarrow>
        reexport_loop parse env filePath (expo # rest) visited depth
          = reexport_loop parse env filePath rest visited depth)
   \<and> (parse a = \<lparr>symbols = sa,
                   exports = [\<lparr>kind_e = All, localName_e = None, exportedName_e = None,
                               source_e = Some pb, location_e = la\<rparr>],
                   errors = []\<rparr>
        \<and> parse b = \<lparr>symbols = sb,
                      exports = [\<lparr>kind_e = All, localName_e = None, exportedName_e = None,
                                  source_e = Some pc, location_e = lb\<rparr>],
                      errors = []\<rparr>
        \<and> parse c = \<lparr>symbols = sc, exports = [], errors = []\<rparr>
        \<and> pb \<noteq> [] \<and> pc \<noteq> [] \<and> b \<noteq> [] \<and> c \<noteq> []
        \<and> resolveModulePath env a pb = Some b \<and> resolveModulePath env b pc = Some c
        \<and> a \<noteq> b \<and> a \<noteq> c \<and> b \<noteq> c \<longrightarrow>
        fst (getAllReexportedSymbols parse env a {} 0) = sa @ sb @ sc)"
proof (intro conjI impI)
  assume "MAX_DEPTH < depth"
  then show "getAllReexportedSymbols parse env filePath visited depth = ([], visited)"
    by (simp add: getAllReexportedSymbols.simps(1))
next
  assume "filePath \<in> visited"
  then show "getAllReexportedSymbols parse env filePath visited depth = ([], visited)"
    by (simp add: getAllReexportedSymbols.simps(1))
next
  assume "depth \<le> MAX_DEPTH \<and> filePath \<notin> visited \<and> errors (parse filePath) = []"
  then show "fst (getAllReexportedSymbols parse env filePath visited depth)
          = symbols (parse filePath)
            @ fst (reexport_loop parse env filePath (exports (parse filePath))
                     (insert filePath visited) depth)"
    by (simp add: getAllReexportedSymbols.simps(1) split: prod.splits)
next
  assume "kind_e expo = All \<and> source_e expo = Some src \<and> src \<noteq> []
        \<and> resolveModulePath env filePath src = Some target \<and> target \<noteq> []"
  then show "fst (reexport_loop parse env filePath (expo # rest) visited depth)
          = fst (getAllReexportedSymbols parse env target visited (depth + 1))
            @ fst (reexport_loop parse env filePath rest
                     (snd (getAllReexportedSymbols parse env target visited (depth + 1))) depth)"
    by (simp add: sourceOf_def split: prod.splits)
next
  assume "kind_e expo \<noteq> All"
  then show "reexport_loop parse env filePath (expo # rest) visited depth
          = reexport_loop parse env filePath rest visited depth"
    by simp
next
  assume ch:
    "parse a = \<lparr>symbols = sa,
                   exports = [\<lparr>kind_e = All, localName_e = None, exportedName_e = None,
                               source_e = Some pb, location_e = la\<rparr>],
                   errors = []\<rparr>
        \<and> parse b = \<lparr>symbols = sb,
                      exports = [\<lparr>kind_e = All, localName_e = None, exportedName_e = None,
                                  source_e = Some pc, location_e = lb\<rparr>],
                      errors = []\<rparr>
        \<and> parse c = \<lparr>symbols = sc, exports = [], errors = []\<rparr>
        \<and> pb \<noteq> [] \<and> pc \<noteq> [] \<and> b \<noteq> [] \<and> c \<noteq> []
        \<and> resolveModulePath env a pb = Some b \<and> resolveModulePath env b pc = Some c
        \<and> a \<noteq> b \<and> a \<noteq> c \<and> b \<noteq> c"
  have third: "getAllReexportedSymbols parse env c {b, a} (Suc (Suc 0)) = (sc, {c, b, a})"
    using ch by (auto simp: getAllReexportedSymbols.simps(1) MAX_DEPTH_def)
  have second: "getAllReexportedSymbols parse env b {a} (Suc 0) = (sb @ sc, {c, b, a})"
    using ch third
    by (auto simp: getAllReexportedSymbols.simps(1) [of parse env b "{a}" "Suc 0"]
          MAX_DEPTH_def sourceOf_def)
  show "fst (getAllReexportedSymbols parse env a {} 0) = sa @ sb @ sc"
    using ch second
    by (auto simp: getAllReexportedSymbols.simps(1) [of parse env a "{}" 0]
          MAX_DEPTH_def sourceOf_def)
qed

lemma getAllReexportedSymbols_walk_example:
  "resolveModulePath (demo_env [''a.ts'', ''b.ts'', ''c.ts'']) ''a.ts'' ''./b'' = Some ''b.ts''
   \<and> resolveModulePath (demo_env [''a.ts'', ''b.ts'', ''c.ts'']) ''b.ts'' ''./c'' = Some ''c.ts''
   \<and> fst (getAllReexportedSymbols demo_chain (demo_env [''a.ts'', ''b.ts'', ''c.ts'']) ''a.ts'' {} 0)
       = [demo_symbol ''a1'' ''a.ts'' 1, demo_symbol ''a2'' ''a.ts'' 2,
          demo_symbol ''b1'' ''b.ts'' 1, demo_symbol ''b2'' ''b.ts'' 2,
          demo_symbol ''c1'' ''c.ts'' 1, demo_symbol ''c2'' ''c.ts'' 2]
   \<and> distinct (fst (getAllReexportedSymbols demo_chain (demo_env [''a.ts'', ''b.ts'', ''c.ts''])
                      ''a.ts'' {} 0))
   \<and> getAllReexportedSymbols demo_chain (demo_env [''a.ts'', ''b.ts'', ''c.ts'']) ''a.ts'' {} 11
       = ([], {})
   \<and> getAllReexportedSymbols demo_chain (demo_env [''a.ts'', ''b.ts'', ''c.ts'']) ''a.ts''
         {''a.ts''} 0 = ([], {''a.ts''})
   \<and> fst (getAllReexportedSymbols demo_chain (demo_env [''a.ts'', ''b.ts'', ''c.ts'']) ''a.ts'' {} 0)
       = symbols (demo_chain ''a.ts'')
         @ fst (reexport_loop demo_chain (demo_env [''a.ts'', ''b.ts'', ''c.ts'']) ''a.ts''
                  (exports (demo_chain ''a.ts'')) {''a.ts''} 0)
   \<and> fst (reexport_loop demo_chain (demo_env [''a.ts'', ''b.ts'', ''c.ts'']) ''a.ts''
              [demo_wildcard ''./b'', demo_reexport ''X'' ''./c''] {''a.ts''} 0)
       = fst (getAllReexportedSymbols demo_chain (demo_env [''a.ts'', ''b.ts'', ''c.ts''])
                ''b.ts'' {''a.ts''} 1)
         @ fst (reexport_loop demo_chain (demo_env [''a.ts'', ''b.ts'', ''c.ts'']) ''a.ts''
                  [demo_reexport ''X'' ''./c'']
                  (snd (getAllReexportedSymbols demo_chain (demo_env [''a.ts'', ''b.ts'', ''c.ts''])
                          ''b.ts'' {''a.ts''} 1)) 0)
   \<and> reexport_loop demo_chain (demo_env [''a.ts'', ''b.ts'', ''c.ts'']) ''a.ts''
         [demo_reexport ''X'' ''./c''] {''a.ts''} 0
       = reexport_loop demo_chain (demo_env [''a.ts'', ''b.ts'', ''c.ts'']) ''a.ts'' [] {''a.ts''} 0"
proof -
  let ?env = "demo_env [''a.ts'', ''b.ts'', ''c.ts'']"
  have r1: "resolveModulePath ?env ''a.ts'' ''./b'' = Some ''b.ts''"
    by (simp add: resolveModulePath_def demo_env_def moduleExtensions_def)
  have r2: "resolveModulePath ?env ''b.ts'' ''./c'' = Some ''c.ts''"
    by (simp add: resolveModulePath_def demo_env_def moduleExtensions_def)
  have pa: "demo_chain ''a.ts'' =
      \<lparr>symbols = [demo_symbol ''a1'' ''a.ts'' 1, demo_symbol ''a2'' ''a.ts'' 2],
       exports = [\<lparr>kind_e = All, localName_e = None, exportedName_e = None,
                   source_e = Some ''./b'', location_e = demo_loc\<rparr>],
       errors = []\<rparr>"
    by (simp add: demo_chain_def demo_wildcard_def)
  have pb: "demo_chain ''b.ts'' =
      \<lparr>symbols = [demo_symbol ''b1'' ''b.ts'' 1, demo_symbol ''b2'' ''b.ts'' 2],
       exports = [\<lparr>kind_e = All, localName_e = None, exportedName_e = None,
                   source_e = Some ''./c'', location_e = demo_loc\<rparr>],
       errors = []\<rparr>"
    by (simp add: demo_chain_def demo_wildcard_def)
  have pc: "demo_chain ''c.ts'' =
      \<lparr>symbols = [demo_symbol ''c1'' ''c.ts'' 1, demo_symbol ''c2'' ''c.ts'' 2],
       exports = [], errors = []\<rparr>"
    by (simp add: demo_chain_def)
  have ne: "''./b'' \<noteq> [] \<and> ''./c'' \<noteq> [] \<and> ''b.ts'' \<noteq> [] \<and> ''c.ts'' \<noteq> []
            \<and> ''a.ts'' \<noteq> ''b.ts'' \<and> ''a.ts'' \<noteq> ''c.ts'' \<and> ''b.ts'' \<noteq> ''c.ts''"
    by simp
  have d: "MAX_DEPTH < 11" by (simp add: MAX_DEPTH_def)
  note th = getAllReexportedSymbols_walk
      [where parse = demo_chain and env = ?env and a = "''a.ts''" and b = "''b.ts''"
         and c = "''c.ts''" and pb = "''./b''" and pc = "''./c''" and la = demo_loc and lb = demo_loc
         and sa = "[demo_symbol ''a1'' ''a.ts'' 1, demo_symbol ''a2'' ''a.ts'' 2]"
         and sb = "[demo_symbol ''b1'' ''b.ts'' 1, demo_symbol ''b2'' ''b.ts'' 2]"
         and sc = "[demo_symbol ''c1'' ''c.ts'' 1, demo_symbol ''c2'' ''c.ts'' 2]"
         and filePath = "''a.ts''"]
  from th [where depth = 0 and visited = "{}"] pa pb pc ne r1 r2
  have c1: "fst (getAllReexportedSymbols demo_chain ?env ''a.ts'' {} 0)
       = [demo_symbol ''a1'' ''a.ts'' 1, demo_symbol ''a2'' ''a.ts'' 2]
         @ [demo_symbol ''b1'' ''b.ts'' 1, demo_symbol ''b2'' ''b.ts'' 2]
         @ [demo_symbol ''c1'' ''c.ts'' 1, demo_symbol ''c2'' ''c.ts'' 2]"
    by blast
  from th [where depth = 11 and visited = "{}"] d
  have c2: "getAllReexportedSymbols demo_chain ?env ''a.ts'' {} 11 = ([], {})"
    by blast
  from th [where depth = 0 and visited = "{''a.ts''}"]
  have c3: "getAllReexportedSymbols demo_chain ?env ''a.ts'' {''a.ts''} 0 = ([], {''a.ts''})"
    by blast
  have dist: "distinct ([demo_symbol ''a1'' ''a.ts'' 1, demo_symbol ''a2'' ''a.ts'' 2]
         @ [demo_symbol ''b1'' ''b.ts'' 1, demo_symbol ''b2'' ''b.ts'' 2]
         @ [demo_symbol ''c1'' ''c.ts'' 1, demo_symbol ''c2'' ''c.ts'' 2])"
    by (simp add: demo_symbol_def)
  have g: "(0::nat) \<le> MAX_DEPTH \<and> ''a.ts'' \<notin> ({} :: string set)
            \<and> errors (demo_chain ''a.ts'') = []"
    by (simp add: demo_chain_def)
  from th [where depth = 0 and visited = "{}"] g
  have c4: "fst (getAllReexportedSymbols demo_chain ?env ''a.ts'' {} 0)
       = symbols (demo_chain ''a.ts'')
         @ fst (reexport_loop demo_chain ?env ''a.ts'' (exports (demo_chain ''a.ts''))
                  (insert ''a.ts'' {}) 0)"
    by blast
  have w: "kind_e (demo_wildcard ''./b'') = All \<and> source_e (demo_wildcard ''./b'') = Some ''./b''
           \<and> ''./b'' \<noteq> [] \<and> ''b.ts'' \<noteq> []"
    by (simp add: demo_wildcard_def)
  from th [where depth = 0 and visited = "{''a.ts''}" and expo = "demo_wildcard ''./b''"
             and src = "''./b''" and target = "''b.ts''" and rest = "[demo_reexport ''X'' ''./c'']"]
    w r1
  have c5: "fst (reexport_loop demo_chain ?env ''a.ts''
              [demo_wildcard ''./b'', demo_reexport ''X'' ''./c''] {''a.ts''} 0)
       = fst (getAllReexportedSymbols demo_chain ?env ''b.ts'' {''a.ts''} (0 + 1))
         @ fst (reexport_loop demo_chain ?env ''a.ts'' [demo_reexport ''X'' ''./c'']
                  (snd (getAllReexportedSymbols demo_chain ?env ''b.ts'' {''a.ts''} (0 + 1))) 0)"
    by blast
  have n: "kind_e (demo_reexport ''X'' ''./c'') \<noteq> All"
    by (simp add: demo_reexport_def)
  from th [where depth = 0 and visited = "{''a.ts''}" and expo = "demo_reexport ''X'' ''./c''"
             and rest = "[]"] n
  have c6: "reexport_loop demo_chain ?env ''a.ts'' [demo_reexport ''X'' ''./c''] {''a.ts''} 0
       = reexport_loop demo_chain ?env ''a.ts'' [] {''a.ts''} 0"
    by blast
  have c123: "resolveModulePath ?env ''a.ts'' ''./b'' = Some ''b.ts''
   \<and> resolveModulePath ?env ''b.ts'' ''./c'' = Some ''c.ts''
   \<and> fst (getAllReexportedSymbols demo_chain ?env ''a.ts'' {} 0)
       = [demo_symbol ''a1'' ''a.ts'' 1, demo_symbol ''a2'' ''a.ts'' 2,
          demo_symbol ''b1'' ''b.ts'' 1, demo_symbol ''b2'' ''b.ts'' 2,
          demo_symbol ''c1'' ''c.ts'' 1, demo_symbol ''c2'' ''c.ts'' 2]
   \<and> distinct (fst (getAllReexportedSymbols demo_chain ?env ''a.ts'' {} 0))
   \<and> getAllReexportedSymbols demo_chain ?env ''a.ts'' {} 11 = ([], {})
   \<and> getAllReexportedSymbols demo_chain ?env ''a.ts'' {''a.ts''} 0 = ([], {''a.ts''})"
    using r1 r2 c1 c2 c3 dist by simp
  have c4': "fst (getAllReexportedSymbols demo_chain ?env ''a.ts'' {} 0)
       = symbols (demo_chain ''a.ts'')
         @ fst (reexport_loop demo_chain ?env ''a.ts'' (exports (demo_chain ''a.ts'')) {''a.ts''} 0)"
    using c4 by simp
  have c5': "fst (reexport_loop demo_chain ?env ''a.ts''
              [demo_wildcard ''./b'', demo_reexport ''X'' ''./c''] {''a.ts''} 0)
       = fst (getAllReexportedSymbols demo_chain ?env ''b.ts'' {''a.ts''} 1)
         @ fst (reexport_loop demo_chain ?env ''a.ts'' [demo_reexport ''X'' ''./c'']
                  (snd (getAllReexportedSymbols demo_chain ?env ''b.ts'' {''a.ts''} 1)) 0)"
    using c5 by simp
  show ?thesis using c123 c4' c5' c6 by blast
qed


subsection \<open>Which statements give a record of kind \<open>all\<close>\<close>

lemma demo_registry:
  "getParserForFile (registerParser Map.empty (typescriptParser pass))
     [x, CHR ''.'', CHR ''t'', CHR ''s'']
     = Some (typescriptParser pass)"
  by (simp add: getParserForFile_def registerParser_def typescriptParser_def substring_def)

lemma demo_source_distinct:
  "demo_source demo_exportStar ''b.ts'' \<noteq> demo_source demo_exportStar ''a.ts''
   \<and> demo_source demo_exportStar ''c.ts'' \<noteq> demo_source demo_exportStar ''a.ts''
   \<and> demo_source demo_exportStar ''c.ts'' \<noteq> demo_source demo_exportStar ''b.ts''
   \<and> demo_source demo_exportNamespace ''b.ts'' \<noteq> demo_source demo_exportNamespace ''a.ts''
   \<and> demo_source demo_exportNamespace ''c.ts'' \<noteq> demo_source demo_exportNamespace ''a.ts''
   \<and> demo_source demo_exportNamespace ''c.ts'' \<noteq> demo_source demo_exportNamespace ''b.ts''"
  by code_simp

lemma demo_source_short:
  "length (demo_source demo_exportStar ''a.ts'') < parserLimit
   \<and> length (demo_source demo_exportStar ''b.ts'') < parserLimit
   \<and> length (demo_source demo_exportStar ''c.ts'') < parserLimit
   \<and> length (demo_source demo_exportNamespace ''a.ts'') < parserLimit
   \<and> length (demo_source demo_exportNamespace ''b.ts'') < parserLimit
   \<and> length (demo_source demo_exportNamespace ''c.ts'') < parserLimit
   \<and> demo_source demo_exportStar ''a.ts'' \<noteq> []
   \<and> demo_source demo_exportStar ''b.ts'' \<noteq> []
   \<and> demo_source demo_exportStar ''c.ts'' \<noteq> []
   \<and> demo_source demo_exportNamespace ''a.ts'' \<noteq> []
   \<and> demo_source demo_exportNamespace ''b.ts'' \<noteq> []
   \<and> demo_source demo_exportNamespace ''c.ts'' \<noteq> []"
  by code_simp

text \<open>Each of the three files parses to what the two walks collect from its tree.\<close>

lemma demo_parse_file:
  assumes "link = demo_exportStar \<or> link = demo_exportNamespace"
    and "f \<in> {''a.ts'', ''b.ts'', ''c.ts''}"
  shows "demo_parse link walk f =
     \<lparr>symbols = walk (demo_program (demo_statements link f)) f (demo_source link f),
      exports = collectExports (demo_program (demo_statements link f)), errors = []\<rparr>"
proof -
  have reg: "getParserForFile
               (registerParser Map.empty (typescriptParser (tsPass (demo_parser link) walk))) f
               = Some (typescriptParser (tsPass (demo_parser link) walk))"
    using assms(2) demo_registry by auto
  have rd: "readFileContent (demo_files link) f = Some (demo_source link f)"
    using assms(2) by (auto simp: readFileContent_def demo_files_def)
  have ps: "demo_parser link f (demo_source link f) = Inr (demo_program (demo_statements link f))"
    using assms demo_source_distinct demo_source_short
    by (auto simp: demo_parser_def)
  have ne: "demo_source link f \<noteq> []"
    using assms demo_source_short by auto
  have "demo_parse link walk f
          = fst (parseFile (tsPass (demo_parser link) walk) (demo_files link) Map.empty f)"
    by (simp add: demo_parse_def index_parseFile_def reg) (simp add: typescriptParser_def)
  then show ?thesis
    by (simp add: parseFile_def getCachedResult_def rd ne tsPass_def ps)
qed

lemma demo_exports_star:
  "collectExports (demo_program (demo_statements demo_exportStar ''a.ts'')) =
     [\<lparr>kind_e = Named, localName_e = Some ''a1'', exportedName_e = Some ''a1'', source_e = None,
       location_e = \<lparr>startLine = 2, endLine = 2, startCol = 0, endCol = 23\<rparr>\<rparr>,
      \<lparr>kind_e = Named, localName_e = Some ''a2'', exportedName_e = Some ''a2'', source_e = None,
       location_e = \<lparr>startLine = 3, endLine = 3, startCol = 0, endCol = 23\<rparr>\<rparr>]"
  by code_simp

lemma demo_exports_namespace:
  "collectExports (demo_program (demo_statements demo_exportNamespace ''a.ts'')) =
     [demo_wildcard ''./b'',
      \<lparr>kind_e = Named, localName_e = Some ''a1'', exportedName_e = Some ''a1'', source_e = None,
       location_e = \<lparr>startLine = 2, endLine = 2, startCol = 0, endCol = 23\<rparr>\<rparr>,
      \<lparr>kind_e = Named, localName_e = Some ''a2'', exportedName_e = Some ''a2'', source_e = None,
       location_e = \<lparr>startLine = 3, endLine = 3, startCol = 0, endCol = 23\<rparr>\<rparr>]
   \<and> collectExports (demo_program (demo_statements demo_exportNamespace ''b.ts'')) =
     [demo_wildcard ''./c'',
      \<lparr>kind_e = Named, localName_e = Some ''b1'', exportedName_e = Some ''b1'', source_e = None,
       location_e = \<lparr>startLine = 2, endLine = 2, startCol = 0, endCol = 23\<rparr>\<rparr>,
      \<lparr>kind_e = Named, localName_e = Some ''b2'', exportedName_e = Some ''b2'', source_e = None,
       location_e = \<lparr>startLine = 3, endLine = 3, startCol = 0, endCol = 23\<rparr>\<rparr>]
   \<and> collectExports (demo_program (demo_statements demo_exportNamespace ''c.ts'')) =
     [\<lparr>kind_e = Named, localName_e = Some ''c1'', exportedName_e = Some ''c1'', source_e = None,
       location_e = \<lparr>startLine = 1, endLine = 1, startCol = 0, endCol = 23\<rparr>\<rparr>,
      \<lparr>kind_e = Named, localName_e = Some ''c2'', exportedName_e = Some ''c2'', source_e = None,
       location_e = \<lparr>startLine = 2, endLine = 2, startCol = 0, endCol = 23\<rparr>\<rparr>]"
  by code_simp

lemma demo_resolve:
  "resolveModulePath (demo_env [''a.ts'', ''b.ts'', ''c.ts'']) ''a.ts'' ''./b'' = Some ''b.ts''
   \<and> resolveModulePath (demo_env [''a.ts'', ''b.ts'', ''c.ts'']) ''b.ts'' ''./c'' = Some ''c.ts''"
  by (simp add: resolveModulePath_def demo_env_def moduleExtensions_def)

text \<open>
  A statement \<open>export * as m from './b'\<close> gives a record of kind \<open>all\<close>, and the walk follows
  it: on the three files linked by such statements the root yields what \<open>collectSymbols\<close>
  finds in \<open>a.ts\<close>, in \<open>b.ts\<close> and in \<open>c.ts\<close>.
\<close>

lemma getAllReexportedSymbols_follows_namespace_export:
  "exportStatement (demo_exportNamespace 0 ''./b'') = [demo_wildcard ''./b'']
   \<and> fst (getAllReexportedSymbols (demo_parse demo_exportNamespace walk)
        (demo_env [''a.ts'', ''b.ts'', ''c.ts'']) ''a.ts'' {} 0)
     = walk (demo_program (demo_statements demo_exportNamespace ''a.ts'')) ''a.ts''
          (demo_source demo_exportNamespace ''a.ts'')
       @ walk (demo_program (demo_statements demo_exportNamespace ''b.ts'')) ''b.ts''
          (demo_source demo_exportNamespace ''b.ts'')
       @ walk (demo_program (demo_statements demo_exportNamespace ''c.ts'')) ''c.ts''
          (demo_source demo_exportNamespace ''c.ts'')"
proof -
  let ?parse = "demo_parse demo_exportNamespace walk"
  let ?env = "demo_env [''a.ts'', ''b.ts'', ''c.ts'']"
  have pa: "?parse ''a.ts'' =
     \<lparr>symbols = walk (demo_program (demo_statements demo_exportNamespace ''a.ts'')) ''a.ts''
                  (demo_source demo_exportNamespace ''a.ts''),
      exports = collectExports (demo_program (demo_statements demo_exportNamespace ''a.ts'')),
      errors = []\<rparr>"
    by (rule demo_parse_file) simp_all
  have pb: "?parse ''b.ts'' =
     \<lparr>symbols = walk (demo_program (demo_statements demo_exportNamespace ''b.ts'')) ''b.ts''
                  (demo_source demo_exportNamespace ''b.ts''),
      exports = collectExports (demo_program (demo_statements demo_exportNamespace ''b.ts'')),
      errors = []\<rparr>"
    by (rule demo_parse_file) simp_all
  have pc: "?parse ''c.ts'' =
     \<lparr>symbols = walk (demo_program (demo_statements demo_exportNamespace ''c.ts'')) ''c.ts''
                  (demo_source demo_exportNamespace ''c.ts''),
      exports = collectExports (demo_program (demo_statements demo_exportNamespace ''c.ts'')),
      errors = []\<rparr>"
    by (rule demo_parse_file) simp_all
  have third: "getAllReexportedSymbols ?parse ?env ''c.ts'' {''b.ts'', ''a.ts''} (Suc (Suc 0))
      = (symbols (?parse ''c.ts''), {''c.ts'', ''b.ts'', ''a.ts''})"
    by (simp add: getAllReexportedSymbols.simps(1) MAX_DEPTH_def pc demo_exports_namespace)
  have second: "getAllReexportedSymbols ?parse ?env ''b.ts'' {''a.ts''} (Suc 0)
      = (symbols (?parse ''b.ts'') @ symbols (?parse ''c.ts''), {''c.ts'', ''b.ts'', ''a.ts''})"
    using third
    by (simp add: getAllReexportedSymbols.simps(1) [of ?parse ?env "''b.ts''" "{''a.ts''}" "Suc 0"]
          MAX_DEPTH_def pb demo_exports_namespace demo_wildcard_def sourceOf_def demo_resolve)
  have first: "getAllReexportedSymbols ?parse ?env ''a.ts'' {} 0
      = (symbols (?parse ''a.ts'') @ symbols (?parse ''b.ts'') @ symbols (?parse ''c.ts''),
         {''c.ts'', ''b.ts'', ''a.ts''})"
    using second
    by (simp add: getAllReexportedSymbols.simps(1) [of ?parse ?env "''a.ts''" "{}" 0]
          MAX_DEPTH_def pa demo_exports_namespace demo_wildcard_def sourceOf_def demo_resolve)
  have ns: "exportStatement (demo_exportNamespace 0 ''./b'') = [demo_wildcard ''./b'']"
    by code_simp
  show ?thesis
    using ns by (simp add: first) (simp add: pa pb pc)
qed

text \<open>
  C6 fails in the code for the statement it names. The three files are linked by
  \<open>export * from './b'\<close> and \<open>export * from './c'\<close> and each declares two exported functions;
  \<open>./b\<close> resolves to \<open>b.ts\<close>, which parses without errors. The tree of \<open>export * from './b'\<close>
  has no \<open>namespace_export\<close> child, no \<open>export_clause\<close>, no \<open>default\<close> token and no
  declaration, so \<open>collectExports\<close> pushes nothing for it: the export records of \<open>a.ts\<close> are
  the two of its own functions, none of kind \<open>all\<close>. \<open>getAllReexportedSymbols\<close> on \<open>a.ts\<close>
  therefore returns what \<open>collectSymbols\<close> finds in \<open>a.ts\<close> alone, whatever that walk is, and
  visits no other file: the symbols of \<open>b.ts\<close> and \<open>c.ts\<close> are missing, where the claim
  expects all six.
\<close>

theorem getAllReexportedSymbols_skips_export_star:
  "demo_source demo_exportStar ''a.ts''
     = ''export * from '' @ [CHR 0x27] @ ''./b'' @ [CHR 0x27, newline]
       @ ''export function a1() {}'' @ [newline] @ ''export function a2() {}''
   \<and> resolveModulePath (demo_env [''a.ts'', ''b.ts'', ''c.ts'']) ''a.ts'' ''./b'' = Some ''b.ts''
   \<and> demo_parse demo_exportStar walk ''b.ts''
       = \<lparr>symbols = walk (demo_program (demo_statements demo_exportStar ''b.ts'')) ''b.ts''
                      (demo_source demo_exportStar ''b.ts''),
          exports = collectExports (demo_program (demo_statements demo_exportStar ''b.ts'')),
          errors = []\<rparr>
   \<and> exportStatement (demo_exportStar 0 ''./b'') = []
   \<and> exports (demo_parse demo_exportStar walk ''a.ts'') =
     [\<lparr>kind_e = Named, localName_e = Some ''a1'', exportedName_e = Some ''a1'', source_e = None,
       location_e = \<lparr>startLine = 2, endLine = 2, startCol = 0, endCol = 23\<rparr>\<rparr>,
      \<lparr>kind_e = Named, localName_e = Some ''a2'', exportedName_e = Some ''a2'', source_e = None,
       location_e = \<lparr>startLine = 3, endLine = 3, startCol = 0, endCol = 23\<rparr>\<rparr>]
   \<and> getAllReexportedSymbols (demo_parse demo_exportStar walk)
        (demo_env [''a.ts'', ''b.ts'', ''c.ts'']) ''a.ts'' {} 0
     = (walk (demo_program (demo_statements demo_exportStar ''a.ts'')) ''a.ts''
          (demo_source demo_exportStar ''a.ts''), {''a.ts''})"
proof -
  have src: "demo_source demo_exportStar ''a.ts''
     = ''export * from '' @ [CHR 0x27] @ ''./b'' @ [CHR 0x27, newline]
       @ ''export function a1() {}'' @ [newline] @ ''export function a2() {}''"
    by code_simp
  have pa: "demo_parse demo_exportStar walk ''a.ts'' =
     \<lparr>symbols = walk (demo_program (demo_statements demo_exportStar ''a.ts'')) ''a.ts''
                  (demo_source demo_exportStar ''a.ts''),
      exports = collectExports (demo_program (demo_statements demo_exportStar ''a.ts'')),
      errors = []\<rparr>"
    by (rule demo_parse_file) simp_all
  have pb: "demo_parse demo_exportStar walk ''b.ts'' =
     \<lparr>symbols = walk (demo_program (demo_statements demo_exportStar ''b.ts'')) ''b.ts''
                  (demo_source demo_exportStar ''b.ts''),
      exports = collectExports (demo_program (demo_statements demo_exportStar ''b.ts'')),
      errors = []\<rparr>"
    by (rule demo_parse_file) simp_all
  have e: "exportStatement (demo_exportStar 0 ''./b'') = []"
    by code_simp
  have ex: "exports (demo_parse demo_exportStar walk ''a.ts'') =
     [\<lparr>kind_e = Named, localName_e = Some ''a1'', exportedName_e = Some ''a1'', source_e = None,
       location_e = \<lparr>startLine = 2, endLine = 2, startCol = 0, endCol = 23\<rparr>\<rparr>,
      \<lparr>kind_e = Named, localName_e = Some ''a2'', exportedName_e = Some ''a2'', source_e = None,
       location_e = \<lparr>startLine = 3, endLine = 3, startCol = 0, endCol = 23\<rparr>\<rparr>]"
    by (simp add: pa demo_exports_star)
  have g: "getAllReexportedSymbols (demo_parse demo_exportStar walk)
        (demo_env [''a.ts'', ''b.ts'', ''c.ts'']) ''a.ts'' {} 0
     = (walk (demo_program (demo_statements demo_exportStar ''a.ts'')) ''a.ts''
          (demo_source demo_exportStar ''a.ts''), {''a.ts''})"
    by (simp add: getAllReexportedSymbols.simps(1) MAX_DEPTH_def pa demo_exports_star)
  show ?thesis
    using src demo_resolve pb e ex g by blast
qed
section \<open>Parse cache: a changed file is parsed again\<close>

lemma getCachedResult_hit:
  "fst (getCachedResult fs cache filePath) = Some r \<Longrightarrow>
   \<exists>entry. cache filePath = Some entry \<and> statMtime fs filePath = Some (mtime entry) \<and> r = result entry"
  by (auto simp: getCachedResult_def split: option.splits if_splits)

lemma getCachedResult_stale:
  "cache filePath = Some entry \<Longrightarrow> statMtime fs filePath \<noteq> Some (mtime entry) \<Longrightarrow>
   getCachedResult fs cache filePath = (None, cache(filePath := None))"
  by (auto simp: getCachedResult_def split: option.splits)

lemma getCachedResult_absent:
  "cache filePath = None \<Longrightarrow> getCachedResult fs cache filePath = (None, cache)"
  by (simp add: getCachedResult_def)

text \<open>
  Parsing is repeatable: on an unchanged file system a second \<open>parseFile\<close> of the same path
  returns the outcome of the first, whatever the cache held before. This is what lets the
  export resolver treat parsing as a function of the path.
\<close>

lemma parseFile_idempotent:
  "fst (parseFile pass fs (snd (parseFile pass fs cache filePath)) filePath)
     = fst (parseFile pass fs cache filePath)"
  apply (auto simp: parseFile_def getCachedResult_def setCachedResult_def readFileContent_def
              split: option.splits sum.splits prod.splits if_splits)
  apply (metis CacheEntry.select_convs(2))
  done

lemma parseFile_other_path:
  "other \<noteq> filePath \<Longrightarrow>
   fst (parseFile pass fs (snd (parseFile pass' fs cache other)) filePath)
     = fst (parseFile pass fs cache filePath)"
  by (auto simp: parseFile_def getCachedResult_def setCachedResult_def readFileContent_def
           split: option.splits sum.splits prod.splits if_splits)

text \<open>
  C2. \<open>getCachedResult\<close> returns a stored outcome only when the path has an entry and the
  modification time read from disk equals the stored one, and then it returns that entry's
  outcome. When the path has an entry and the time read differs or cannot be read, the
  entry is evicted and absent is reported. In that situation \<open>parseFile\<close> behaves exactly
  as if the entry had never been there: the stale entry is no longer in the cache
  afterwards, and the outcome is computed from what is on disk now: the read failure when
  the file cannot be read or is empty, the parse failure when the tree walk throws, and
  otherwise the symbols and exports collected from the current content.
\<close>

theorem parseFile_never_stale:
  "(fst (getCachedResult fs cache filePath) = Some r \<longrightarrow>
      (\<exists>entry. cache filePath = Some entry \<and> statMtime fs filePath = Some (mtime entry)
               \<and> r = result entry))
   \<and> (cache filePath = Some entry \<and> statMtime fs filePath \<noteq> Some (mtime entry) \<longrightarrow>
        getCachedResult fs cache filePath = (None, cache(filePath := None))
        \<and> parseFile pass fs cache filePath = parseFile pass fs (cache(filePath := None)) filePath
        \<and> snd (parseFile pass fs cache filePath) filePath \<noteq> Some entry
        \<and> (readFile fs filePath = None \<or> readFile fs filePath = Some [] \<longrightarrow>
             fst (parseFile pass fs cache filePath) = readFailure filePath)
        \<and> (\<forall>src err. readFile fs filePath = Some src \<and> src \<noteq> [] \<and> pass filePath src = Inl err \<longrightarrow>
             fst (parseFile pass fs cache filePath) = parseFailure filePath err)
        \<and> (\<forall>src syms exps.
              readFile fs filePath = Some src \<and> src \<noteq> [] \<and> pass filePath src = Inr (syms, exps) \<longrightarrow>
              fst (parseFile pass fs cache filePath)
                = \<lparr>symbols = syms, exports = exps, errors = []\<rparr>))"
proof (intro conjI impI)
  assume "fst (getCachedResult fs cache filePath) = Some r"
  then show "\<exists>entry. cache filePath = Some entry \<and> statMtime fs filePath = Some (mtime entry)
               \<and> r = result entry"
    by (rule getCachedResult_hit)
next
  assume st: "cache filePath = Some entry \<and> statMtime fs filePath \<noteq> Some (mtime entry)"
  then have get: "getCachedResult fs cache filePath = (None, cache(filePath := None))"
    by (simp add: getCachedResult_stale)
  have get': "getCachedResult fs (cache(filePath := None)) filePath = (None, cache(filePath := None))"
    by (simp add: getCachedResult_absent)
  show "getCachedResult fs cache filePath = (None, cache(filePath := None))" by (rule get)
  show "parseFile pass fs cache filePath = parseFile pass fs (cache(filePath := None)) filePath"
    by (simp add: parseFile_def get get')
  show "snd (parseFile pass fs cache filePath) filePath \<noteq> Some entry"
    using st
    by (auto simp: parseFile_def get readFileContent_def setCachedResult_def
             split: option.splits sum.splits)
  show "fst (parseFile pass fs cache filePath) = readFailure filePath"
    if "readFile fs filePath = None \<or> readFile fs filePath = Some []"
    using that by (auto simp: parseFile_def get readFileContent_def)
  show "\<forall>src err. readFile fs filePath = Some src \<and> src \<noteq> [] \<and> pass filePath src = Inl err \<longrightarrow>
             fst (parseFile pass fs cache filePath) = parseFailure filePath err"
    by (auto simp: parseFile_def get readFileContent_def)
  show "\<forall>src syms exps.
              readFile fs filePath = Some src \<and> src \<noteq> [] \<and> pass filePath src = Inr (syms, exps) \<longrightarrow>
              fst (parseFile pass fs cache filePath)
                = \<lparr>symbols = syms, exports = exps, errors = []\<rparr>"
    by (auto simp: parseFile_def get readFileContent_def)
qed

theorem parseFile_never_stale_witness:
  "snd (parseFile demo_fooPass (demo_fs 1000 ''export function Foo() {}'') Map.empty ''a.ts'')
     = demo_fooCache
   \<and> fst (getCachedResult (demo_fs 1000 ''export function Foo() {}'') demo_fooCache ''a.ts'')
       = Some demo_fooOutcome
   \<and> demo_fooCache ''a.ts'' = Some \<lparr>mtime = 1000, result = demo_fooOutcome\<rparr>
   \<and> statMtime (demo_fs 1000 ''export function Foo() {}'') ''a.ts''
       = Some (mtime \<lparr>mtime = 1000, result = demo_fooOutcome\<rparr>)
   \<and> statMtime (demo_fs 2000 ''export function Bar() {}'') ''a.ts''
       \<noteq> Some (mtime \<lparr>mtime = 1000, result = demo_fooOutcome\<rparr>)
   \<and> getCachedResult (demo_fs 2000 ''export function Bar() {}'') demo_fooCache ''a.ts''
       = (None, demo_fooCache(''a.ts'' := None))
   \<and> fst (parseFile demo_fooPass (demo_fs 2000 ''export function Bar() {}'') demo_fooCache ''a.ts'')
       = \<lparr>symbols = [demo_symbol ''Bar'' ''a.ts'' 1], exports = [], errors = []\<rparr>
   \<and> fst (parseFile demo_fooPass (demo_fs 2000 ''export function Bar() {}'') demo_fooCache ''a.ts'')
       \<noteq> demo_fooOutcome
   \<and> snd (parseFile demo_fooPass (demo_fs 2000 ''export function Bar() {}'') demo_fooCache ''a.ts'')
         ''a.ts'' \<noteq> Some \<lparr>mtime = 1000, result = demo_fooOutcome\<rparr>
   \<and> fst (parseFile demo_fooPass (demo_fs 3000 demo_long) demo_fooCache ''a.ts'')
       = parseFailure ''a.ts'' ''Error: Invalid argument''
   \<and> fst (parseFile demo_fooPass (demo_fs 3000 []) demo_fooCache ''a.ts'') = readFailure ''a.ts''
   \<and> parseFile demo_fooPass (demo_fs 3000 []) demo_fooCache ''a.ts''
       = parseFile demo_fooPass (demo_fs 3000 []) (demo_fooCache(''a.ts'' := None)) ''a.ts''"
proof -
  let ?fs1 = "demo_fs 1000 ''export function Foo() {}''"
  let ?fs2 = "demo_fs 2000 ''export function Bar() {}''"
  let ?entry = "\<lparr>mtime = 1000, result = demo_fooOutcome\<rparr>"
  have first: "snd (parseFile demo_fooPass ?fs1 Map.empty ''a.ts'') = demo_fooCache"
    by (simp add: parseFile_def getCachedResult_def readFileContent_def setCachedResult_def
          demo_fs_def demo_fooPass_def parserLimit_def demo_long_def demo_fooCache_def demo_fooOutcome_def)
  have hit: "fst (getCachedResult ?fs1 demo_fooCache ''a.ts'') = Some demo_fooOutcome"
    by (simp add: getCachedResult_def demo_fs_def demo_fooCache_def)
  have e: "demo_fooCache ''a.ts'' = Some ?entry"
    by (simp add: demo_fooCache_def)
  have same: "statMtime ?fs1 ''a.ts'' = Some (mtime ?entry)"
    by (simp add: demo_fs_def)
  have changed: "statMtime ?fs2 ''a.ts'' \<noteq> Some (mtime ?entry)"
    by (simp add: demo_fs_def)
  have rd: "readFile ?fs2 ''a.ts'' = Some ''export function Bar() {}''
            \<and> ''export function Bar() {}'' \<noteq> []
            \<and> demo_fooPass ''a.ts'' ''export function Bar() {}''
                = Inr ([demo_symbol ''Bar'' ''a.ts'' 1], [])"
    by (simp add: demo_fs_def demo_fooPass_def parserLimit_def demo_long_def)
  note th = parseFile_never_stale [where cache = demo_fooCache and filePath = "''a.ts''"
      and entry = ?entry and pass = demo_fooPass and r = demo_fooOutcome]
  from th [where fs = ?fs1] hit
  have "\<exists>entry. demo_fooCache ''a.ts'' = Some entry \<and> statMtime ?fs1 ''a.ts'' = Some (mtime entry)
          \<and> demo_fooOutcome = result entry"
    by blast
  from th [where fs = ?fs2] e changed
  have stale: "getCachedResult ?fs2 demo_fooCache ''a.ts'' = (None, demo_fooCache(''a.ts'' := None))"
    and gone: "snd (parseFile demo_fooPass ?fs2 demo_fooCache ''a.ts'') ''a.ts'' \<noteq> Some ?entry"
    and fresh: "\<forall>src syms exps.
              readFile ?fs2 ''a.ts'' = Some src \<and> src \<noteq> [] \<and> demo_fooPass ''a.ts'' src = Inr (syms, exps) \<longrightarrow>
              fst (parseFile demo_fooPass ?fs2 demo_fooCache ''a.ts'')
                = \<lparr>symbols = syms, exports = exps, errors = []\<rparr>"
    by blast+
  from fresh rd
  have new: "fst (parseFile demo_fooPass ?fs2 demo_fooCache ''a.ts'')
       = \<lparr>symbols = [demo_symbol ''Bar'' ''a.ts'' 1], exports = [], errors = []\<rparr>"
    by blast
  have differs: "fst (parseFile demo_fooPass ?fs2 demo_fooCache ''a.ts'') \<noteq> demo_fooOutcome"
    by (simp add: new demo_fooOutcome_def demo_symbol_def)
  have changed3: "statMtime (demo_fs 3000 demo_long) ''a.ts'' \<noteq> Some (mtime ?entry)
                  \<and> statMtime (demo_fs 3000 []) ''a.ts'' \<noteq> Some (mtime ?entry)"
    by (simp add: demo_fs_def)
  have rd3: "readFile (demo_fs 3000 demo_long) ''a.ts'' = Some demo_long
             \<and> demo_long \<noteq> []
             \<and> demo_fooPass ''a.ts'' demo_long = Inl ''Error: Invalid argument''"
    by (simp add: demo_fs_def demo_fooPass_def parserLimit_def demo_long_def)
  from th [where fs = "demo_fs 3000 demo_long"] e changed3 rd3
  have broken: "fst (parseFile demo_fooPass (demo_fs 3000 demo_long) demo_fooCache ''a.ts'')
       = parseFailure ''a.ts'' ''Error: Invalid argument''"
    by blast
  have rd4: "readFile (demo_fs 3000 []) ''a.ts'' = Some []"
    by (simp add: demo_fs_def)
  from th [where fs = "demo_fs 3000 []"] e changed3 rd4
  have empty: "fst (parseFile demo_fooPass (demo_fs 3000 []) demo_fooCache ''a.ts'')
       = readFailure ''a.ts''"
    and asif: "parseFile demo_fooPass (demo_fs 3000 []) demo_fooCache ''a.ts''
       = parseFile demo_fooPass (demo_fs 3000 []) (demo_fooCache(''a.ts'' := None)) ''a.ts''"
    by blast+
  show ?thesis using first hit e same changed stale new differs gone broken empty asif by blast
qed

section \<open>Language extractors: a failed parse is total\<close>

lemma getCachedResult_errorFree:
  "cacheErrorFree cache \<Longrightarrow> cacheErrorFree (snd (getCachedResult fs cache filePath))"
  by (auto simp: cacheErrorFree_def getCachedResult_def split: option.splits if_splits)

lemma getCachedResult_hit_errorFree:
  "cacheErrorFree cache \<Longrightarrow> getCachedResult fs cache filePath = (Some r, cache') \<Longrightarrow> errors r = []"
  by (auto simp: cacheErrorFree_def getCachedResult_def split: option.splits if_splits)

lemma setCachedResult_errorFree:
  "cacheErrorFree cache \<Longrightarrow> errors res = [] \<Longrightarrow> cacheErrorFree (setCachedResult fs cache filePath res)"
  by (auto simp: cacheErrorFree_def setCachedResult_def split: option.splits)

lemma parseFile_errorFree:
  "cacheErrorFree cache \<Longrightarrow> cacheErrorFree (snd (parseFile pass fs cache filePath))"
  using getCachedResult_errorFree [of cache fs filePath]
  by (auto simp: parseFile_def setCachedResult_errorFree
           split: prod.splits option.splits sum.splits)

lemma parseFile_plain_errorFree:
  "cacheErrorFree cache \<Longrightarrow> cacheErrorFree (snd (parseFile_plain pass fs cache filePath))"
  using getCachedResult_errorFree [of cache fs filePath]
  by (auto simp: parseFile_plain_def setCachedResult_errorFree
           split: prod.splits option.splits sum.splits)

lemma parseFile_vue_errorFree:
  "cacheErrorFree cache \<Longrightarrow>
   cacheErrorFree (snd (parseFile_vue scriptPass stylePass fs cache filePath))"
  using getCachedResult_errorFree [of cache fs filePath]
  by (auto simp: parseFile_vue_def setCachedResult_errorFree
           split: prod.splits option.splits sum.splits)

lemma invalidateCache_errorFree:
  "cacheErrorFree cache \<Longrightarrow> cacheErrorFree (invalidateCache cache target)"
  by (auto simp: cacheErrorFree_def invalidateCache_def split: option.splits if_splits)

lemma cacheReachable_errorFree: "cacheReachable cache \<Longrightarrow> cacheErrorFree cache"
proof (induction rule: cacheReachable.induct)
  case initial
  show ?case by (simp add: cacheErrorFree_def)
next
  case (by_parseFile cache pass fs filePath)
  then show ?case by (simp add: parseFile_errorFree)
next
  case (by_parseFile_plain cache symPass fs filePath)
  then show ?case by (simp add: parseFile_plain_errorFree)
next
  case (by_parseFile_vue cache scriptPass stylePass fs filePath)
  then show ?case by (simp add: parseFile_vue_errorFree)
next
  case (by_invalidateCache cache target)
  then show ?case by (simp add: invalidateCache_errorFree)
qed

lemma parseFile_total_failure:
  "cacheErrorFree cache \<Longrightarrow> errors (fst (parseFile pass fs cache filePath)) \<noteq> [] \<Longrightarrow>
   symbols (fst (parseFile pass fs cache filePath)) = []
   \<and> exports (fst (parseFile pass fs cache filePath)) = []
   \<and> length (errors (fst (parseFile pass fs cache filePath))) = 1"
  by (auto simp: parseFile_def readFailure_def parseFailure_def
           dest: getCachedResult_hit_errorFree
           split: prod.splits option.splits sum.splits if_splits)

lemma parseFile_plain_total_failure:
  "cacheErrorFree cache \<Longrightarrow> errors (fst (parseFile_plain pass fs cache filePath)) \<noteq> [] \<Longrightarrow>
   symbols (fst (parseFile_plain pass fs cache filePath)) = []
   \<and> exports (fst (parseFile_plain pass fs cache filePath)) = []
   \<and> length (errors (fst (parseFile_plain pass fs cache filePath))) = 1"
  by (auto simp: parseFile_plain_def readFailure_def parseFailure_def
           dest: getCachedResult_hit_errorFree
           split: prod.splits option.splits sum.splits if_splits)

text \<open>
  C7. For the TypeScript extractor (\<open>parseFile\<close>) and for the solidity, python, css and
  html extractors (\<open>parseFile_plain\<close>), in every state the cache can reach: an outcome with
  a non-empty error list has no symbols, no exports and exactly one error string. When the
  cache does not answer, a file that cannot be read (or is empty) yields the single error
  \<open>Failed to read file: path\<close>, and an exception \<open>err\<close> during the tree walk yields the single
  error \<open>Failed to parse file: path - err\<close>, both with empty symbols and exports.
\<close>

theorem parseFile_failure_is_total:
  "cacheReachable cache \<longrightarrow>
     (errors (fst (parseFile pass fs cache filePath)) \<noteq> [] \<longrightarrow>
        symbols (fst (parseFile pass fs cache filePath)) = []
        \<and> exports (fst (parseFile pass fs cache filePath)) = []
        \<and> length (errors (fst (parseFile pass fs cache filePath))) = 1)
     \<and> (errors (fst (parseFile_plain symPass fs cache filePath)) \<noteq> [] \<longrightarrow>
        symbols (fst (parseFile_plain symPass fs cache filePath)) = []
        \<and> exports (fst (parseFile_plain symPass fs cache filePath)) = []
        \<and> length (errors (fst (parseFile_plain symPass fs cache filePath))) = 1)
     \<and> (fst (getCachedResult fs cache filePath) = None
          \<and> (readFile fs filePath = None \<or> readFile fs filePath = Some []) \<longrightarrow>
        fst (parseFile pass fs cache filePath)
          = \<lparr>symbols = [], exports = [], errors = [''Failed to read file: '' @ filePath]\<rparr>
        \<and> fst (parseFile_plain symPass fs cache filePath)
          = \<lparr>symbols = [], exports = [], errors = [''Failed to read file: '' @ filePath]\<rparr>)
     \<and> (fst (getCachedResult fs cache filePath) = None
          \<and> readFile fs filePath = Some src \<and> src \<noteq> [] \<and> pass filePath src = Inl err \<longrightarrow>
        fst (parseFile pass fs cache filePath)
          = \<lparr>symbols = [], exports = [],
             errors = [''Failed to parse file: '' @ filePath @ '' - '' @ err]\<rparr>)
     \<and> (fst (getCachedResult fs cache filePath) = None
          \<and> readFile fs filePath = Some src \<and> src \<noteq> [] \<and> symPass filePath src = Inl err \<longrightarrow>
        fst (parseFile_plain symPass fs cache filePath)
          = \<lparr>symbols = [], exports = [],
             errors = [''Failed to parse file: '' @ filePath @ '' - '' @ err]\<rparr>)"
proof (intro impI conjI)
  assume "cacheReachable cache"
  then have cf: "cacheErrorFree cache" by (rule cacheReachable_errorFree)
  {
    assume "errors (fst (parseFile pass fs cache filePath)) \<noteq> []"
    with cf parseFile_total_failure [of cache pass fs filePath]
    show "symbols (fst (parseFile pass fs cache filePath)) = []"
      and "exports (fst (parseFile pass fs cache filePath)) = []"
      and "length (errors (fst (parseFile pass fs cache filePath))) = 1"
      by blast+
  }
  {
    assume "errors (fst (parseFile_plain symPass fs cache filePath)) \<noteq> []"
    with cf parseFile_plain_total_failure [of cache symPass fs filePath]
    show "symbols (fst (parseFile_plain symPass fs cache filePath)) = []"
      and "exports (fst (parseFile_plain symPass fs cache filePath)) = []"
      and "length (errors (fst (parseFile_plain symPass fs cache filePath))) = 1"
      by blast+
  }
  {
    assume a: "fst (getCachedResult fs cache filePath) = None
          \<and> (readFile fs filePath = None \<or> readFile fs filePath = Some [])"
    then show "fst (parseFile pass fs cache filePath)
          = \<lparr>symbols = [], exports = [], errors = [''Failed to read file: '' @ filePath]\<rparr>"
      by (auto simp: parseFile_def readFileContent_def readFailure_def split: prod.splits)
    from a show "fst (parseFile_plain symPass fs cache filePath)
          = \<lparr>symbols = [], exports = [], errors = [''Failed to read file: '' @ filePath]\<rparr>"
      by (auto simp: parseFile_plain_def readFileContent_def readFailure_def split: prod.splits)
  }
  {
    assume "fst (getCachedResult fs cache filePath) = None
          \<and> readFile fs filePath = Some src \<and> src \<noteq> [] \<and> pass filePath src = Inl err"
    then show "fst (parseFile pass fs cache filePath)
          = \<lparr>symbols = [], exports = [],
             errors = [''Failed to parse file: '' @ filePath @ '' - '' @ err]\<rparr>"
      by (auto simp: parseFile_def readFileContent_def parseFailure_def split: prod.splits)
  }
  {
    assume "fst (getCachedResult fs cache filePath) = None
          \<and> readFile fs filePath = Some src \<and> src \<noteq> [] \<and> symPass filePath src = Inl err"
    then show "fst (parseFile_plain symPass fs cache filePath)
          = \<lparr>symbols = [], exports = [],
             errors = [''Failed to parse file: '' @ filePath @ '' - '' @ err]\<rparr>"
      by (auto simp: parseFile_plain_def readFileContent_def parseFailure_def split: prod.splits)
  }
qed

theorem parseFile_failure_is_total_witness:
  "cacheReachable demo_fooCache
   \<and> errors (fst (parseFile demo_fooPass (demo_fs 2000 demo_long) demo_fooCache ''a.ts''))
       \<noteq> []
   \<and> symbols (fst (parseFile demo_fooPass (demo_fs 2000 demo_long) demo_fooCache ''a.ts''))
       = []
   \<and> exports (fst (parseFile demo_fooPass (demo_fs 2000 demo_long) demo_fooCache ''a.ts''))
       = []
   \<and> fst (parseFile demo_fooPass (demo_fs 2000 demo_long) demo_fooCache ''a.ts'')
       = \<lparr>symbols = [], exports = [],
          errors = [''Failed to parse file: a.ts - Error: Invalid argument'']\<rparr>
   \<and> fst (parseFile demo_fooPass (demo_fs 2000 demo_long) demo_fooCache ''gone.ts'')
       = \<lparr>symbols = [], exports = [], errors = [''Failed to read file: gone.ts'']\<rparr>
   \<and> errors (fst (parseFile_plain demo_pyPass (demo_fileAt ''m.py'' 5 demo_long) demo_fooCache
                     ''m.py'')) \<noteq> []
   \<and> length (errors (fst (parseFile_plain demo_pyPass (demo_fileAt ''m.py'' 5 demo_long)
                             demo_fooCache ''m.py''))) = 1
   \<and> fst (parseFile_plain demo_pyPass (demo_fileAt ''m.py'' 5 demo_long) demo_fooCache ''m.py'')
       = \<lparr>symbols = [], exports = [],
          errors = [''Failed to parse file: m.py - Error: Invalid argument'']\<rparr>
   \<and> fst (parseFile_plain demo_pyPass (demo_fileAt ''m.py'' 5 demo_long) demo_fooCache ''n.py'')
       = \<lparr>symbols = [], exports = [], errors = [''Failed to read file: n.py'']\<rparr>"
proof -
  let ?fs = "demo_fs 2000 demo_long"
  let ?py = "demo_fileAt ''m.py'' 5 demo_long"
  have "snd (parseFile demo_fooPass (demo_fs 1000 ''export function Foo() {}'') Map.empty ''a.ts'')
          = demo_fooCache"
    by (simp add: parseFile_def getCachedResult_def readFileContent_def setCachedResult_def
          demo_fs_def demo_fooPass_def parserLimit_def demo_long_def demo_fooCache_def demo_fooOutcome_def)
  then have reach: "cacheReachable demo_fooCache"
    using by_parseFile [OF initial,
        of demo_fooPass "demo_fs 1000 ''export function Foo() {}''" "''a.ts''"]
    by simp
  have miss_a: "fst (getCachedResult ?fs demo_fooCache ''a.ts'') = None"
    by (simp add: getCachedResult_def demo_fs_def demo_fooCache_def)
  have miss_g: "fst (getCachedResult ?fs demo_fooCache ''gone.ts'') = None"
    by (simp add: getCachedResult_def demo_fs_def demo_fooCache_def)
  have miss_m: "fst (getCachedResult ?py demo_fooCache ''m.py'') = None"
    by (simp add: getCachedResult_def demo_fooCache_def)
  have miss_n: "fst (getCachedResult ?py demo_fooCache ''n.py'') = None"
    by (simp add: getCachedResult_def demo_fooCache_def)
  have rd_a: "readFile ?fs ''a.ts'' = Some demo_long \<and> demo_long \<noteq> []
              \<and> demo_fooPass ''a.ts'' demo_long = Inl ''Error: Invalid argument''"
    by (simp add: demo_fs_def demo_fooPass_def parserLimit_def demo_long_def)
  have rd_g: "readFile ?fs ''gone.ts'' = None"
    by (simp add: demo_fs_def)
  have rd_m: "readFile ?py ''m.py'' = Some demo_long \<and> demo_long \<noteq> []
              \<and> demo_pyPass ''m.py'' demo_long = Inl ''Error: Invalid argument''"
    by (simp add: demo_fileAt_def demo_pyPass_def parserLimit_def demo_long_def)
  have rd_n: "readFile ?py ''n.py'' = None"
    by (simp add: demo_fileAt_def)
  note th = parseFile_failure_is_total [where cache = demo_fooCache and pass = demo_fooPass
      and symPass = demo_pyPass and err = "''Error: Invalid argument''"]
  from th [where fs = ?fs and filePath = "''a.ts''" and src = "demo_long"]
    reach miss_a rd_a
  have pa: "fst (parseFile demo_fooPass ?fs demo_fooCache ''a.ts'')
       = \<lparr>symbols = [], exports = [],
          errors = [''Failed to parse file: '' @ ''a.ts'' @ '' - '' @ ''Error: Invalid argument'']\<rparr>"
    by blast
  then have ea: "errors (fst (parseFile demo_fooPass ?fs demo_fooCache ''a.ts'')) \<noteq> []"
    by simp
  from th [where fs = ?fs and filePath = "''a.ts''"] reach ea
  have ta: "symbols (fst (parseFile demo_fooPass ?fs demo_fooCache ''a.ts'')) = []
        \<and> exports (fst (parseFile demo_fooPass ?fs demo_fooCache ''a.ts'')) = []"
    by blast
  from th [where fs = ?fs and filePath = "''gone.ts''"] reach miss_g rd_g
  have pg: "fst (parseFile demo_fooPass ?fs demo_fooCache ''gone.ts'')
       = \<lparr>symbols = [], exports = [], errors = [''Failed to read file: '' @ ''gone.ts'']\<rparr>"
    by blast
  from th [where fs = ?py and filePath = "''m.py''" and src = "demo_long"]
    reach miss_m rd_m
  have pm: "fst (parseFile_plain demo_pyPass ?py demo_fooCache ''m.py'')
       = \<lparr>symbols = [], exports = [],
          errors = [''Failed to parse file: '' @ ''m.py'' @ '' - '' @ ''Error: Invalid argument'']\<rparr>"
    by blast
  then have em: "errors (fst (parseFile_plain demo_pyPass ?py demo_fooCache ''m.py'')) \<noteq> []"
    by simp
  from th [where fs = ?py and filePath = "''m.py''"] reach em
  have tm: "length (errors (fst (parseFile_plain demo_pyPass ?py demo_fooCache ''m.py''))) = 1"
    by blast
  from th [where fs = ?py and filePath = "''n.py''"] reach miss_n rd_n
  have pn: "fst (parseFile_plain demo_pyPass ?py demo_fooCache ''n.py'')
       = \<lparr>symbols = [], exports = [], errors = [''Failed to read file: '' @ ''n.py'']\<rparr>"
    by blast
  show ?thesis using reach pa ea ta pg pm em tm pn by simp
qed

section \<open>Compound-document extractor: one failure scope\<close>

subsection \<open>The sections of the example components\<close>

lemma startsWithCI_Cons:
  "startsWithCI (c # cs) (l # ls) = (lowerChar c = l \<and> startsWithCI cs ls)"
  by (simp add: startsWithCI_def toLowerCase_def)

lemma startsWithCI_Nil:
  "startsWithCI s [] = True"
  by (simp add: startsWithCI_def)

lemma lowerChar_a:
  "lowerChar CHR ''a'' = CHR ''a''"
  by code_simp

text \<open>A run of the letter \<open>a\<close> holds no tag: the lazy group runs over it to the closing tag
  that follows, and the search for an opening tag passes it.\<close>

lemma lazyUntil_replicate:
  assumes "startsWithCI rest (CHR ''<'' # ct)"
  shows "lazyUntil (CHR ''<'' # ct) (replicate n CHR ''a'' @ rest) = Some (replicate n CHR ''a'')"
proof (induction n)
  case 0
  from assms obtain r rs where "rest = r # rs"
    by (cases rest) (simp_all add: startsWithCI_def toLowerCase_def)
  with assms show ?case by simp
next
  case (Suc n)
  then show ?case by (simp add: startsWithCI_Cons lowerChar_a)
qed

lemma matchBlock_replicate:
  "matchBlock tag line (replicate n CHR ''a'' @ rest) = matchBlock tag line rest"
proof (induction n)
  case 0
  show ?case by simp
next
  case (Suc n)
  have "matchBlockAt tag (CHR ''a'' # replicate n CHR ''a'' @ rest) = None"
    by (simp add: matchBlockAt_def startsWithCI_Cons lowerChar_a)
  with Suc show ?case by (simp add: newline_def)
qed

lemma demo_blocks:
  "extractSfcBlocks demo_vueSource =
     \<lparr>script = Some \<lparr>content = ''const a = 1'', startLine_b = 1, lang = None\<rparr>,
      template = Some \<lparr>content = ''<Foo/>'', startLine_b = 1, lang = None\<rparr>,
      style = Some \<lparr>content = ''.x{'', startLine_b = 1, lang = None\<rparr>\<rparr>"
  by code_simp

lemma demo_template_match:
  "matchBlock ''template'' 1 (''<template><Foo/></template>'' @ rest) = Some ([], ''<Foo/>'', 1)"
  by (simp add: matchBlockAt_def startsWithCI_Cons startsWithCI_Nil lowerChar_def upperChars_def
        lowerChars_def newline_def)

lemma demo_script_match:
  "matchBlock ''script'' 1 (''<template><Foo/></template><script>const a = 1</script>'' @ rest)
     = Some ([], ''const a = 1'', 1)"
  by (simp add: matchBlockAt_def startsWithCI_Cons startsWithCI_Nil lowerChar_def upperChars_def
        lowerChars_def newline_def)

lemma demo_largeStyle_match:
  "matchBlock ''style'' 1
     (''<template><Foo/></template><script>const a = 1</script><style>''
      @ replicate n CHR ''a'' @ ''</style>'')
     = Some ([], replicate n CHR ''a'', 1)"
proof -
  have "startsWithCI ''</style>'' (CHR ''<'' # ''/style>'')"
    by code_simp
  from lazyUntil_replicate [OF this, of n] show ?thesis
    by (simp add: matchBlockAt_def startsWithCI_Cons startsWithCI_Nil lowerChar_def upperChars_def
          lowerChars_def newline_def)
qed

lemma demo_largeScript_match:
  "matchBlock ''script'' 1
     (''<template><Foo/></template><script>'' @ replicate n CHR ''a''
      @ ''</script><style>.x{</style>'')
     = Some ([], replicate n CHR ''a'', 1)"
proof -
  have "startsWithCI ''</script><style>.x{</style>'' (CHR ''<'' # ''/script>'')"
    by code_simp
  from lazyUntil_replicate [OF this, of n] show ?thesis
    by (simp add: matchBlockAt_def startsWithCI_Cons startsWithCI_Nil lowerChar_def upperChars_def
          lowerChars_def newline_def)
qed

lemma demo_smallStyle_match:
  "matchBlock ''style'' 1
     (''<template><Foo/></template><script>'' @ replicate n CHR ''a''
      @ ''</script><style>.x{</style>'')
     = Some ([], ''.x{'', 1)"
proof -
  have "matchBlock ''style'' 1 ''</script><style>.x{</style>'' = Some ([], ''.x{'', 1)"
    by code_simp
  then show ?thesis
    by (simp add: matchBlockAt_def startsWithCI_Cons startsWithCI_Nil lowerChar_def upperChars_def
          lowerChars_def newline_def matchBlock_replicate
          del: matchBlock.simps)
       (simp add: matchBlockAt_def startsWithCI_Cons startsWithCI_Nil lowerChar_def upperChars_def
          lowerChars_def newline_def matchBlock_replicate)
qed

lemma demo_largeStyle_blocks:
  "extractSfcBlocks demo_vueLargeStyle =
     \<lparr>script = Some \<lparr>content = ''const a = 1'', startLine_b = 1, lang = None\<rparr>,
      template = Some \<lparr>content = ''<Foo/>'', startLine_b = 1, lang = None\<rparr>,
      style = Some \<lparr>content = demo_long, startLine_b = 1, lang = None\<rparr>\<rparr>"
proof -
  have e1: "demo_vueLargeStyle
          = ''<template><Foo/></template>''
            @ (''<script>const a = 1</script><style>'' @ demo_long @ ''</style>'')"
    and e2: "demo_vueLargeStyle
          = ''<template><Foo/></template><script>const a = 1</script>''
            @ (''<style>'' @ demo_long @ ''</style>'')"
    and e3: "demo_vueLargeStyle
          = ''<template><Foo/></template><script>const a = 1</script><style>''
            @ replicate 40000 CHR ''a'' @ ''</style>''"
    by (simp_all add: demo_vueLargeStyle_def demo_component_def demo_long_def)
  have t: "matchBlock ''template'' 1 demo_vueLargeStyle = Some ([], ''<Foo/>'', 1)"
    by (subst e1) (rule demo_template_match)
  have c: "matchBlock ''script'' 1 demo_vueLargeStyle = Some ([], ''const a = 1'', 1)"
    by (subst e2) (rule demo_script_match)
  have y: "matchBlock ''style'' 1 demo_vueLargeStyle = Some ([], demo_long, 1)"
    unfolding demo_long_def by (subst e3) (rule demo_largeStyle_match)
  show ?thesis
    unfolding extractSfcBlocks_def t c y by simp
qed

lemma demo_largeScript_blocks:
  "extractSfcBlocks demo_vueLargeScript =
     \<lparr>script = Some \<lparr>content = demo_long, startLine_b = 1, lang = None\<rparr>,
      template = Some \<lparr>content = ''<Foo/>'', startLine_b = 1, lang = None\<rparr>,
      style = Some \<lparr>content = ''.x{'', startLine_b = 1, lang = None\<rparr>\<rparr>"
proof -
  have e1: "demo_vueLargeScript
          = ''<template><Foo/></template>''
            @ (''<script>'' @ demo_long @ ''</script><style>.x{</style>'')"
    and e2: "demo_vueLargeScript
          = ''<template><Foo/></template><script>'' @ replicate 40000 CHR ''a''
            @ ''</script><style>.x{</style>''"
    by (simp_all add: demo_vueLargeScript_def demo_component_def demo_long_def)
  have t: "matchBlock ''template'' 1 demo_vueLargeScript = Some ([], ''<Foo/>'', 1)"
    by (subst e1) (rule demo_template_match)
  have c: "matchBlock ''script'' 1 demo_vueLargeScript = Some ([], demo_long, 1)"
    unfolding demo_long_def by (subst e2) (rule demo_largeScript_match)
  have y: "matchBlock ''style'' 1 demo_vueLargeScript = Some ([], ''.x{'', 1)"
    by (subst e2) (rule demo_smallStyle_match)
  show ?thesis
    unfolding extractSfcBlocks_def t c y by simp
qed

lemma demo_template:
  "templateSection ''App.vue''
     \<lparr>script = sb, template = Some \<lparr>content = ''<Foo/>'', startLine_b = 1, lang = None\<rparr>,
      style = yb\<rparr> = [demo_vueFoo ''App.vue'']"
proof -
  have "collectTemplateComponents ''<Foo/>'' ''App.vue'' 1 = [demo_vueFoo ''App.vue'']"
    by code_simp
  then show ?thesis by (simp add: templateSection_def)
qed

lemma demo_long_limit:
  "parserLimit \<le> length demo_long \<and> demo_long \<noteq> []"
  by (simp add: parserLimit_def demo_long_def)

lemma parseFile_vue_total_failure:
  "cacheErrorFree cache \<Longrightarrow>
   errors (fst (parseFile_vue scriptPass stylePass fs cache filePath)) \<noteq> [] \<Longrightarrow>
   symbols (fst (parseFile_vue scriptPass stylePass fs cache filePath)) = []
   \<and> exports (fst (parseFile_vue scriptPass stylePass fs cache filePath)) = []
   \<and> length (errors (fst (parseFile_vue scriptPass stylePass fs cache filePath))) = 1"
  by (auto simp: parseFile_vue_def readFailure_def parseFailure_def
           dest: getCachedResult_hit_errorFree
           split: prod.splits option.splits sum.splits if_splits)

text \<open>
  C8 (as amended). In the compound-document extractor the script, template and style
  sections are cut out of the file separately and, when the script pass and the style pass
  both finish without an exception, contribute their symbols in this order. An exception in
  the script pass or in the style pass fails the whole file: the outcome is the single
  error \<open>Failed to parse file: path - err\<close> with no symbols and no exports, whatever the
  other sections hold.
\<close>

theorem parseFile_vue_one_failure_scope:
  "fst (getCachedResult fs cache filePath) = None \<and> readFile fs filePath = Some src \<and> src \<noteq> []
   \<longrightarrow>
     (scriptSection scriptPass filePath (extractSfcBlocks src) = Inr (scriptSyms, exps)
        \<and> styleSection stylePass filePath (extractSfcBlocks src) = Inr styleSyms \<longrightarrow>
      fst (parseFile_vue scriptPass stylePass fs cache filePath)
        = \<lparr>symbols = scriptSyms @ templateSection filePath (extractSfcBlocks src) @ styleSyms,
           exports = exps, errors = []\<rparr>)
     \<and> (scriptSection scriptPass filePath (extractSfcBlocks src) = Inl err \<longrightarrow>
      fst (parseFile_vue scriptPass stylePass fs cache filePath)
        = \<lparr>symbols = [], exports = [],
           errors = [''Failed to parse file: '' @ filePath @ '' - '' @ err]\<rparr>)
     \<and> (scriptSection scriptPass filePath (extractSfcBlocks src) = Inr (scriptSyms, exps)
        \<and> styleSection stylePass filePath (extractSfcBlocks src) = Inl err \<longrightarrow>
      fst (parseFile_vue scriptPass stylePass fs cache filePath)
        = \<lparr>symbols = [], exports = [],
           errors = [''Failed to parse file: '' @ filePath @ '' - '' @ err]\<rparr>)"
  by (auto simp: parseFile_vue_def readFileContent_def parseFailure_def split: prod.splits)

theorem parseFile_vue_one_failure_scope_witness:
  "fst (getCachedResult (demo_fileAt ''App.vue'' 1 demo_vueSource) Map.empty ''App.vue'') = None
   \<and> readFile (demo_fileAt ''App.vue'' 1 demo_vueSource) ''App.vue'' = Some demo_vueSource
   \<and> demo_vueSource \<noteq> []
   \<and> scriptSection demo_scriptPass ''App.vue'' (extractSfcBlocks demo_vueSource)
       = Inr ([demo_vueConst ''App.vue'' 1], [])
   \<and> styleSection demo_stylePass ''App.vue'' (extractSfcBlocks demo_vueSource) = Inr []
   \<and> fst (parseFile_vue demo_scriptPass demo_stylePass
             (demo_fileAt ''App.vue'' 1 demo_vueSource) Map.empty ''App.vue'')
       = \<lparr>symbols = [demo_vueConst ''App.vue'' 1, demo_vueFoo ''App.vue''],
          exports = [], errors = []\<rparr>
   \<and> scriptSection demo_scriptPass ''App.vue'' (extractSfcBlocks demo_vueLargeStyle)
       = Inr ([demo_vueConst ''App.vue'' 1], [])
   \<and> styleSection demo_stylePass ''App.vue'' (extractSfcBlocks demo_vueLargeStyle)
       = Inl ''Error: Invalid argument''
   \<and> fst (parseFile_vue demo_scriptPass demo_stylePass
             (demo_fileAt ''App.vue'' 1 demo_vueLargeStyle) Map.empty ''App.vue'')
       = \<lparr>symbols = [], exports = [],
          errors = [''Failed to parse file: App.vue - Error: Invalid argument'']\<rparr>
   \<and> scriptSection demo_scriptPass ''App.vue'' (extractSfcBlocks demo_vueLargeScript)
       = Inl ''Error: Invalid argument''
   \<and> fst (parseFile_vue demo_scriptPass demo_stylePass
             (demo_fileAt ''App.vue'' 1 demo_vueLargeScript) Map.empty ''App.vue'')
       = \<lparr>symbols = [], exports = [],
          errors = [''Failed to parse file: App.vue - Error: Invalid argument'']\<rparr>"
proof -
  have miss: "\<And>src. fst (getCachedResult (demo_fileAt ''App.vue'' 1 src) Map.empty ''App.vue'') = None"
    by (simp add: getCachedResult_def)
  have rd: "\<And>src. readFile (demo_fileAt ''App.vue'' 1 src) ''App.vue'' = Some src"
    by (simp add: demo_fileAt_def)
  have ne: "demo_vueSource \<noteq> [] \<and> demo_vueLargeStyle \<noteq> [] \<and> demo_vueLargeScript \<noteq> []"
    by (simp add: demo_vueSource_def demo_vueLargeStyle_def demo_vueLargeScript_def
          demo_component_def)
  have sc: "scriptSection demo_scriptPass ''App.vue'' (extractSfcBlocks demo_vueSource)
       = Inr ([demo_vueConst ''App.vue'' 1], [])"
    by (simp add: demo_blocks scriptSection_def demo_scriptPass_def parserLimit_def)
  have st: "styleSection demo_stylePass ''App.vue'' (extractSfcBlocks demo_vueSource) = Inr []"
    by (simp add: demo_blocks styleSection_def demo_stylePass_def parserLimit_def)
  have tp: "templateSection ''App.vue'' (extractSfcBlocks demo_vueSource) = [demo_vueFoo ''App.vue'']"
    by (simp only: demo_blocks demo_template)
  have sc1: "scriptSection demo_scriptPass ''App.vue'' (extractSfcBlocks demo_vueLargeStyle)
       = Inr ([demo_vueConst ''App.vue'' 1], [])"
    by (simp add: demo_largeStyle_blocks scriptSection_def demo_scriptPass_def parserLimit_def)
  have st1: "styleSection demo_stylePass ''App.vue'' (extractSfcBlocks demo_vueLargeStyle)
       = Inl ''Error: Invalid argument''"
    by (simp add: demo_largeStyle_blocks styleSection_def demo_stylePass_def demo_long_limit)
  have sc2: "scriptSection demo_scriptPass ''App.vue'' (extractSfcBlocks demo_vueLargeScript)
       = Inl ''Error: Invalid argument''"
    by (simp add: demo_largeScript_blocks scriptSection_def demo_scriptPass_def demo_long_limit)
  note th = parseFile_vue_one_failure_scope [where cache = Map.empty and filePath = "''App.vue''"
      and scriptPass = demo_scriptPass and stylePass = demo_stylePass]
  from th [where fs = "demo_fileAt ''App.vue'' 1 demo_vueSource" and src = demo_vueSource
             and scriptSyms = "[demo_vueConst ''App.vue'' 1]" and exps = "[]" and styleSyms = "[]"]
    miss rd ne sc st
  have "fst (parseFile_vue demo_scriptPass demo_stylePass
               (demo_fileAt ''App.vue'' 1 demo_vueSource) Map.empty ''App.vue'')
       = \<lparr>symbols = [demo_vueConst ''App.vue'' 1]
                     @ templateSection ''App.vue'' (extractSfcBlocks demo_vueSource) @ [],
          exports = [], errors = []\<rparr>"
    by blast
  then have r0: "fst (parseFile_vue demo_scriptPass demo_stylePass
               (demo_fileAt ''App.vue'' 1 demo_vueSource) Map.empty ''App.vue'')
       = \<lparr>symbols = [demo_vueConst ''App.vue'' 1, demo_vueFoo ''App.vue''],
          exports = [], errors = []\<rparr>"
    by (simp add: tp)
  from th [where fs = "demo_fileAt ''App.vue'' 1 demo_vueLargeStyle" and src = demo_vueLargeStyle
             and scriptSyms = "[demo_vueConst ''App.vue'' 1]" and exps = "[]"
             and err = "''Error: Invalid argument''"]
    miss rd ne sc1 st1
  have "fst (parseFile_vue demo_scriptPass demo_stylePass
               (demo_fileAt ''App.vue'' 1 demo_vueLargeStyle) Map.empty ''App.vue'')
       = \<lparr>symbols = [], exports = [],
          errors = [''Failed to parse file: '' @ ''App.vue'' @ '' - '' @ ''Error: Invalid argument'']\<rparr>"
    by blast
  then have r1: "fst (parseFile_vue demo_scriptPass demo_stylePass
               (demo_fileAt ''App.vue'' 1 demo_vueLargeStyle) Map.empty ''App.vue'')
       = \<lparr>symbols = [], exports = [],
          errors = [''Failed to parse file: App.vue - Error: Invalid argument'']\<rparr>"
    by simp
  from th [where fs = "demo_fileAt ''App.vue'' 1 demo_vueLargeScript" and src = demo_vueLargeScript
             and err = "''Error: Invalid argument''"]
    miss rd ne sc2
  have "fst (parseFile_vue demo_scriptPass demo_stylePass
               (demo_fileAt ''App.vue'' 1 demo_vueLargeScript) Map.empty ''App.vue'')
       = \<lparr>symbols = [], exports = [],
          errors = [''Failed to parse file: '' @ ''App.vue'' @ '' - '' @ ''Error: Invalid argument'']\<rparr>"
    by blast
  then have r2: "fst (parseFile_vue demo_scriptPass demo_stylePass
               (demo_fileAt ''App.vue'' 1 demo_vueLargeScript) Map.empty ''App.vue'')
       = \<lparr>symbols = [], exports = [],
          errors = [''Failed to parse file: App.vue - Error: Invalid argument'']\<rparr>"
    by simp
  show ?thesis using miss rd ne sc st r0 sc1 st1 r1 sc2 r2 by blast
qed

text \<open>
  C8 as stated fails: in this component the script section yields the constant \<open>a\<close> and the
  template section the component \<open>Foo\<close>; the style section holds 40000 characters, the
  style parser throws on it, and \<open>parseFile\<close> returns the one error and no symbol at all.
\<close>

theorem parseFile_vue_section_failure_counterexample:
  "readFile (demo_fileAt ''App.vue'' 1 demo_vueLargeStyle) ''App.vue''
     = Some (''<template><Foo/></template><script>const a = 1</script><style>''
             @ replicate 40000 CHR ''a'' @ ''</style>'')
   \<and> scriptSection demo_scriptPass ''App.vue'' (extractSfcBlocks demo_vueLargeStyle)
       = Inr ([demo_vueConst ''App.vue'' 1], [])
   \<and> templateSection ''App.vue'' (extractSfcBlocks demo_vueLargeStyle) = [demo_vueFoo ''App.vue'']
   \<and> style (extractSfcBlocks demo_vueLargeStyle)
       = Some \<lparr>content = replicate 40000 CHR ''a'', startLine_b = 1, lang = None\<rparr>
   \<and> styleSection demo_stylePass ''App.vue'' (extractSfcBlocks demo_vueLargeStyle)
       = Inl ''Error: Invalid argument''
   \<and> fst (parseFile_vue demo_scriptPass demo_stylePass
             (demo_fileAt ''App.vue'' 1 demo_vueLargeStyle) Map.empty ''App.vue'')
       = \<lparr>symbols = [], exports = [],
          errors = [''Failed to parse file: App.vue - Error: Invalid argument'']\<rparr>"
proof -
  have rd: "readFile (demo_fileAt ''App.vue'' 1 demo_vueLargeStyle) ''App.vue''
     = Some (''<template><Foo/></template><script>const a = 1</script><style>''
             @ replicate 40000 CHR ''a'' @ ''</style>'')"
    by (simp add: demo_fileAt_def demo_vueLargeStyle_def demo_component_def demo_long_def)
  have ne: "demo_vueLargeStyle \<noteq> []"
    by (simp add: demo_vueLargeStyle_def demo_component_def)
  have sc: "scriptSection demo_scriptPass ''App.vue'' (extractSfcBlocks demo_vueLargeStyle)
       = Inr ([demo_vueConst ''App.vue'' 1], [])"
    by (simp add: demo_largeStyle_blocks scriptSection_def demo_scriptPass_def parserLimit_def)
  have tp: "templateSection ''App.vue'' (extractSfcBlocks demo_vueLargeStyle)
       = [demo_vueFoo ''App.vue'']"
    by (simp only: demo_largeStyle_blocks demo_template)
  have sy: "style (extractSfcBlocks demo_vueLargeStyle)
       = Some \<lparr>content = replicate 40000 CHR ''a'', startLine_b = 1, lang = None\<rparr>"
    by (simp add: demo_largeStyle_blocks demo_long_def)
  have st: "styleSection demo_stylePass ''App.vue'' (extractSfcBlocks demo_vueLargeStyle)
       = Inl ''Error: Invalid argument''"
    by (simp add: demo_largeStyle_blocks styleSection_def demo_stylePass_def demo_long_limit)
  have "fst (parseFile_vue demo_scriptPass demo_stylePass
               (demo_fileAt ''App.vue'' 1 demo_vueLargeStyle) Map.empty ''App.vue'')
          = parseFailure ''App.vue'' ''Error: Invalid argument''"
    by (simp add: ne sc st parseFile_vue_def getCachedResult_def readFileContent_def demo_fileAt_def)
  then have r: "fst (parseFile_vue demo_scriptPass demo_stylePass
               (demo_fileAt ''App.vue'' 1 demo_vueLargeStyle) Map.empty ''App.vue'')
       = \<lparr>symbols = [], exports = [],
          errors = [''Failed to parse file: App.vue - Error: Invalid argument'']\<rparr>"
    by (simp add: parseFailure_def)
  show ?thesis using rd sc tp sy st r by blast
qed
section \<open>Language extractors: \<open>parseFileForSymbol\<close>\<close>

text \<open>
  \<open>str_includes\<close> is the substring test, so each \<open>parseFileForSymbol\<close> is a filter of the
  parse's symbols: by case-insensitive substring for the solidity, python, css, html and
  vue extractors, by case-sensitive substring for the TypeScript extractor.
\<close>

lemma startsWith_iff: "startsWith s q \<longleftrightarrow> (\<exists>post. s = q @ post)"
  by (induction s q rule: startsWith.induct) auto

lemma str_includes_iff: "str_includes s q \<longleftrightarrow> (\<exists>pre post. s = pre @ q @ post)"
proof (induction s)
  case Nil
  then show ?case by auto
next
  case (Cons c cs)
  show ?case
  proof
    assume "str_includes (c # cs) q"
    then consider "startsWith (c # cs) q" | "str_includes cs q" by auto
    then show "\<exists>pre post. c # cs = pre @ q @ post"
    proof cases
      case 1
      then obtain post where "c # cs = q @ post" by (auto simp: startsWith_iff)
      then have "c # cs = [] @ q @ post" by simp
      then show ?thesis by blast
    next
      case 2
      then obtain pre post where "cs = pre @ q @ post" using Cons.IH by auto
      then have "c # cs = (c # pre) @ q @ post" by simp
      then show ?thesis by blast
    qed
  next
    assume "\<exists>pre post. c # cs = pre @ q @ post"
    then obtain pre post where eq: "c # cs = pre @ q @ post" by auto
    show "str_includes (c # cs) q"
    proof (cases pre)
      case Nil
      then have "startsWith (c # cs) q" using eq by (auto simp: startsWith_iff)
      then show ?thesis by simp
    next
      case (Cons p ps)
      then have "cs = ps @ q @ post" using eq by simp
      then have "str_includes cs q" using Cons.IH by blast
      then show ?thesis by simp
    qed
  qed
qed

lemma parseFileForSymbol_plain_spec:
  "fst (parseFileForSymbol_plain pass fs cache filePath query symbolType) =
     filter (\<lambda>s. (\<exists>pre post. toLowerCase (name s) = pre @ toLowerCase query @ post)
                  \<and> (case symbolType of None \<Rightarrow> True | Some t \<Rightarrow> t = [] \<or> kind s = t))
       (symbols (fst (parseFile_plain pass fs cache filePath)))"
  by (simp add: parseFileForSymbol_plain_def str_includes_iff typeMatch_def split: prod.splits)

lemma parseFileForSymbol_vue_spec:
  "fst (parseFileForSymbol_vue scriptPass stylePass fs cache filePath query symbolType) =
     filter (\<lambda>s. (\<exists>pre post. toLowerCase (name s) = pre @ toLowerCase query @ post)
                  \<and> (case symbolType of None \<Rightarrow> True | Some t \<Rightarrow> t = [] \<or> kind s = t))
       (symbols (fst (parseFile_vue scriptPass stylePass fs cache filePath)))"
  by (simp add: parseFileForSymbol_vue_def str_includes_iff typeMatch_def split: prod.splits)

lemma parseFileForSymbol_typescript_spec:
  "fst (parseFileForSymbol pass fs cache filePath symbolName symbolType) =
     filter (\<lambda>s. (\<exists>pre post. name s = pre @ symbolName @ post)
                  \<and> (case symbolType of None \<Rightarrow> True | Some t \<Rightarrow> t = [] \<or> kind s = t))
       (symbols (fst (parseFile pass fs cache filePath)))"
proof -
  have "(name s = symbolName \<or> str_includes (name s) symbolName)
          \<longleftrightarrow> (\<exists>pre post. name s = pre @ symbolName @ post)" for s :: SymbolInfo
  proof
    assume "name s = symbolName \<or> str_includes (name s) symbolName"
    then show "\<exists>pre post. name s = pre @ symbolName @ post"
    proof
      assume "name s = symbolName"
      then have "name s = [] @ symbolName @ []" by simp
      then show ?thesis by blast
    next
      assume "str_includes (name s) symbolName"
      then show ?thesis by (simp add: str_includes_iff)
    qed
  next
    assume "\<exists>pre post. name s = pre @ symbolName @ post"
    then show "name s = symbolName \<or> str_includes (name s) symbolName"
      by (simp add: str_includes_iff)
  qed
  then show ?thesis
    by (simp add: parseFileForSymbol_def typeMatch_def split: prod.splits)
qed

text \<open>
  C5. The claim holds for five of the six extractors (\<open>parseFileForSymbol_plain_spec\<close>,
  \<open>parseFileForSymbol_vue_spec\<close>) and fails for the TypeScript one, whose test
  \<open>s.name === symbolName || s.name.includes(symbolName)\<close> compares case-sensitively: for a
  file that declares \<open>Foo\<close>, the query \<open>foo\<close> is contained in the name up to case, yet the
  TypeScript extractor returns nothing, while the python extractor finds \<open>foo\<close> for the
  query \<open>FOO\<close>.
\<close>

theorem parseFileForSymbol_typescript_case_sensitive:
  "symbols (fst (parseFile demo_fooPass (demo_fs 1000 ''export function Foo() {}'') Map.empty ''a.ts''))
     = [demo_symbol ''Foo'' ''a.ts'' 1]
   \<and> str_includes (toLowerCase (name (demo_symbol ''Foo'' ''a.ts'' 1))) (toLowerCase ''foo'')
   \<and> fst (parseFileForSymbol demo_fooPass (demo_fs 1000 ''export function Foo() {}'') Map.empty
            ''a.ts'' ''foo'' None) = []
   \<and> fst (parseFileForSymbol_plain demo_pyPass (demo_fileAt ''m.py'' 5 ''def foo(): pass'') Map.empty
            ''m.py'' ''FOO'' None) = [demo_symbol ''foo'' ''m.py'' 1]"
  by (simp add: parseFileForSymbol_def parseFileForSymbol_plain_def parseFile_def
        parseFile_plain_def getCachedResult_def readFileContent_def demo_fs_def demo_fileAt_def
        demo_fooPass_def demo_pyPass_def parserLimit_def demo_long_def demo_symbol_def typeMatch_def toLowerCase_def
        lowerChar_def upperChars_def lowerChars_def)

section \<open>Fuzzy search: the four strategies succeed or fail together\<close>

lemma promise_all_four:
  "promise_all [a, b, c, d] =
     (case a of Rejected \<Rightarrow> Rejected | Fulfilled x \<Rightarrow>
      (case b of Rejected \<Rightarrow> Rejected | Fulfilled y \<Rightarrow>
       (case c of Rejected \<Rightarrow> Rejected | Fulfilled z \<Rightarrow>
        (case d of Rejected \<Rightarrow> Rejected | Fulfilled w \<Rightarrow> Fulfilled [x, y, z, w]))))"
  by (simp split: promise.splits)

lemma demo_variants: "normalizeQuery ''foo'' = [''foo'', ''Foo'']"
  by code_simp

lemma demo_symbolRecall:
  "symbolRecall (searchSymbol demo_search) ''foo'' =
     Fulfilled [\<lparr>file_f = ''m.py'', range_f = ''[1:1]'', symbol = Some ''foo'',
                  kind_f = Some ''function'', score = 9 / 10, reasons = [''definition_exact'']\<rparr>]"
  by (simp add: symbolRecall_def demo_variants demo_search_def symbolKey_def symbolCandidate_def
        demo_symbol_def formatRange_def showNat.simps digitChars_def)

lemma demo_textRecall:
  "textRecall (searchPattern demo_search) ''foo'' =
     Fulfilled [\<lparr>file_f = ''m.py'', range_f = ''[1:11]'', symbol = None, kind_f = None,
                  score = 3 / 10, reasons = [''text_hit'']\<rparr>]"
  by (simp add: textRecall_def demo_search_def formatRange_def showNat.simps digitChars_def)

lemma demo_fileNameRecall:
  "fileNameRecall (glob demo_search) (baseOf demo_search) ''foo'' = Fulfilled []"
  by (simp add: fileNameRecall_def demo_variants demo_search_def)

lemma demo_aliasRecall:
  "aliasRecall (lookupAlias demo_search) (parseIndex demo_search) ''foo'' = Rejected"
  by (simp add: aliasRecall_def demo_search_def)

lemma demo_aliasRecall_ok:
  "aliasRecall (lookupAlias (demo_search\<lparr>lookupAlias := \<lambda>t. Fulfilled []\<rparr>))
     (parseIndex (demo_search\<lparr>lookupAlias := \<lambda>t. Fulfilled []\<rparr>)) ''foo'' = Fulfilled []"
  by (simp add: aliasRecall_def demo_search_def)

text \<open>
  C4 (as amended). \<open>searchFuzzy\<close> joins its four recall strategies with one \<open>Promise.all\<close>.
  When all four are fulfilled, the result is the merge of their candidates in the order
  alias, symbol, file name, text. When any one of them is rejected, \<open>searchFuzzy\<close> is
  rejected as well and returns no candidates.
\<close>

theorem searchFuzzy_all_or_nothing:
  "(aliasRecall (lookupAlias env) (parseIndex env) query = Fulfilled aliasResults
      \<and> symbolRecall (searchSymbol env) query = Fulfilled symbolResults
      \<and> fileNameRecall (glob env) (baseOf env) query = Fulfilled fileResults
      \<and> textRecall (searchPattern env) query = Fulfilled textResults \<longrightarrow>
    searchFuzzy env query limit
      = Fulfilled (mergeAndSort (aliasResults @ symbolResults @ fileResults @ textResults) limit))
   \<and> (aliasRecall (lookupAlias env) (parseIndex env) query = Rejected
      \<or> symbolRecall (searchSymbol env) query = Rejected
      \<or> fileNameRecall (glob env) (baseOf env) query = Rejected
      \<or> textRecall (searchPattern env) query = Rejected \<longrightarrow>
    searchFuzzy env query limit = Rejected)"
  by (auto simp: searchFuzzy_def promise_all_four split: promise.splits)

theorem searchFuzzy_all_or_nothing_witness:
  "aliasRecall (lookupAlias demo_search) (parseIndex demo_search) ''foo'' = Rejected
   \<and> searchFuzzy demo_search ''foo'' 20 = Rejected
   \<and> aliasRecall (lookupAlias (demo_search\<lparr>lookupAlias := \<lambda>t. Fulfilled []\<rparr>))
         (parseIndex (demo_search\<lparr>lookupAlias := \<lambda>t. Fulfilled []\<rparr>)) ''foo'' = Fulfilled []
   \<and> searchFuzzy (demo_search\<lparr>lookupAlias := \<lambda>t. Fulfilled []\<rparr>) ''foo'' 20
       = Fulfilled
           [\<lparr>file_f = ''m.py'', range_f = ''[1:1]'', symbol = Some ''foo'',
             kind_f = Some ''function'', score = 9 / 10, reasons = [''definition_exact'']\<rparr>,
            \<lparr>file_f = ''m.py'', range_f = ''[1:11]'', symbol = None, kind_f = None,
             score = 3 / 10, reasons = [''text_hit'']\<rparr>]"
proof -
  let ?ok = "demo_search\<lparr>lookupAlias := \<lambda>t. Fulfilled []\<rparr>"
  let ?s = "\<lparr>file_f = ''m.py'', range_f = ''[1:1]'', symbol = Some ''foo'',
             kind_f = Some ''function'', score = 9 / 10, reasons = [''definition_exact'']\<rparr>"
  let ?t = "\<lparr>file_f = ''m.py'', range_f = ''[1:11]'', symbol = None, kind_f = None,
             score = 3 / 10, reasons = [''text_hit'']\<rparr>"
  from searchFuzzy_all_or_nothing [of demo_search "''foo''" _ _ _ _ 20] demo_aliasRecall
  have r1: "searchFuzzy demo_search ''foo'' 20 = Rejected"
    by blast
  have s: "symbolRecall (searchSymbol ?ok) ''foo'' = Fulfilled [?s]"
    using demo_symbolRecall by (simp add: demo_search_def)
  have f: "fileNameRecall (glob ?ok) (baseOf ?ok) ''foo'' = Fulfilled []"
    using demo_fileNameRecall by (simp add: demo_search_def)
  have t: "textRecall (searchPattern ?ok) ''foo'' = Fulfilled [?t]"
    using demo_textRecall by (simp add: demo_search_def)
  from searchFuzzy_all_or_nothing [of ?ok "''foo''" "[]" "[?s]" "[]" "[?t]" 20]
    demo_aliasRecall_ok s f t
  have r2: "searchFuzzy ?ok ''foo'' 20 = Fulfilled (mergeAndSort ([] @ [?s] @ [] @ [?t]) 20)"
    by blast
  have m: "mergeAndSort ([] @ [?s] @ [] @ [?t]) 20 = [?s, ?t]"
    by (simp add: mergeAndSort_def merged_def mergeStep_def resultKey_def slice0_def)
  show ?thesis using demo_aliasRecall r1 demo_aliasRecall_ok r2 m by simp
qed

text \<open>
  C4 as stated fails: with an alias lookup that throws, the symbol and text strategies
  still produce a candidate each, yet \<open>searchFuzzy\<close> is rejected instead of returning them.
\<close>

theorem searchFuzzy_failure_propagates_counterexample:
  "aliasRecall (lookupAlias demo_search) (parseIndex demo_search) ''foo'' = Rejected
   \<and> symbolRecall (searchSymbol demo_search) ''foo''
       = Fulfilled [\<lparr>file_f = ''m.py'', range_f = ''[1:1]'', symbol = Some ''foo'',
                      kind_f = Some ''function'', score = 9 / 10,
                      reasons = [''definition_exact'']\<rparr>]
   \<and> fileNameRecall (glob demo_search) (baseOf demo_search) ''foo'' = Fulfilled []
   \<and> textRecall (searchPattern demo_search) ''foo''
       = Fulfilled [\<lparr>file_f = ''m.py'', range_f = ''[1:11]'', symbol = None, kind_f = None,
                      score = 3 / 10, reasons = [''text_hit'']\<rparr>]
   \<and> searchFuzzy demo_search ''foo'' 20 = Rejected"
proof -
  have "searchFuzzy demo_search ''foo'' 20 = Rejected"
    by (simp add: searchFuzzy_def demo_aliasRecall)
  then show ?thesis
    using demo_aliasRecall demo_symbolRecall demo_fileNameRecall demo_textRecall by blast
qed

section \<open>Fuzzy search: merge\<close>

lemma set_uniqFrom: "set (uniqFrom seen xs) = set xs - set seen"
  by (induction seen xs rule: uniqFrom.induct) auto

lemma set_uniq: "set (uniq xs) = set xs"
  by (simp add: uniq_def set_uniqFrom)

lemma distinct_uniqFrom: "distinct (uniqFrom seen xs)"
  by (induction seen xs rule: uniqFrom.induct) (auto simp: set_uniqFrom)

lemma mergeInv_empty: "mergeInv [] []"
  by (simp add: mergeInv_def keyInv_def)

lemma resultKey_reasons [simp]: "resultKey (r\<lparr>reasons := x\<rparr>) = resultKey r"
  by (simp add: resultKey_def)

lemma keyInv_other:
  "keyInv rs m k \<Longrightarrow> k \<noteq> resultKey r \<Longrightarrow> keyInv (rs @ [r]) (AList.update (resultKey r) v m) k"
  by (auto simp: keyInv_def update_conv' split: option.splits)

lemma keyInv_fresh:
  "keyInv rs m (resultKey r) \<Longrightarrow> map_of m (resultKey r) = None \<Longrightarrow>
   keyInv (rs @ [r]) (AList.update (resultKey r) r m) (resultKey r)"
  by (auto simp: keyInv_def update_conv')

lemma keyInv_replace:
  assumes "keyInv rs m (resultKey r)" and "map_of m (resultKey r) = Some existing"
    and "score r > score existing"
  shows "keyInv (rs @ [r])
           (AList.update (resultKey r) (r\<lparr>reasons := uniq (reasons r @ reasons existing)\<rparr>) m)
           (resultKey r)"
proof -
  from assms(1,2) have
    le: "\<forall>y \<in> set rs. resultKey y = resultKey r \<longrightarrow> score y \<le> score existing"
    and un: "set (reasons existing) = (\<Union>y \<in> {y \<in> set rs. resultKey y = resultKey r}. set (reasons y))"
    by (auto simp: keyInv_def)
  from le assms(3) have "\<forall>y \<in> set rs. resultKey y = resultKey r \<longrightarrow> score y \<le> score r"
    by fastforce
  then show ?thesis
    using un by (auto simp: keyInv_def update_conv' set_uniq)
qed

lemma keyInv_keep:
  assumes "keyInv rs m (resultKey r)" and "map_of m (resultKey r) = Some existing"
    and "\<not> score r > score existing"
  shows "keyInv (rs @ [r])
           (AList.update (resultKey r) (existing\<lparr>reasons := uniq (reasons existing @ reasons r)\<rparr>) m)
           (resultKey r)"
proof -
  from assms(1,2) obtain x where x: "x \<in> set rs" "resultKey x = resultKey r"
      "existing = x\<lparr>reasons := reasons existing\<rparr>"
    and le: "\<forall>y \<in> set rs. resultKey y = resultKey r \<longrightarrow> score y \<le> score existing"
    and un: "set (reasons existing) = (\<Union>y \<in> {y \<in> set rs. resultKey y = resultKey r}. set (reasons y))"
    by (auto simp: keyInv_def)
  let ?v = "existing\<lparr>reasons := uniq (reasons existing @ reasons r)\<rparr>"
  have e1: "?v = x\<lparr>reasons := reasons ?v\<rparr>"
    by (subst x(3)) simp
  have a: "\<exists>y \<in> set (rs @ [r]). resultKey y = resultKey r \<and> ?v = y\<lparr>reasons := reasons ?v\<rparr>"
    using x(1,2) e1 by (intro bexI [of _ x]) auto
  have b: "\<forall>y \<in> set (rs @ [r]). resultKey y = resultKey r \<longrightarrow> score y \<le> score ?v"
    using le assms(3) by auto
  have c: "set (reasons ?v) = (\<Union>y \<in> {y \<in> set (rs @ [r]). resultKey y = resultKey r}. set (reasons y))"
    using un by (auto simp: set_uniq)
  show ?thesis
    using a b c by (simp add: keyInv_def update_conv')
qed

lemma mergeInv_step:
  assumes "mergeInv rs m"
  shows "mergeInv (rs @ [r]) (mergeStep m r)"
proof -
  from assms have dist: "distinct (map fst m)" and inv: "\<And>k. keyInv rs m k"
    by (auto simp: mergeInv_def)
  obtain v where step: "mergeStep m r = AList.update (resultKey r) v m"
    and here: "keyInv (rs @ [r]) (AList.update (resultKey r) v m) (resultKey r)"
  proof (cases "map_of m (resultKey r)")
    case None
    then have "mergeStep m r = AList.update (resultKey r) r m"
      by (simp add: mergeStep_def)
    then show ?thesis using that keyInv_fresh [OF inv None] by blast
  next
    case (Some existing)
    show ?thesis
    proof (cases "score r > score existing")
      case True
      then have "mergeStep m r
          = AList.update (resultKey r) (r\<lparr>reasons := uniq (reasons r @ reasons existing)\<rparr>) m"
        using Some by (simp add: mergeStep_def)
      then show ?thesis using that keyInv_replace [OF inv Some True] by blast
    next
      case False
      then have "mergeStep m r
          = AList.update (resultKey r) (existing\<lparr>reasons := uniq (reasons existing @ reasons r)\<rparr>) m"
        using Some by (simp add: mergeStep_def)
      then show ?thesis using that keyInv_keep [OF inv Some False] by blast
    qed
  qed
  have "keyInv (rs @ [r]) (AList.update (resultKey r) v m) k" for k
    using here keyInv_other [OF inv] by (cases "k = resultKey r") auto
  moreover have "distinct (map fst (AList.update (resultKey r) v m))"
    using dist by (rule distinct_update)
  ultimately show ?thesis
    by (simp add: mergeInv_def step)
qed

lemma mergeInv_foldl: "mergeInv rs (foldl mergeStep [] rs)"
proof (induction rs rule: rev_induct)
  case Nil
  show ?case by (simp add: mergeInv_empty)
next
  case (snoc r rs)
  then show ?case by (simp add: mergeInv_step)
qed

lemma merged_entry:
  assumes "(k, v) \<in> set (foldl mergeStep [] rs)"
  shows "(\<exists>y \<in> set rs. resultKey y = k \<and> v = y\<lparr>reasons := reasons v\<rparr>)
         \<and> (\<forall>y \<in> set rs. resultKey y = k \<longrightarrow> score y \<le> score v)
         \<and> set (reasons v) = (\<Union>y \<in> {y \<in> set rs. resultKey y = k}. set (reasons y))"
proof -
  have inv: "mergeInv rs (foldl mergeStep [] rs)" by (rule mergeInv_foldl)
  then have "map_of (foldl mergeStep [] rs) k = Some v"
    using assms by (simp add: mergeInv_def)
  moreover have "keyInv rs (foldl mergeStep [] rs) k"
    using inv by (simp add: mergeInv_def)
  ultimately show ?thesis by (simp add: keyInv_def)
qed

lemma merged_key: "(k, v) \<in> set (foldl mergeStep [] rs) \<Longrightarrow> resultKey v = k"
proof -
  assume "(k, v) \<in> set (foldl mergeStep [] rs)"
  then obtain y where "resultKey y = k" "v = y\<lparr>reasons := reasons v\<rparr>"
    using merged_entry by blast
  then show ?thesis by (metis resultKey_reasons)
qed

lemma map_snd_keys:
  "(\<And>k v. (k, v) \<in> set m \<Longrightarrow> f v = k) \<Longrightarrow> map f (map snd m) = map fst m"
  by (induction m) auto

lemma merged_keys: "map resultKey (merged rs) = map fst (foldl mergeStep [] rs)"
  unfolding merged_def by (rule map_snd_keys) (rule merged_key)

lemma merged_distinct: "distinct (map resultKey (merged rs))"
  using mergeInv_foldl [of rs] by (simp add: merged_keys mergeInv_def)

lemma merged_member:
  assumes "x \<in> set (merged rs)"
  shows "(\<exists>y \<in> set rs. resultKey y = resultKey x \<and> x = y\<lparr>reasons := reasons x\<rparr>)
         \<and> (\<forall>y \<in> set rs. resultKey y = resultKey x \<longrightarrow> score y \<le> score x)
         \<and> set (reasons x) = (\<Union>y \<in> {y \<in> set rs. resultKey y = resultKey x}. set (reasons y))"
proof -
  from assms obtain k where kv: "(k, x) \<in> set (foldl mergeStep [] rs)"
    by (auto simp: merged_def)
  then have "resultKey x = k" by (rule merged_key)
  then show ?thesis using merged_entry [OF kv] by simp
qed

lemma merged_key_set: "resultKey ` set (merged rs) = resultKey ` set rs"
proof -
  have inv: "\<And>k. keyInv rs (foldl mergeStep [] rs) k"
    using mergeInv_foldl [of rs] by (simp add: mergeInv_def)
  have "set (map fst (foldl mergeStep [] rs)) = resultKey ` set rs"
  proof (intro set_eqI iffI)
    fix k assume "k \<in> set (map fst (foldl mergeStep [] rs))"
    then obtain v where "(k, v) \<in> set (foldl mergeStep [] rs)" by auto
    then show "k \<in> resultKey ` set rs" using merged_entry by blast
  next
    fix k assume k: "k \<in> resultKey ` set rs"
    show "k \<in> set (map fst (foldl mergeStep [] rs))"
    proof (cases "map_of (foldl mergeStep [] rs) k")
      case None
      then show ?thesis using inv [of k] k by (auto simp: keyInv_def)
    next
      case (Some v)
      then have "(k, v) \<in> set (foldl mergeStep [] rs)" by (rule map_of_SomeD)
      then show ?thesis by force
    qed
  qed
  then have "set (map resultKey (merged rs)) = resultKey ` set rs"
    by (simp only: merged_keys)
  then show ?thesis by simp
qed

lemma merged_length: "length (merged rs) = card (resultKey ` set rs)"
proof -
  have "length (merged rs) = length (map resultKey (merged rs))"
    by simp
  also have "\<dots> = card (set (map resultKey (merged rs)))"
    using merged_distinct [of rs] by (simp only: distinct_card)
  also have "\<dots> = card (resultKey ` set rs)"
    using merged_key_set [of rs] by simp
  finally show ?thesis .
qed

lemma merged_length_le: "length (merged rs) \<le> length rs"
proof -
  have "card (resultKey ` set rs) \<le> card (set rs)" by (simp add: card_image_le)
  also have "\<dots> \<le> length rs" by (rule card_length)
  finally show ?thesis by (simp add: merged_length)
qed

lemma distinct_map_insort_key:
  "distinct (map g (insort_key f x xs)) = (g x \<notin> g ` set xs \<and> distinct (map g xs))"
  by (induction xs) (auto simp: set_insort_key)

lemma distinct_map_sort_key: "distinct (map g (sort_key f xs)) = distinct (map g xs)"
  by (induction xs) (simp_all add: distinct_map_insort_key)

lemma filter_key_single:
  "distinct (map f xs) \<Longrightarrow> x \<in> set xs \<Longrightarrow> filter (\<lambda>y. f y = f x) xs = [x]"
proof (induction xs)
  case Nil
  then show ?case by simp
next
  case (Cons a xs)
  show ?case
  proof (cases "a = x")
    case True
    have "f x \<notin> f ` set xs" using Cons.prems(1) True by simp
    then have "filter (\<lambda>y. f y = f x) xs = []"
      by (metis (mono_tags, lifting) filter_False image_eqI)
    then show ?thesis using True by simp
  next
    case False
    then have "x \<in> set xs" using Cons.prems(2) by simp
    moreover have "f a \<noteq> f x" using Cons.prems(1) calculation by auto
    ultimately show ?thesis using Cons by simp
  qed
qed

lemma slice0_take: "\<exists>n. slice0 xs limit = take n xs"
  by (auto simp: slice0_def)

lemma mergeAndSort_full:
  "mergeAndSort rs (int (length rs)) = sort_key (\<lambda>r. - score r) (merged rs)"
  using merged_length_le [of rs] by (simp add: mergeAndSort_def slice0_def)

lemma mergeAndSort_take:
  "0 \<le> limit \<Longrightarrow> mergeAndSort rs limit = take (nat limit) (mergeAndSort rs (int (length rs)))"
  by (simp add: mergeAndSort_full) (simp add: mergeAndSort_def slice0_def)

lemma mergeAndSort_prefix: "\<exists>n. mergeAndSort rs limit = take n (mergeAndSort rs (int (length rs)))"
  unfolding mergeAndSort_full using slice0_take by (simp add: mergeAndSort_def)

lemma mergeAndSort_full_member:
  assumes "x \<in> set (mergeAndSort rs (int (length rs)))"
  shows "(\<exists>y \<in> set rs. resultKey y = resultKey x \<and> x = y\<lparr>reasons := reasons x\<rparr>)
         \<and> (\<forall>y \<in> set rs. resultKey y = resultKey x \<longrightarrow> score y \<le> score x)
         \<and> set (reasons x) = (\<Union>y \<in> {y \<in> set rs. resultKey y = resultKey x}. set (reasons y))"
  using assms merged_member [of x rs] by (simp add: mergeAndSort_full)

lemma mergeAndSort_full_distinct: "distinct (map resultKey (mergeAndSort rs (int (length rs))))"
  by (simp add: mergeAndSort_full distinct_map_sort_key merged_distinct)

lemma mergeAndSort_full_sorted:
  "sorted_wrt (\<lambda>a b. score b \<le> score a) (mergeAndSort rs (int (length rs)))"
proof -
  have "sorted (map (\<lambda>r. - score r) (mergeAndSort rs (int (length rs))))"
    by (simp add: mergeAndSort_full)
  then show ?thesis by (simp add: sorted_map)
qed

lemma mergeAndSort_full_keys:
  "resultKey ` set (mergeAndSort rs (int (length rs))) = resultKey ` set rs"
  using merged_key_set [of rs] by (simp add: mergeAndSort_full)

lemma mergeAndSort_full_length:
  "length (mergeAndSort rs (int (length rs))) = card (resultKey ` set rs)"
  by (simp add: mergeAndSort_full merged_length)

text \<open>
  C3. The output of \<open>mergeAndSort\<close> holds at most one candidate per key \<open>file:range\<close> and is
  in descending order of score; for a limit that is not negative it is the first \<open>limit\<close>
  elements of the untruncated list, which holds one candidate for each key that occurs in
  the input. Every candidate of the output is one of the input candidates with its key, up
  to the reasons; its score is the largest among the input candidates with that key and
  its reasons are the union of theirs. So whenever two candidates share a key, the
  untruncated list has exactly one candidate for that key, its score is at least the
  maximum of the two and its reasons contain both reason sets, with equality when no third
  candidate has the key.
\<close>

theorem mergeAndSort_dedup_max_union:
  "distinct (map resultKey (mergeAndSort rs limit))
   \<and> sorted_wrt (\<lambda>a b. score b \<le> score a) (mergeAndSort rs limit)
   \<and> (0 \<le> limit \<longrightarrow>
        mergeAndSort rs limit = take (nat limit) (mergeAndSort rs (int (length rs)))
        \<and> length (mergeAndSort rs limit) = min (nat limit) (card (resultKey ` set rs)))
   \<and> (\<forall>x \<in> set (mergeAndSort rs limit).
         (\<exists>y \<in> set rs. resultKey y = resultKey x \<and> x = y\<lparr>reasons := reasons x\<rparr>)
         \<and> (\<forall>y \<in> set rs. resultKey y = resultKey x \<longrightarrow> score y \<le> score x)
         \<and> set (reasons x) = (\<Union>y \<in> {y \<in> set rs. resultKey y = resultKey x}. set (reasons y)))
   \<and> (r1 \<in> set rs \<and> r2 \<in> set rs \<and> resultKey r1 = resultKey r2 \<longrightarrow>
        length (filter (\<lambda>x. resultKey x = resultKey r1) (mergeAndSort rs (int (length rs)))) = 1
        \<and> length (filter (\<lambda>x. resultKey x = resultKey r1) (mergeAndSort rs limit)) \<le> 1
        \<and> (\<forall>x \<in> set (mergeAndSort rs limit). resultKey x = resultKey r1 \<longrightarrow>
               max (score r1) (score r2) \<le> score x
               \<and> set (reasons r1) \<union> set (reasons r2) \<subseteq> set (reasons x)
               \<and> ({y \<in> set rs. resultKey y = resultKey r1} = {r1, r2} \<longrightarrow>
                    score x = max (score r1) (score r2)
                    \<and> set (reasons x) = set (reasons r1) \<union> set (reasons r2))))"
proof -
  let ?full = "mergeAndSort rs (int (length rs))"
  obtain n where pre: "mergeAndSort rs limit = take n ?full"
    using mergeAndSort_prefix by blast
  have sub: "set (mergeAndSort rs limit) \<subseteq> set ?full"
    by (simp add: pre set_take_subset)
  have d: "distinct (map resultKey (mergeAndSort rs limit))"
    using mergeAndSort_full_distinct [of rs] by (simp add: pre take_map [symmetric])
  have s: "sorted_wrt (\<lambda>a b. score b \<le> score a) (mergeAndSort rs limit)"
    using mergeAndSort_full_sorted [of rs] by (simp add: pre sorted_wrt_take)
  have t: "0 \<le> limit \<longrightarrow>
        mergeAndSort rs limit = take (nat limit) ?full
        \<and> length (mergeAndSort rs limit) = min (nat limit) (card (resultKey ` set rs))"
  proof
    assume l: "0 \<le> limit"
    then have eq: "mergeAndSort rs limit = take (nat limit) ?full" by (rule mergeAndSort_take)
    have "length (take (nat limit) ?full) = min (nat limit) (card (resultKey ` set rs))"
      by (simp add: mergeAndSort_full_length min.commute)
    then show "mergeAndSort rs limit = take (nat limit) ?full
        \<and> length (mergeAndSort rs limit) = min (nat limit) (card (resultKey ` set rs))"
      using eq by simp
  qed
  have m: "\<forall>x \<in> set (mergeAndSort rs limit).
         (\<exists>y \<in> set rs. resultKey y = resultKey x \<and> x = y\<lparr>reasons := reasons x\<rparr>)
         \<and> (\<forall>y \<in> set rs. resultKey y = resultKey x \<longrightarrow> score y \<le> score x)
         \<and> set (reasons x) = (\<Union>y \<in> {y \<in> set rs. resultKey y = resultKey x}. set (reasons y))"
    using sub mergeAndSort_full_member by blast
  have two: "r1 \<in> set rs \<and> r2 \<in> set rs \<and> resultKey r1 = resultKey r2 \<longrightarrow>
        length (filter (\<lambda>x. resultKey x = resultKey r1) ?full) = 1
        \<and> length (filter (\<lambda>x. resultKey x = resultKey r1) (mergeAndSort rs limit)) \<le> 1
        \<and> (\<forall>x \<in> set (mergeAndSort rs limit). resultKey x = resultKey r1 \<longrightarrow>
               max (score r1) (score r2) \<le> score x
               \<and> set (reasons r1) \<union> set (reasons r2) \<subseteq> set (reasons x)
               \<and> ({y \<in> set rs. resultKey y = resultKey r1} = {r1, r2} \<longrightarrow>
                    score x = max (score r1) (score r2)
                    \<and> set (reasons x) = set (reasons r1) \<union> set (reasons r2)))"
  proof (intro impI conjI ballI)
    assume a: "r1 \<in> set rs \<and> r2 \<in> set rs \<and> resultKey r1 = resultKey r2"
    then have "resultKey r1 \<in> resultKey ` set ?full"
      by (simp add: mergeAndSort_full_keys)
    then obtain x where x: "x \<in> set ?full" "resultKey x = resultKey r1" by auto
    have one: "filter (\<lambda>y. resultKey y = resultKey x) ?full = [x]"
      using mergeAndSort_full_distinct x(1) by (rule filter_key_single)
    then show "length (filter (\<lambda>x. resultKey x = resultKey r1) ?full) = 1"
      by (simp add: x(2))
    have "length (filter (\<lambda>y. resultKey y = resultKey r1) (take n ?full))
            \<le> length (filter (\<lambda>y. resultKey y = resultKey r1) (take n ?full @ drop n ?full))"
      unfolding filter_append by simp
    then show "length (filter (\<lambda>x. resultKey x = resultKey r1) (mergeAndSort rs limit)) \<le> 1"
      using one by (simp add: pre x(2))
  next
    fix x
    assume a: "r1 \<in> set rs \<and> r2 \<in> set rs \<and> resultKey r1 = resultKey r2"
      and x: "x \<in> set (mergeAndSort rs limit)" and k: "resultKey x = resultKey r1"
    from m x have le: "\<forall>y \<in> set rs. resultKey y = resultKey x \<longrightarrow> score y \<le> score x"
      and un: "set (reasons x) = (\<Union>y \<in> {y \<in> set rs. resultKey y = resultKey x}. set (reasons y))"
      and ex: "\<exists>y \<in> set rs. resultKey y = resultKey x \<and> x = y\<lparr>reasons := reasons x\<rparr>"
      by blast+
    show "max (score r1) (score r2) \<le> score x"
      using le a k by simp
    show "set (reasons r1) \<union> set (reasons r2) \<subseteq> set (reasons x)"
      using un a k by auto
    {
      assume only: "{y \<in> set rs. resultKey y = resultKey r1} = {r1, r2}"
      from ex obtain y where y: "y \<in> set rs" "resultKey y = resultKey x" "score y = score x"
        by (metis (no_types) FuzzyResult.select_convs(5) FuzzyResult.surjective
              FuzzyResult.update_convs(6))
      then have "y \<in> {r1, r2}" using only k by auto
      then have "score x \<le> max (score r1) (score r2)" using y(3) by auto
      then show "score x = max (score r1) (score r2)"
        using le a k by (simp add: antisym)
      show "set (reasons x) = set (reasons r1) \<union> set (reasons r2)"
        using un only k by auto
    }
  qed
  show ?thesis using d s t m two by blast
qed

theorem mergeAndSort_dedup_max_union_witness:
  "demo_candidate ''[3:5]'' (7 / 10) ''definition_match'' \<in> set demo_candidates
   \<and> demo_candidate ''[3:5]'' (9 / 10) ''alias_hit'' \<in> set demo_candidates
   \<and> resultKey (demo_candidate ''[3:5]'' (7 / 10) ''definition_match'')
       = resultKey (demo_candidate ''[3:5]'' (9 / 10) ''alias_hit'')
   \<and> mergeAndSort demo_candidates 20
       = [demo_candidate ''[1:100]'' (95 / 100) ''alias_hit'',
          (demo_candidate ''[3:5]'' (9 / 10) ''alias_hit'')
            \<lparr>reasons := [''alias_hit'', ''definition_match'']\<rparr>]
   \<and> score ((demo_candidate ''[3:5]'' (9 / 10) ''alias_hit'')
                \<lparr>reasons := [''alias_hit'', ''definition_match'']\<rparr>)
       = max (score (demo_candidate ''[3:5]'' (7 / 10) ''definition_match''))
             (score (demo_candidate ''[3:5]'' (9 / 10) ''alias_hit''))
   \<and> set (reasons ((demo_candidate ''[3:5]'' (9 / 10) ''alias_hit'')
                       \<lparr>reasons := [''alias_hit'', ''definition_match'']\<rparr>))
       = set (reasons (demo_candidate ''[3:5]'' (7 / 10) ''definition_match''))
         \<union> set (reasons (demo_candidate ''[3:5]'' (9 / 10) ''alias_hit''))
   \<and> length (filter (\<lambda>x. resultKey x = ''cards.ts:[3:5]'') (mergeAndSort demo_candidates 20)) = 1
   \<and> (0 :: int) \<le> 1
   \<and> mergeAndSort demo_candidates 1 = take 1 (mergeAndSort demo_candidates 3)
   \<and> mergeAndSort demo_candidates 1 = [demo_candidate ''[1:100]'' (95 / 100) ''alias_hit'']"
proof -
  let ?a = "demo_candidate ''[3:5]'' (7 / 10) ''definition_match''"
  let ?b = "demo_candidate ''[3:5]'' (9 / 10) ''alias_hit''"
  let ?c = "demo_candidate ''[1:100]'' (95 / 100) ''alias_hit''"
  let ?b' = "?b\<lparr>reasons := [''alias_hit'', ''definition_match'']\<rparr>"
  have mem: "?a \<in> set demo_candidates \<and> ?b \<in> set demo_candidates \<and> resultKey ?a = resultKey ?b"
    by (simp add: demo_candidates_def demo_candidate_def resultKey_def)
  have only: "{y \<in> set demo_candidates. resultKey y = resultKey ?a} = {?a, ?b}"
    by (auto simp: demo_candidates_def demo_candidate_def resultKey_def)
  have ev: "mergeAndSort demo_candidates 20 = [?c, ?b']"
    by (simp add: mergeAndSort_def merged_def mergeStep_def resultKey_def slice0_def
          demo_candidates_def demo_candidate_def uniq_def)
  have len: "int (length demo_candidates) = 3"
    by (simp add: demo_candidates_def)
  have in_out: "?b' \<in> set (mergeAndSort demo_candidates 20) \<and> resultKey ?b' = resultKey ?a"
    by (simp add: ev demo_candidate_def resultKey_def)
  have k: "resultKey ?a = ''cards.ts:[3:5]''"
    by (simp add: demo_candidate_def resultKey_def)
  note th = mergeAndSort_dedup_max_union [where rs = demo_candidates and ?r1.0 = ?a and ?r2.0 = ?b]
  from th [where limit = 20] mem only in_out
  have sc: "score ?b' = max (score ?a) (score ?b)"
    and rs: "set (reasons ?b') = set (reasons ?a) \<union> set (reasons ?b)"
    by blast+
  from th [where limit = 3] mem len
  have one: "length (filter (\<lambda>x. resultKey x = resultKey ?a) (mergeAndSort demo_candidates 3)) = 1"
    by simp
  have ev3: "mergeAndSort demo_candidates 3 = mergeAndSort demo_candidates 20"
    by (simp add: mergeAndSort_def merged_def mergeStep_def resultKey_def slice0_def
          demo_candidates_def demo_candidate_def uniq_def)
  have z: "(0 :: int) \<le> 1" by simp
  from th [where limit = 1] z len
  have tk: "mergeAndSort demo_candidates 1 = take (nat 1) (mergeAndSort demo_candidates 3)"
    by simp
  then have ev1: "mergeAndSort demo_candidates 1 = [?c]"
    by (simp add: ev3 ev)
  show ?thesis
    using mem ev sc rs one ev3 k z tk ev1 by simp
qed

section \<open>Fuzzy search: symbol recall keeps the first result per file and name\<close>

lemma firstPerKey_append:
  "firstPerKey k seen (xs @ ys) = firstPerKey k seen xs @ firstPerKey k (seen \<union> k ` set xs) ys"
proof (induction xs arbitrary: seen)
  case Nil
  show ?case by simp
next
  case (Cons x xs)
  show ?case
  proof (cases "k x \<in> seen")
    case True
    then have "seen \<union> k ` set (x # xs) = seen \<union> k ` set xs" by auto
    then show ?thesis using True Cons.IH [of seen] by simp
  next
    case False
    have "seen \<union> k ` set (x # xs) = insert (k x) seen \<union> k ` set xs" by auto
    then show ?thesis using False Cons.IH [of "insert (k x) seen"] by simp
  qed
qed

lemma firstPerKey_keys: "k ` set (firstPerKey k seen xs) = k ` set xs - seen"
  by (induction xs arbitrary: seen) auto

lemma firstPerKey_subset: "set (firstPerKey k seen xs) \<subseteq> set xs"
  by (induction xs arbitrary: seen) auto

lemma firstPerKey_distinct: "distinct (map k (firstPerKey k seen xs))"
proof (induction xs arbitrary: seen)
  case Nil
  show ?case by simp
next
  case (Cons x xs)
  have "k x \<notin> k ` set (firstPerKey k (insert (k x) seen) xs)"
    by (simp add: firstPerKey_keys)
  then show ?case using Cons by simp
qed

lemma firstPerKey_seen_nil: "k ` set xs \<subseteq> seen \<Longrightarrow> firstPerKey k seen xs = []"
  by (induction xs arbitrary: seen) auto

lemma firstPerKey_first:
  assumes "\<forall>x \<in> set pre. k x \<noteq> k s" and "k s \<notin> seen"
  shows "filter (\<lambda>x. k x = k s) (firstPerKey k seen (pre @ s # rest)) = [s]"
proof -
  have a: "filter (\<lambda>x. k x = k s) (firstPerKey k seen pre) = []"
    using assms(1) firstPerKey_subset [of k seen pre] by (auto simp: filter_empty_conv)
  have b: "k s \<notin> seen \<union> k ` set pre"
    using assms by auto
  have "k s \<notin> k ` set (firstPerKey k (insert (k s) (seen \<union> k ` set pre)) rest)"
    by (simp add: firstPerKey_keys)
  then have c: "filter (\<lambda>x. k x = k s) (firstPerKey k (insert (k s) (seen \<union> k ` set pre)) rest) = []"
    by (metis (mono_tags, lifting) filter_False image_eqI)
  show ?thesis
    using a b c by (simp add: firstPerKey_append del: Un_iff)
qed

lemma symbolRecall_symbols_eq:
  "symbolRecall_symbols query syms (seen, acc) =
     (seen \<union> symbolKey ` set syms,
      acc @ map (symbolCandidate query) (firstPerKey symbolKey seen syms))"
  by (induction syms arbitrary: seen acc) auto

lemma symbolRecall_variants_eq:
  "\<forall>v \<in> set variants. search v = Fulfilled (found v) \<Longrightarrow>
   symbolRecall_variants search query variants (seen, acc) =
     Fulfilled (acc @ map (symbolCandidate query)
                        (firstPerKey symbolKey seen (concat (map found variants))))"
proof (induction variants arbitrary: seen acc)
  case Nil
  show ?case by simp
next
  case (Cons v vs)
  then have "search v = Fulfilled (found v)"
    and rest: "\<forall>v \<in> set vs. search v = Fulfilled (found v)"
    by auto
  then show ?case
    using Cons.IH [OF rest]
    by (simp add: symbolRecall_symbols_eq firstPerKey_append)
qed

lemma symbolRecall_eq:
  "\<forall>v \<in> set (normalizeQuery query). search v = Fulfilled (found v) \<Longrightarrow>
   symbolRecall search query =
     Fulfilled (map (symbolCandidate query)
                  (firstPerKey symbolKey {} (concat (map found (normalizeQuery query)))))"
  using symbolRecall_variants_eq [where variants = "normalizeQuery query" and seen = "{}" and acc = "[]"]
  by (simp add: symbolRecall_def)

lemma symbolCandidate_fields [simp]:
  "file_f (symbolCandidate query s) = file_s s"
  "symbol (symbolCandidate query s) = Some (name s)"
  "range_f (symbolCandidate query s) = range_s s"
  by (simp_all add: symbolCandidate_def)

lemma distinct_map_coarser:
  assumes "distinct (map k xs)" and coarser: "\<And>x y. f x = f y \<Longrightarrow> k x = k y"
  shows "distinct (map f xs)"
  using assms(1)
proof (induction xs)
  case Nil
  show ?case by simp
next
  case (Cons a xs)
  have "f a \<notin> f ` set xs"
  proof
    assume "f a \<in> f ` set xs"
    then obtain y where y: "y \<in> set xs" "f a = f y" by auto
    from y(2) have "k a = k y" by (rule coarser)
    then show False using Cons.prems y(1) by auto
  qed
  then show ?case using Cons by simp
qed

text \<open>
  C10. When every symbol search is fulfilled, \<open>symbolRecall\<close> returns the candidates of the
  first result per key \<open>file:name\<close> in the stream of results of all query variants, in stream
  order; no two candidates share file and symbol name. So when two results of the stream
  have the same file and the same name, the first of them being the first with its key,
  the only candidate with that file and name is the one built from the first result, at
  the range of the first; the later result yields no candidate, and in particular none at
  its own range when that differs.
\<close>

theorem symbolRecall_first_per_file_and_name:
  "(\<forall>v \<in> set (normalizeQuery query). search v = Fulfilled (found v)) \<longrightarrow>
     symbolRecall search query
       = Fulfilled (map (symbolCandidate query)
                      (firstPerKey symbolKey {} (concat (map found (normalizeQuery query)))))
     \<and> (\<forall>out. symbolRecall search query = Fulfilled out \<longrightarrow>
          distinct (map (\<lambda>c. (file_f c, symbol c)) out)
          \<and> (concat (map found (normalizeQuery query)) = pre @ s1 # mid @ s2 # post
               \<and> (\<forall>x \<in> set pre. symbolKey x \<noteq> symbolKey s1)
               \<and> file_s s2 = file_s s1 \<and> name s2 = name s1 \<longrightarrow>
              filter (\<lambda>c. file_f c = file_s s1 \<and> symbol c = Some (name s1)) out
                = [symbolCandidate query s1]
              \<and> (range_s s2 \<noteq> range_s s1 \<longrightarrow> symbolCandidate query s2 \<notin> set out)))"
proof (intro impI conjI allI)
  assume ok: "\<forall>v \<in> set (normalizeQuery query). search v = Fulfilled (found v)"
  let ?stream = "concat (map found (normalizeQuery query))"
  let ?kept = "firstPerKey symbolKey {} ?stream"
  show eq: "symbolRecall search query = Fulfilled (map (symbolCandidate query) ?kept)"
    using ok by (rule symbolRecall_eq)
  fix out
  assume "symbolRecall search query = Fulfilled out"
  then have out: "out = map (symbolCandidate query) ?kept"
    using eq by simp
  have "distinct (map (\<lambda>x. (file_s x, Some (name x))) ?kept)"
  proof (rule distinct_map_coarser)
    show "distinct (map symbolKey ?kept)" by (rule firstPerKey_distinct)
    show "symbolKey x = symbolKey y"
      if "(file_s x, Some (name x)) = (file_s y, Some (name y))" for x y :: SymbolInfo
      using that by (simp add: symbolKey_def)
  qed
  then show "distinct (map (\<lambda>c. (file_f c, symbol c)) out)"
    by (simp add: out comp_def)
  {
    assume dup: "?stream = pre @ s1 # mid @ s2 # post
               \<and> (\<forall>x \<in> set pre. symbolKey x \<noteq> symbolKey s1)
               \<and> file_s s2 = file_s s1 \<and> name s2 = name s1"
    then have one: "filter (\<lambda>x. symbolKey x = symbolKey s1) ?kept = [s1]"
      using firstPerKey_first [of pre symbolKey s1 "{}" "mid @ s2 # post"] by simp
    have "filter (\<lambda>x. file_s x = file_s s1 \<and> name x = name s1) ?kept
            = filter (\<lambda>x. file_s x = file_s s1 \<and> name x = name s1)
                (filter (\<lambda>x. symbolKey x = symbolKey s1) ?kept)"
      by (auto simp: symbolKey_def intro: filter_cong)
    also have "\<dots> = [s1]"
      by (simp add: one)
    finally have kept1: "filter (\<lambda>x. file_s x = file_s s1 \<and> name x = name s1) ?kept = [s1]" .
    show f: "filter (\<lambda>c. file_f c = file_s s1 \<and> symbol c = Some (name s1)) out
                = [symbolCandidate query s1]"
      using kept1 by (simp add: out filter_map comp_def)
    {
      assume r: "range_s s2 \<noteq> range_s s1"
      show "symbolCandidate query s2 \<notin> set out"
      proof
        assume "symbolCandidate query s2 \<in> set out"
        then have "symbolCandidate query s2
                     \<in> set (filter (\<lambda>c. file_f c = file_s s1 \<and> symbol c = Some (name s1)) out)"
          using dup by simp
        then have "symbolCandidate query s2 = symbolCandidate query s1"
          by (simp add: f)
        then have "range_f (symbolCandidate query s2) = range_f (symbolCandidate query s1)"
          by simp
        then show False using r by simp
      qed
    }
  }
qed

theorem symbolRecall_first_per_file_and_name_witness:
  "concat (map demo_found (normalizeQuery ''foo''))
     = [] @ demo_symbol ''foo'' ''m.py'' 1 # [] @ demo_symbol ''foo'' ''m.py'' 7
         # [demo_symbol ''Foo'' ''a.ts'' 1, demo_symbol ''foo'' ''m.py'' 1]
   \<and> file_s (demo_symbol ''foo'' ''m.py'' 7) = file_s (demo_symbol ''foo'' ''m.py'' 1)
   \<and> name (demo_symbol ''foo'' ''m.py'' 7) = name (demo_symbol ''foo'' ''m.py'' 1)
   \<and> startLine (location (demo_symbol ''foo'' ''m.py'' 7))
       \<noteq> startLine (location (demo_symbol ''foo'' ''m.py'' 1))
   \<and> range_s (demo_symbol ''foo'' ''m.py'' 7) \<noteq> range_s (demo_symbol ''foo'' ''m.py'' 1)
   \<and> symbolRecall (\<lambda>v. Fulfilled (demo_found v)) ''foo''
       = Fulfilled [symbolCandidate ''foo'' (demo_symbol ''foo'' ''m.py'' 1),
                    symbolCandidate ''foo'' (demo_symbol ''Foo'' ''a.ts'' 1)]
   \<and> filter (\<lambda>c. file_f c = ''m.py'' \<and> symbol c = Some ''foo'')
         [symbolCandidate ''foo'' (demo_symbol ''foo'' ''m.py'' 1),
          symbolCandidate ''foo'' (demo_symbol ''Foo'' ''a.ts'' 1)]
       = [symbolCandidate ''foo'' (demo_symbol ''foo'' ''m.py'' 1)]
   \<and> symbolCandidate ''foo'' (demo_symbol ''foo'' ''m.py'' 7)
       \<notin> set [symbolCandidate ''foo'' (demo_symbol ''foo'' ''m.py'' 1),
                symbolCandidate ''foo'' (demo_symbol ''Foo'' ''a.ts'' 1)]
   \<and> range_f (symbolCandidate ''foo'' (demo_symbol ''foo'' ''m.py'' 1)) = ''[1:1]''"
proof -
  let ?f1 = "demo_symbol ''foo'' ''m.py'' 1"
  let ?f7 = "demo_symbol ''foo'' ''m.py'' 7"
  let ?fa = "demo_symbol ''Foo'' ''a.ts'' 1"
  let ?search = "\<lambda>v. Fulfilled (demo_found v)"
  have ok: "\<forall>v \<in> set (normalizeQuery ''foo''). ?search v = Fulfilled (demo_found v)"
    by simp
  have stream: "concat (map demo_found (normalizeQuery ''foo'')) = [] @ ?f1 # [] @ ?f7 # [?fa, ?f1]"
    by (simp add: demo_variants demo_found_def)
  have pre: "\<forall>x \<in> set []. symbolKey x \<noteq> symbolKey ?f1"
    by simp
  have same: "file_s ?f7 = file_s ?f1 \<and> name ?f7 = name ?f1"
    by (simp add: demo_symbol_def)
  have line: "startLine (location ?f7) \<noteq> startLine (location ?f1)"
    by (simp add: demo_symbol_def)
  have rng: "range_s ?f7 \<noteq> range_s ?f1"
    by (simp add: demo_symbol_def formatRange_def showNat.simps digitChars_def)
  have ev: "symbolRecall ?search ''foo''
      = Fulfilled [symbolCandidate ''foo'' ?f1, symbolCandidate ''foo'' ?fa]"
    by (simp add: symbolRecall_def demo_variants demo_found_def symbolKey_def demo_symbol_def)
  note th = symbolRecall_first_per_file_and_name
      [where query = "''foo''" and search = ?search and found = demo_found
         and pre = "[]" and ?s1.0 = ?f1 and mid = "[]" and ?s2.0 = ?f7 and post = "[?fa, ?f1]"]
  from th ok ev stream pre same rng
  have flt: "filter (\<lambda>c. file_f c = file_s ?f1 \<and> symbol c = Some (name ?f1))
               [symbolCandidate ''foo'' ?f1, symbolCandidate ''foo'' ?fa]
             = [symbolCandidate ''foo'' ?f1]"
    and gone: "symbolCandidate ''foo'' ?f7
                 \<notin> set [symbolCandidate ''foo'' ?f1, symbolCandidate ''foo'' ?fa]"
    by blast+
  have fn: "file_s ?f1 = ''m.py'' \<and> name ?f1 = ''foo''"
    by (simp add: demo_symbol_def)
  have r1: "range_f (symbolCandidate ''foo'' ?f1) = ''[1:1]''"
    by (simp add: symbolCandidate_def demo_symbol_def formatRange_def showNat.simps digitChars_def)
  show ?thesis
    using stream same line rng ev flt gone fn r1 by (simp only: simp_thms)
qed

end
